theory Spec2Isabelle
  imports Main "HOL-Library.AList" "HOL-Library.Sublist"
begin

section \<open>JSON values and the Python operations the service applies to them\<close>

text \<open>
  \<^verbatim>\<open>app.py\<close> keeps its whole state as the value \<^verbatim>\<open>json.load\<close> returns and handles it
  with dynamically typed operations.  The model keeps that: a state is a JSON value, a
  dictionary is an association list in insertion order (the order \<^verbatim>\<open>json.dump\<close>
  writes), and every operation that raises in Python returns the exception as a value.
  Numbers are integers; no operation of the service looks at a number other than for
  its truth value.
\<close>

datatype json =
    JNull
  | JBool bool
  | JNum int
  | JStr string
  | JArr "json list"
  | JObj "(string \<times> json) list"

datatype exn =
    TypeError | KeyError | AttributeError | IndexError
  | UnicodeDecodeError | OSError
  | UnsupportedMediaType | BadRequest

text \<open>Sequencing of computations that may raise: the first exception wins.\<close>

definition try_bind :: "exn + 'a \<Rightarrow> ('a \<Rightarrow> exn + 'b) \<Rightarrow> exn + 'b" where
  "try_bind m k = (case m of Inl e \<Rightarrow> Inl e | Inr x \<Rightarrow> k x)"

text \<open>\<^verbatim>\<open>bool(x)\<close>, as \<^verbatim>\<open>if x\<close> and \<^verbatim>\<open>not x\<close> use it.\<close>

fun truthy :: "json \<Rightarrow> bool" where
  "truthy JNull = False"
| "truthy (JBool b) = b"
| "truthy (JNum n) = (n \<noteq> 0)"
| "truthy (JStr s) = (s \<noteq> [])"
| "truthy (JArr xs) = (xs \<noteq> [])"
| "truthy (JObj kvs) = (kvs \<noteq> [])"

text \<open>
  \<^verbatim>\<open>k in x\<close> for a string \<^verbatim>\<open>k\<close>: key membership in a dict, element membership in a
  list (only the string \<^verbatim>\<open>k\<close> itself compares equal to \<^verbatim>\<open>k\<close>), substring test in a
  string, \<^verbatim>\<open>TypeError\<close> for \<^verbatim>\<open>None\<close>, booleans and numbers.
\<close>

fun py_contains :: "string \<Rightarrow> json \<Rightarrow> exn + bool" where
  "py_contains k (JObj kvs) = Inr (k \<in> set (map fst kvs))"
| "py_contains k (JArr xs) = Inr (JStr k \<in> set xs)"
| "py_contains k (JStr s) = Inr (sublist k s)"
| "py_contains k JNull = Inl TypeError"
| "py_contains k (JBool b) = Inl TypeError"
| "py_contains k (JNum n) = Inl TypeError"

text \<open>\<^verbatim>\<open>x[k]\<close> for a string \<^verbatim>\<open>k\<close>: only a dict can be subscripted by a string.\<close>

fun py_getitem :: "json \<Rightarrow> string \<Rightarrow> exn + json" where
  "py_getitem (JObj kvs) k = (case map_of kvs k of None \<Rightarrow> Inl KeyError | Some v \<Rightarrow> Inr v)"
| "py_getitem JNull k = Inl TypeError"
| "py_getitem (JBool b) k = Inl TypeError"
| "py_getitem (JNum n) k = Inl TypeError"
| "py_getitem (JStr s) k = Inl TypeError"
| "py_getitem (JArr xs) k = Inl TypeError"

text \<open>\<^verbatim>\<open>x.get(k, dflt)\<close>: a method of dicts only.\<close>

fun py_get :: "json \<Rightarrow> string \<Rightarrow> json \<Rightarrow> exn + json" where
  "py_get (JObj kvs) k dflt = Inr (case map_of kvs k of None \<Rightarrow> dflt | Some v \<Rightarrow> v)"
| "py_get JNull k dflt = Inl AttributeError"
| "py_get (JBool b) k dflt = Inl AttributeError"
| "py_get (JNum n) k dflt = Inl AttributeError"
| "py_get (JStr s) k dflt = Inl AttributeError"
| "py_get (JArr xs) k dflt = Inl AttributeError"

text \<open>
  \<^verbatim>\<open>x[k] = v\<close> for a string \<^verbatim>\<open>k\<close>: a dict keeps the position of a key it has and puts
  a new key last; the result is the mutated object.
\<close>

fun py_setitem :: "json \<Rightarrow> string \<Rightarrow> json \<Rightarrow> exn + json" where
  "py_setitem (JObj kvs) k v = Inr (JObj (AList.update k v kvs))"
| "py_setitem JNull k v = Inl TypeError"
| "py_setitem (JBool b) k v = Inl TypeError"
| "py_setitem (JNum n) k v = Inl TypeError"
| "py_setitem (JStr s) k v = Inl TypeError"
| "py_setitem (JArr xs) k v = Inl TypeError"

text \<open>\<^verbatim>\<open>del x[k]\<close> for a string \<^verbatim>\<open>k\<close>.\<close>

fun py_delitem :: "json \<Rightarrow> string \<Rightarrow> exn + json" where
  "py_delitem (JObj kvs) k =
     (if k \<in> set (map fst kvs) then Inr (JObj (AList.delete k kvs)) else Inl KeyError)"
| "py_delitem JNull k = Inl TypeError"
| "py_delitem (JBool b) k = Inl TypeError"
| "py_delitem (JNum n) k = Inl TypeError"
| "py_delitem (JStr s) k = Inl TypeError"
| "py_delitem (JArr xs) k = Inl TypeError"

text \<open>\<^verbatim>\<open>x.append(v)\<close>: a method of lists only.\<close>

fun py_append :: "json \<Rightarrow> json \<Rightarrow> exn + json" where
  "py_append (JArr xs) v = Inr (JArr (xs @ [v]))"
| "py_append JNull v = Inl AttributeError"
| "py_append (JBool b) v = Inl AttributeError"
| "py_append (JNum n) v = Inl AttributeError"
| "py_append (JStr s) v = Inl AttributeError"
| "py_append (JObj kvs) v = Inl AttributeError"

text \<open>
  \<^verbatim>\<open>x[-n:]\<close>: the last \<^verbatim>\<open>n\<close> elements of a list or a string, all of it when it is
  shorter.  A dict raises (\<^verbatim>\<open>TypeError\<close> before Python 3.12, \<^verbatim>\<open>KeyError\<close> since; the
  callers treat both alike).
\<close>

fun py_last_n :: "nat \<Rightarrow> json \<Rightarrow> exn + json" where
  "py_last_n n (JArr xs) = Inr (JArr (drop (length xs - n) xs))"
| "py_last_n n (JStr s) = Inr (JStr (drop (length s - n) s))"
| "py_last_n n JNull = Inl TypeError"
| "py_last_n n (JBool b) = Inl TypeError"
| "py_last_n n (JNum i) = Inl TypeError"
| "py_last_n n (JObj kvs) = Inl TypeError"

text \<open>The elements a \<^verbatim>\<open>for\<close> loop visits.\<close>

fun py_iter :: "json \<Rightarrow> exn + json list" where
  "py_iter (JArr xs) = Inr xs"
| "py_iter (JStr s) = Inr (map (\<lambda>c. JStr [c]) s)"
| "py_iter (JObj kvs) = Inr (map (\<lambda>kv. JStr (fst kv)) kvs)"
| "py_iter JNull = Inl TypeError"
| "py_iter (JBool b) = Inl TypeError"
| "py_iter (JNum n) = Inl TypeError"

text \<open>\<^verbatim>\<open>len(x)\<close> and \<^verbatim>\<open>x[0]\<close>.\<close>

fun py_len :: "json \<Rightarrow> exn + nat" where
  "py_len (JArr xs) = Inr (length xs)"
| "py_len (JStr s) = Inr (length s)"
| "py_len (JObj kvs) = Inr (length kvs)"
| "py_len JNull = Inl TypeError"
| "py_len (JBool b) = Inl TypeError"
| "py_len (JNum n) = Inl TypeError"

fun py_first :: "json \<Rightarrow> exn + json" where
  "py_first (JArr []) = Inl IndexError"
| "py_first (JArr (x # xs)) = Inr x"
| "py_first (JStr []) = Inl IndexError"
| "py_first (JStr (c # s)) = Inr (JStr [c])"
| "py_first (JObj kvs) = Inl KeyError"
| "py_first JNull = Inl TypeError"
| "py_first (JBool b) = Inl TypeError"
| "py_first (JNum n) = Inl TypeError"

section \<open>The store: \<^verbatim>\<open>WhatsAppManager\<close>\<close>

text \<open>
  The backing file as \<^verbatim>\<open>load_data\<close> sees it: missing (\<^verbatim>\<open>os.path.exists\<close> is false);
  present but \<^verbatim>\<open>open\<close> raises \<^verbatim>\<open>OSError\<close>; present with bytes that are not UTF-8, so
  that reading raises \<^verbatim>\<open>UnicodeDecodeError\<close>; present with a text on which \<^verbatim>\<open>json.load\<close>
  raises \<^verbatim>\<open>JSONDecodeError\<close>; or present with the value it decodes to.
\<close>

datatype file_content = Absent | Unopenable | NotUtf8 | Undecodable | Parsed json

definition default_items :: "(string \<times> json) list" where
  "default_items =
     [(''conversations'', JObj []),
      (''currentConvId'', JStr ''conv-default''),
      (''simulateBot'', JBool False),
      (''geminiEnabled'', JBool False)]"

definition default_data :: json where
  "default_data = JObj default_items"

text \<open>
  The loop of lines 40 to 42: \<^verbatim>\<open>for key, value in default_data.items(): if key not in
  data: data[key] = value\<close>.
\<close>

fun fill_defaults :: "json \<Rightarrow> (string \<times> json) list \<Rightarrow> exn + json" where
  "fill_defaults d [] = Inr d"
| "fill_defaults d ((k, v) # kvs) =
     (case py_contains k d of
        Inl e \<Rightarrow> Inl e
      | Inr True \<Rightarrow> fill_defaults d kvs
      | Inr False \<Rightarrow>
          (case py_setitem d k v of
             Inl e \<Rightarrow> Inl e
           | Inr d' \<Rightarrow> fill_defaults d' kvs))"

text \<open>
  \<^verbatim>\<open>load_data\<close>: the \<^verbatim>\<open>except\<close> clause catches \<^verbatim>\<open>JSONDecodeError\<close> and \<^verbatim>\<open>KeyError\<close>
  only, so any other exception, of \<^verbatim>\<open>open\<close>, of reading or of the loop, leaves the
  function.
\<close>

definition load_data :: "file_content \<Rightarrow> exn + json" where
  "load_data f =
     (case f of
        Absent \<Rightarrow> Inr default_data
      | Unopenable \<Rightarrow> Inl OSError
      | NotUtf8 \<Rightarrow> Inl UnicodeDecodeError
      | Undecodable \<Rightarrow> Inr default_data
      | Parsed d \<Rightarrow>
          (case fill_defaults d default_items of
             Inl KeyError \<Rightarrow> Inr default_data
           | Inl e \<Rightarrow> Inl e
           | Inr d' \<Rightarrow> Inr d'))"

text \<open>
  \<^verbatim>\<open>save_data\<close> opens the file with mode \<^verbatim>\<open>'w'\<close>, which empties it, and then writes.
  What happens is the environment's choice: the write goes through; opening fails and
  the file stays as it was; or writing fails after the file was emptied, which leaves
  a proper prefix of the text of a JSON object.  Such a prefix is never valid JSON;
  it is either text, which \<^verbatim>\<open>json.load\<close> rejects, or it ends inside a character of
  several bytes and is not UTF-8.  Every exception is caught and turned into the result
  \<^verbatim>\<open>False\<close>.
\<close>

datatype save_outcome = Written | OpenFailed | WriteFailed | WriteFailedMidCharacter

definition save_data :: "save_outcome \<Rightarrow> json \<Rightarrow> file_content \<Rightarrow> bool \<times> file_content" where
  "save_data so d f =
     (case so of
        Written \<Rightarrow> (True, Parsed d)
      | OpenFailed \<Rightarrow> (False, f)
      | WriteFailed \<Rightarrow> (False, Undecodable)
      | WriteFailedMidCharacter \<Rightarrow> (False, NotUtf8))"

text \<open>
  Identifiers (\<^verbatim>\<open>str(uuid.uuid4())\<close>) and timestamps (\<^verbatim>\<open>datetime.now().isoformat()\<close>)
  come from the environment: every operation that draws one takes it as an argument.
\<close>

definition welcome_text :: string where
  "welcome_text =
     ''Ol'' @ [CHR 0xC3, CHR 0xA1] @ ''! Sou o Gemini AI. Como posso ajud''
       @ [CHR 0xC3, CHR 0xA1] @ ''-lo hoje?''"

definition welcome_conversation :: "string \<Rightarrow> string \<Rightarrow> json" where
  "welcome_conversation uid now =
     JObj [(''id'', JStr ''conv-default''),
           (''name'', JStr ''Conversa com Gemini AI''),
           (''messages'',
              JArr [JObj [(''id'', JStr uid),
                          (''who'', JStr ''their''),
                          (''text'', JStr welcome_text),
                          (''ts'', JStr now),
                          (''status'', JStr ''delivered'')]])]"

text \<open>Lines 64 to 77 of \<^verbatim>\<open>init_default_data\<close>.\<close>

definition ensure_default :: "string \<Rightarrow> string \<Rightarrow> json \<Rightarrow> exn + json" where
  "ensure_default uid now data =
     try_bind (py_getitem data ''conversations'') (\<lambda>convs.
     try_bind (py_contains ''conv-default'' convs) (\<lambda>present.
       if present then Inr data
       else try_bind (py_setitem convs ''conv-default'' (welcome_conversation uid now)) (\<lambda>convs'.
            py_setitem data ''conversations'' convs')))"

text \<open>Lines 80 to 82 of \<^verbatim>\<open>init_default_data\<close>.\<close>

definition ensure_flags :: "json \<Rightarrow> exn + json" where
  "ensure_flags data =
     try_bind (py_get data ''currentConvId'' (JStr ''conv-default'')) (\<lambda>v1.
     try_bind (py_setitem data ''currentConvId'' v1) (\<lambda>d1.
     try_bind (py_get d1 ''simulateBot'' (JBool False)) (\<lambda>v2.
     try_bind (py_setitem d1 ''simulateBot'' v2) (\<lambda>d2.
     try_bind (py_get d2 ''geminiEnabled'' (JBool True)) (\<lambda>v3.
     py_setitem d2 ''geminiEnabled'' v3)))))"

text \<open>
  \<^verbatim>\<open>init_default_data\<close> has no \<^verbatim>\<open>try\<close>: an exception leaves it before anything is
  written.  The result of \<^verbatim>\<open>save_data\<close> is not looked at.
\<close>

definition init_default_data ::
  "string \<Rightarrow> string \<Rightarrow> save_outcome \<Rightarrow> file_content \<Rightarrow> (exn + json) \<times> file_content" where
  "init_default_data uid now so f =
     (case try_bind (load_data f) (\<lambda>data. try_bind (ensure_default uid now data) ensure_flags) of
        Inl e \<Rightarrow> (Inl e, f)
      | Inr data \<Rightarrow> (Inr data, snd (save_data so data f)))"

section \<open>The reply generator: \<^verbatim>\<open>GeminiAIManager.generate_response\<close>\<close>

text \<open>
  An f-string field \<^verbatim>\<open>{x}\<close> is \<^verbatim>\<open>x\<close> itself when \<^verbatim>\<open>x\<close> is a string and \<^verbatim>\<open>str(x)\<close>
  otherwise.  Python's \<^verbatim>\<open>str\<close> of a value that is not a string is not modelled: it is
  the parameter \<open>repr\<close>, and everything below holds for every \<open>repr\<close>.
\<close>

definition py_format :: "(json \<Rightarrow> string) \<Rightarrow> json \<Rightarrow> string" where
  "py_format repr v = (case v of JStr s \<Rightarrow> s | _ \<Rightarrow> repr v)"

text \<open>Lines 102 and 103: the line of one context message.\<close>

definition context_part :: "(json \<Rightarrow> string) \<Rightarrow> json \<Rightarrow> exn + string" where
  "context_part repr msg =
     try_bind (py_getitem msg ''who'') (\<lambda>w.
     try_bind (py_getitem msg ''text'') (\<lambda>t.
       Inr ((if w = JStr ''mine'' then ''user'' else ''model'') @ '': '' @ py_format repr t)))"

fun context_parts :: "(json \<Rightarrow> string) \<Rightarrow> json list \<Rightarrow> exn + string list" where
  "context_parts repr [] = Inr []"
| "context_parts repr (m # ms) =
     (case context_part repr m of
        Inl e \<Rightarrow> Inl e
      | Inr p \<Rightarrow>
          (case context_parts repr ms of
             Inl e \<Rightarrow> Inl e
           | Inr ps \<Rightarrow> Inr (p # ps)))"

text \<open>\<^verbatim>\<open>"\n".join(parts)\<close>.\<close>

fun join_lines :: "string list \<Rightarrow> string" where
  "join_lines [] = []"
| "join_lines [p] = p"
| "join_lines (p # q # ps) = p @ [CHR 0x0A] @ join_lines (q # ps)"

text \<open>Lines 99 to 105: the text of the request.\<close>

definition full_prompt :: "(json \<Rightarrow> string) \<Rightarrow> json \<Rightarrow> json \<Rightarrow> exn + json" where
  "full_prompt repr prompt conversation_context =
     try_bind
       (if truthy conversation_context
        then try_bind (py_last_n 6 conversation_context) (\<lambda>recent.
             try_bind (py_iter recent) (context_parts repr))
        else Inr [])
       (\<lambda>parts.
          Inr (if parts \<noteq> []
               then JStr (join_lines (parts @ [''user: '' @ py_format repr prompt]))
               else prompt))"

text \<open>
  The exchange with the remote service is the environment's: \<open>http\<close> maps the text of the
  request to what \<^verbatim>\<open>requests.post\<close>, \<^verbatim>\<open>raise_for_status\<close> and \<^verbatim>\<open>response.json\<close> give,
  a \<^verbatim>\<open>RequestException\<close> or the decoded reply.
\<close>

datatype http_outcome = RequestException | Replied json

text \<open>Lines 130 to 137: the text of the first candidate, if there is a candidate.\<close>

definition first_candidate_text :: "json \<Rightarrow> exn + json option" where
  "first_candidate_text result =
     try_bind (py_contains ''candidates'' result) (\<lambda>has.
       if \<not> has then Inr None
       else try_bind (py_getitem result ''candidates'') (\<lambda>cands.
            try_bind (py_len cands) (\<lambda>n.
              if 0 < n
              then try_bind (py_getitem result ''candidates'') (\<lambda>cands'.
                   try_bind (py_first cands') (\<lambda>c.
                   try_bind (py_getitem c ''content'') (\<lambda>content.
                   try_bind (py_getitem content ''parts'') (\<lambda>parts.
                   try_bind (py_first parts) (\<lambda>part.
                   try_bind (py_getitem part ''text'') (\<lambda>t.
                     Inr (Some t)))))))
              else Inr None)))"

text \<open>
  The dictionary \<^verbatim>\<open>generate_response\<close> returns has either the key \<^verbatim>\<open>error\<close> alone or
  the keys \<^verbatim>\<open>response\<close> and \<^verbatim>\<open>status\<close> (always \<^verbatim>\<open>"success"\<close>); the error texts
  embed Python's exception messages, so the model keeps the kind of error only.
\<close>

datatype gen_error = NotConfigured | NoCandidates | ConnectionError | ApiError exn

definition generate_response ::
  "string option \<Rightarrow> (json \<Rightarrow> string) \<Rightarrow> (json \<Rightarrow> http_outcome) \<Rightarrow> json \<Rightarrow> json
     \<Rightarrow> gen_error + json" where
  "generate_response api_key repr http prompt conversation_context =
     (if api_key = None \<or> api_key = Some [] then Inl NotConfigured
      else
        (case full_prompt repr prompt conversation_context of
           Inl e \<Rightarrow> Inl (ApiError e)
         | Inr text \<Rightarrow>
             (case http text of
                RequestException \<Rightarrow> Inl ConnectionError
              | Replied result \<Rightarrow>
                  (case first_candidate_text result of
                     Inl e \<Rightarrow> Inl (ApiError e)
                   | Inr None \<Rightarrow> Inl NoCandidates
                   | Inr (Some t) \<Rightarrow> Inr t))))"

section \<open>The delayed notifier: \<^verbatim>\<open>generate_gemini_reply\<close>\<close>

text \<open>The arguments \<^verbatim>\<open>threading.Timer\<close> is started with (lines 258 and 259).\<close>

record timer =
  conversation_id :: string
  user_message :: json
  context_messages :: json

text \<open>\<^verbatim>\<open>data["conversations"][cid]["messages"].append(m)\<close>, with the mutated state as result.\<close>

definition append_message :: "json \<Rightarrow> string \<Rightarrow> json \<Rightarrow> exn + json" where
  "append_message data cid m =
     try_bind (py_getitem data ''conversations'') (\<lambda>convs.
     try_bind (py_getitem convs cid) (\<lambda>conv.
     try_bind (py_getitem conv ''messages'') (\<lambda>msgs.
     try_bind (py_append msgs m) (\<lambda>msgs'.
     try_bind (py_setitem conv ''messages'' msgs') (\<lambda>conv'.
     try_bind (py_setitem convs cid conv') (\<lambda>convs'.
     py_setitem data ''conversations'' convs'))))))"

definition reply_message :: "string \<Rightarrow> string \<Rightarrow> json \<Rightarrow> json" where
  "reply_message uid now text =
     JObj [(''id'', JStr uid),
           (''who'', JStr ''their''),
           (''text'', text),
           (''ts'', JStr now),
           (''status'', JStr ''delivered'')]"

text \<open>
  The body of the timer.  Its \<^verbatim>\<open>try\<close> catches every exception, and the result of
  \<^verbatim>\<open>save_data\<close> is not looked at; what remains is the file it leaves.
\<close>

definition generate_gemini_reply ::
  "string option \<Rightarrow> (json \<Rightarrow> string) \<Rightarrow> (json \<Rightarrow> http_outcome) \<Rightarrow> string \<Rightarrow> string
     \<Rightarrow> save_outcome \<Rightarrow> timer \<Rightarrow> file_content \<Rightarrow> file_content" where
  "generate_gemini_reply api_key repr http uid now so t f =
     (case generate_response api_key repr http (user_message t) (context_messages t) of
        Inl err \<Rightarrow> f
      | Inr text \<Rightarrow>
          (case load_data f of
             Inl e \<Rightarrow> f
           | Inr data \<Rightarrow>
               (case try_bind (py_getitem data ''conversations'')
                       (py_contains (conversation_id t)) of
                  Inl e \<Rightarrow> f
                | Inr False \<Rightarrow> f
                | Inr True \<Rightarrow>
                    (case append_message data (conversation_id t) (reply_message uid now text) of
                       Inl e \<Rightarrow> f
                     | Inr data' \<Rightarrow> snd (save_data so data' f)))))"

section \<open>The request handlers\<close>

text \<open>
  A response is the status code with the body.  When a handler's \<^verbatim>\<open>except Exception\<close>
  answers, the body is \<^verbatim>\<open>{"error": str(e)}\<close>; the model records the exception in place
  of Python's message text.  What \<^verbatim>\<open>request.json\<close> gives is an argument of the
  handler: the decoded body (\<open>JNull\<close> for the body \<^verbatim>\<open>null\<close>), or the exception the
  access raises, \<^verbatim>\<open>UnsupportedMediaType\<close> for a request without a JSON body and
  \<^verbatim>\<open>BadRequest\<close> for a body that is not JSON.  The access stands inside the handler's
  \<^verbatim>\<open>try\<close>, so the exception is answered like any other.
\<close>

datatype body = Body json | Error_of exn

type_synonym response = "nat \<times> body"

definition error_body :: "string \<Rightarrow> body" where
  "error_body m = Body (JObj [(''error'', JStr m)])"

definition message_body :: "string \<Rightarrow> body" where
  "message_body m = Body (JObj [(''message'', JStr m)])"

definition caught :: "exn \<Rightarrow> response" where
  "caught e = (500, Error_of e)"

definition a_tilde :: string where "a_tilde = [CHR 0xC3, CHR 0xA3]"
definition e_acute :: string where "e_acute = [CHR 0xC3, CHR 0xA9]"
definition o_acute :: string where "o_acute = [CHR 0xC3, CHR 0xB3]"
definition i_acute :: string where "i_acute = [CHR 0xC3, CHR 0xAD]"
definition c_cedilla :: string where "c_cedilla = [CHR 0xC3, CHR 0xA7]"
definition o_tilde :: string where "o_tilde = [CHR 0xC3, CHR 0xB5]"

definition not_found_text :: string where
  "not_found_text = ''Conversa n'' @ a_tilde @ ''o encontrada''"

definition name_required_text :: string where
  "name_required_text = ''Nome da conversa '' @ e_acute @ '' obrigat'' @ o_acute @ ''rio''"

definition data_required_text :: string where
  "data_required_text =
     ''Dados da mensagem s'' @ a_tilde @ ''o obrigat'' @ o_acute @ ''rios''"

definition field_required_text :: "string \<Rightarrow> string" where
  "field_required_text field =
     ''Campo '' @ [CHR 0x27] @ field @ [CHR 0x27] @ '' '' @ e_acute
       @ '' obrigat'' @ o_acute @ ''rio''"

definition default_undeletable_text :: string where
  "default_undeletable_text =
     ''N'' @ a_tilde @ ''o '' @ e_acute @ '' poss'' @ i_acute
       @ ''vel deletar a conversa padr'' @ a_tilde @ ''o''"

definition save_changes_failed_text :: string where
  "save_changes_failed_text = ''Erro ao salvar altera'' @ c_cedilla @ o_tilde @ ''es''"

definition save_config_failed_text :: string where
  "save_config_failed_text = ''Erro ao salvar configura'' @ c_cedilla @ a_tilde @ ''o''"

subsection \<open>\<^verbatim>\<open>create_conversation\<close>\<close>

definition create_conversation ::
  "exn + json \<Rightarrow> string \<Rightarrow> save_outcome \<Rightarrow> file_content \<Rightarrow> response \<times> file_content" where
  "create_conversation request_json uid so f =
     (case load_data f of
        Inl e \<Rightarrow> (caught e, f)
      | Inr data \<Rightarrow>
          (case request_json of
             Inl e \<Rightarrow> (caught e, f)
           | Inr new_conv \<Rightarrow>
               if \<not> truthy new_conv then ((400, error_body name_required_text), f)
               else
                 (case py_get new_conv ''name'' JNull of
                    Inl e \<Rightarrow> (caught e, f)
                  | Inr nm \<Rightarrow>
                      if \<not> truthy nm then ((400, error_body name_required_text), f)
                      else
                        (case try_bind (py_getitem new_conv ''name'') (\<lambda>name.
                                let conversation =
                                      JObj [(''id'', JStr (''conv-'' @ uid)),
                                            (''name'', name),
                                            (''messages'', JArr [])]
                                in try_bind (py_getitem data ''conversations'') (\<lambda>convs.
                                   try_bind (py_setitem convs (''conv-'' @ uid) conversation)
                                     (\<lambda>convs'.
                                   try_bind (py_setitem data ''conversations'' convs') (\<lambda>data'.
                                     Inr (conversation, data'))))) of
                           Inl e \<Rightarrow> (caught e, f)
                         | Inr (conversation, data') \<Rightarrow>
                             (case save_data so data' f of
                                (ok, f') \<Rightarrow>
                                  if ok then ((201, Body conversation), f')
                                  else ((500, error_body ''Erro ao salvar conversa''), f'))))))"

subsection \<open>\<^verbatim>\<open>add_message\<close>\<close>

text \<open>The loop over \<^verbatim>\<open>required_fields\<close>: the first field that is not in the payload.\<close>

fun missing_field :: "json \<Rightarrow> string list \<Rightarrow> exn + string option" where
  "missing_field md [] = Inr None"
| "missing_field md (field # rest) =
     (case py_contains field md of
        Inl e \<Rightarrow> Inl e
      | Inr False \<Rightarrow> Inr (Some field)
      | Inr True \<Rightarrow> missing_field md rest)"

text \<open>Lines 237 to 243.\<close>

definition new_message :: "string \<Rightarrow> string \<Rightarrow> json \<Rightarrow> exn + json" where
  "new_message uid now md =
     try_bind (py_getitem md ''who'') (\<lambda>w.
     try_bind (py_getitem md ''text'') (\<lambda>t.
     try_bind (py_get md ''status'' (JStr ''sent'')) (\<lambda>s.
       Inr (JObj [(''id'', JStr uid),
                  (''who'', w),
                  (''text'', t),
                  (''ts'', JStr now),
                  (''status'', s)]))))"

text \<open>
  Lines 250 to 260, run once the message is saved: the timer to start, if any.  The
  context is cut from the state the handler holds, the new message included.
\<close>

definition auto_reply_timer :: "json \<Rightarrow> string \<Rightarrow> json \<Rightarrow> exn + timer option" where
  "auto_reply_timer data cid md =
     try_bind (py_getitem md ''who'') (\<lambda>w.
       if w \<noteq> JStr ''mine'' then Inr None
       else try_bind (py_get data ''geminiEnabled'' (JBool False)) (\<lambda>g.
         if \<not> truthy g then Inr None
         else try_bind (py_getitem data ''conversations'') (\<lambda>convs.
              try_bind (py_getitem convs cid) (\<lambda>conversation.
              try_bind (py_getitem conversation ''messages'') (\<lambda>msgs.
              try_bind (py_last_n 5 msgs) (\<lambda>ctx.
              try_bind (py_getitem md ''text'') (\<lambda>t.
                Inr (Some \<lparr>conversation_id = cid, user_message = t,
                           context_messages = ctx\<rparr>))))))))"

definition add_message ::
  "string \<Rightarrow> exn + json \<Rightarrow> string \<Rightarrow> string \<Rightarrow> save_outcome \<Rightarrow> file_content
     \<Rightarrow> response \<times> file_content \<times> timer option" where
  "add_message cid request_json uid now so f =
     (case load_data f of
        Inl e \<Rightarrow> (caught e, f, None)
      | Inr data \<Rightarrow>
          (case try_bind (py_getitem data ''conversations'') (py_contains cid) of
             Inl e \<Rightarrow> (caught e, f, None)
           | Inr False \<Rightarrow> ((404, error_body not_found_text), f, None)
           | Inr True \<Rightarrow>
               (case request_json of
                  Inl e \<Rightarrow> (caught e, f, None)
                | Inr md \<Rightarrow>
                    if \<not> truthy md then ((400, error_body data_required_text), f, None)
                    else
                      (case missing_field md [''who'', ''text''] of
                         Inl e \<Rightarrow> (caught e, f, None)
                       | Inr (Some field) \<Rightarrow>
                           ((400, error_body (field_required_text field)), f, None)
                       | Inr None \<Rightarrow>
                           (case try_bind (new_message uid now md) (\<lambda>m.
                                   try_bind (append_message data cid m) (\<lambda>data'.
                                     Inr (m, data'))) of
                              Inl e \<Rightarrow> (caught e, f, None)
                            | Inr (m, data') \<Rightarrow>
                                (case save_data so data' f of
                                   (ok, f') \<Rightarrow>
                                     if ok
                                     then (case auto_reply_timer data' cid md of
                                             Inl e \<Rightarrow> (caught e, f', None)
                                           | Inr t \<Rightarrow> ((201, Body m), f', t))
                                     else ((500, error_body ''Erro ao salvar mensagem''),
                                           f', None)))))))"

subsection \<open>\<^verbatim>\<open>delete_conversation\<close> and \<^verbatim>\<open>clear_messages\<close>\<close>

text \<open>Lines 294 to 297.\<close>

definition remove_conversation :: "json \<Rightarrow> string \<Rightarrow> exn + json" where
  "remove_conversation data cid =
     try_bind (py_getitem data ''conversations'') (\<lambda>convs.
     try_bind (py_delitem convs cid) (\<lambda>convs'.
     try_bind (py_setitem data ''conversations'' convs') (\<lambda>data1.
     try_bind (py_getitem data1 ''currentConvId'') (\<lambda>cur.
       if cur = JStr cid then py_setitem data1 ''currentConvId'' (JStr ''conv-default'')
       else Inr data1))))"

definition delete_conversation ::
  "string \<Rightarrow> save_outcome \<Rightarrow> file_content \<Rightarrow> response \<times> file_content" where
  "delete_conversation cid so f =
     (case load_data f of
        Inl e \<Rightarrow> (caught e, f)
      | Inr data \<Rightarrow>
          (case try_bind (py_getitem data ''conversations'') (py_contains cid) of
             Inl e \<Rightarrow> (caught e, f)
           | Inr False \<Rightarrow> ((404, error_body not_found_text), f)
           | Inr True \<Rightarrow>
               if cid = ''conv-default''
               then ((400, error_body default_undeletable_text), f)
               else
                 (case remove_conversation data cid of
                    Inl e \<Rightarrow> (caught e, f)
                  | Inr data' \<Rightarrow>
                      (case save_data so data' f of
                         (ok, f') \<Rightarrow>
                           if ok then ((200, message_body ''Conversa deletada com sucesso''), f')
                           else ((500, error_body save_changes_failed_text), f')))))"

text \<open>\<^verbatim>\<open>data["conversations"][cid]["messages"] = []\<close>.\<close>

definition empty_messages :: "json \<Rightarrow> string \<Rightarrow> exn + json" where
  "empty_messages data cid =
     try_bind (py_getitem data ''conversations'') (\<lambda>convs.
     try_bind (py_getitem convs cid) (\<lambda>conv.
     try_bind (py_setitem conv ''messages'' (JArr [])) (\<lambda>conv'.
     try_bind (py_setitem convs cid conv') (\<lambda>convs'.
     py_setitem data ''conversations'' convs'))))"

definition clear_messages ::
  "string \<Rightarrow> save_outcome \<Rightarrow> file_content \<Rightarrow> response \<times> file_content" where
  "clear_messages cid so f =
     (case load_data f of
        Inl e \<Rightarrow> (caught e, f)
      | Inr data \<Rightarrow>
          (case try_bind (py_getitem data ''conversations'') (py_contains cid) of
             Inl e \<Rightarrow> (caught e, f)
           | Inr False \<Rightarrow> ((404, error_body not_found_text), f)
           | Inr True \<Rightarrow>
               (case empty_messages data cid of
                  Inl e \<Rightarrow> (caught e, f)
                | Inr data' \<Rightarrow>
                    (case save_data so data' f of
                       (ok, f') \<Rightarrow>
                         if ok then ((200, message_body ''Mensagens limpas com sucesso''), f')
                         else ((500, error_body save_changes_failed_text), f')))))"

subsection \<open>\<^verbatim>\<open>toggle_bot\<close> and \<^verbatim>\<open>toggle_gemini\<close>\<close>

text \<open>\<^verbatim>\<open>data[flag] = not data.get(flag, False)\<close>.\<close>

definition negate_flag :: "json \<Rightarrow> string \<Rightarrow> exn + json" where
  "negate_flag data flag =
     try_bind (py_get data flag (JBool False)) (\<lambda>v.
     py_setitem data flag (JBool (\<not> truthy v)))"

definition toggle_bot :: "save_outcome \<Rightarrow> file_content \<Rightarrow> response \<times> file_content" where
  "toggle_bot so f =
     (case try_bind (load_data f) (\<lambda>data. negate_flag data ''simulateBot'') of
        Inl e \<Rightarrow> (caught e, f)
      | Inr data' \<Rightarrow>
          (case save_data so data' f of
             (ok, f') \<Rightarrow>
               if ok
               then (case py_getitem data' ''simulateBot'' of
                       Inl e \<Rightarrow> (caught e, f')
                     | Inr v \<Rightarrow> ((200, Body (JObj [(''simulateBot'', v)])), f'))
               else ((500, error_body save_config_failed_text), f')))"

definition toggle_gemini :: "save_outcome \<Rightarrow> file_content \<Rightarrow> response \<times> file_content" where
  "toggle_gemini so f =
     (case try_bind (load_data f) (\<lambda>data. negate_flag data ''geminiEnabled'') of
        Inl e \<Rightarrow> (caught e, f)
      | Inr data' \<Rightarrow>
          (case save_data so data' f of
             (ok, f') \<Rightarrow>
               if ok
               then (case py_getitem data' ''geminiEnabled'' of
                       Inl e \<Rightarrow> (caught e, f')
                     | Inr v \<Rightarrow>
                         ((200, Body (JObj [(''geminiEnabled'', v),
                                            (''message'',
                                             JStr (''Gemini AI '' @
                                               (if truthy v then ''ativado''
                                                else ''desativado'')))])), f'))
               else ((500, error_body save_config_failed_text), f')))"

section \<open>The service as a transition system\<close>

text \<open>
  What persists between two requests is the backing file and the timers that were
  started and have not fired.  An event is one request, or one timer firing, together
  with what the environment supplies to it.  The handlers of the remaining routes
  (\<^verbatim>\<open>get_conversations\<close>, \<^verbatim>\<open>get_conversation\<close>, \<^verbatim>\<open>get_messages\<close>, \<^verbatim>\<open>get_state\<close>,
  \<^verbatim>\<open>generate_with_gemini\<close>, \<^verbatim>\<open>get_gemini_status\<close>, the front end) never call
  \<^verbatim>\<open>save_data\<close> and start no timer: they are the event \<open>ReadOnly\<close>.  Events run one
  after the other; two requests that interleave their load and save are outside this
  model.
\<close>

record world =
  data_file :: file_content
  timers :: "timer list"

datatype event =
    ReadOnly
  | CreateConversation "exn + json" string save_outcome
  | AddMessage string "exn + json" string string save_outcome
  | DeleteConversation string save_outcome
  | ClearMessages string save_outcome
  | ToggleBot save_outcome
  | ToggleGemini save_outcome
  | TimerFires nat "json \<Rightarrow> http_outcome" string string save_outcome

fun step :: "string option \<Rightarrow> (json \<Rightarrow> string) \<Rightarrow> world \<Rightarrow> event \<Rightarrow> world" where
  "step api_key repr w ReadOnly = w"
| "step api_key repr w (CreateConversation new_conv uid so) =
     w\<lparr>data_file := snd (create_conversation new_conv uid so (data_file w))\<rparr>"
| "step api_key repr w (AddMessage cid md uid now so) =
     (case add_message cid md uid now so (data_file w) of
        (r, f', t) \<Rightarrow>
          \<lparr>data_file = f', timers = (case t of None \<Rightarrow> timers w | Some t' \<Rightarrow> timers w @ [t'])\<rparr>)"
| "step api_key repr w (DeleteConversation cid so) =
     w\<lparr>data_file := snd (delete_conversation cid so (data_file w))\<rparr>"
| "step api_key repr w (ClearMessages cid so) =
     w\<lparr>data_file := snd (clear_messages cid so (data_file w))\<rparr>"
| "step api_key repr w (ToggleBot so) = w\<lparr>data_file := snd (toggle_bot so (data_file w))\<rparr>"
| "step api_key repr w (ToggleGemini so) = w\<lparr>data_file := snd (toggle_gemini so (data_file w))\<rparr>"
| "step api_key repr w (TimerFires i http uid now so) =
     (if i < length (timers w)
      then \<lparr>data_file = generate_gemini_reply api_key repr http uid now so (timers w ! i) (data_file w),
            timers = take i (timers w) @ drop (Suc i) (timers w)\<rparr>
      else w)"

definition run :: "string option \<Rightarrow> (json \<Rightarrow> string) \<Rightarrow> world \<Rightarrow> event list \<Rightarrow> world" where
  "run api_key repr w evs = foldl (step api_key repr) w evs"

text \<open>The outcome of the write an event attempts, if the event carries one.\<close>

fun write_of :: "event \<Rightarrow> save_outcome option" where
  "write_of ReadOnly = None"
| "write_of (CreateConversation new_conv uid so) = Some so"
| "write_of (AddMessage cid md uid now so) = Some so"
| "write_of (DeleteConversation cid so) = Some so"
| "write_of (ClearMessages cid so) = Some so"
| "write_of (ToggleBot so) = Some so"
| "write_of (ToggleGemini so) = Some so"
| "write_of (TimerFires i http uid now so) = Some so"

section \<open>The data model the specification describes\<close>

text \<open>
  The specification describes the state as typed data: an \<^verbatim>\<open>AppState\<close> with a mapping
  from identifiers to conversations, the identifier of the active conversation and
  two boolean flags; a conversation with an identifier, a name and a sequence of
  messages; a message with identifier, side (\<^verbatim>\<open>mine\<close> or \<^verbatim>\<open>their\<close>), text, timestamp
  and status.  These predicates say when a JSON value has that shape; the code itself
  never checks it.
\<close>

definition has_field :: "(string \<times> json) list \<Rightarrow> string \<Rightarrow> (json \<Rightarrow> bool) \<Rightarrow> bool" where
  "has_field kvs k P = (case map_of kvs k of None \<Rightarrow> False | Some v \<Rightarrow> P v)"

definition is_string :: "json \<Rightarrow> bool" where
  "is_string v = (case v of JStr s \<Rightarrow> True | _ \<Rightarrow> False)"

definition is_boolean :: "json \<Rightarrow> bool" where
  "is_boolean v = (case v of JBool b \<Rightarrow> True | _ \<Rightarrow> False)"

definition spec_message :: "json \<Rightarrow> bool" where
  "spec_message m =
     (case m of
        JObj kvs \<Rightarrow>
          has_field kvs ''id'' is_string
          \<and> has_field kvs ''who'' (\<lambda>w. w = JStr ''mine'' \<or> w = JStr ''their'')
          \<and> has_field kvs ''text'' is_string
          \<and> has_field kvs ''ts'' is_string
          \<and> has_field kvs ''status'' is_string
      | _ \<Rightarrow> False)"

definition spec_conversation :: "json \<Rightarrow> bool" where
  "spec_conversation c =
     (case c of
        JObj kvs \<Rightarrow>
          has_field kvs ''id'' is_string
          \<and> has_field kvs ''name'' is_string
          \<and> has_field kvs ''messages''
                (\<lambda>ms. case ms of JArr xs \<Rightarrow> list_all spec_message xs | _ \<Rightarrow> False)
      | _ \<Rightarrow> False)"

definition spec_app_state :: "json \<Rightarrow> bool" where
  "spec_app_state d =
     (case d of
        JObj kvs \<Rightarrow>
          has_field kvs ''conversations''
            (\<lambda>cs. case cs of JObj cvs \<Rightarrow> list_all spec_conversation (map snd cvs) | _ \<Rightarrow> False)
          \<and> has_field kvs ''currentConvId'' is_string
          \<and> has_field kvs ''simulateBot'' is_boolean
          \<and> has_field kvs ''geminiEnabled'' is_boolean
      | _ \<Rightarrow> False)"

text \<open>
  The identifiers of the messages a state stores, with repetitions, conversation by
  conversation: what an identifier has to differ from to be fresh, and what it has to
  occur once in to be unique.
\<close>

definition message_ids :: "json list \<Rightarrow> json list" where
  "message_ids ms =
     concat (map (\<lambda>m. case m of
                         JObj kvs \<Rightarrow> (case map_of kvs ''id'' of None \<Rightarrow> [] | Some i \<Rightarrow> [i])
                       | _ \<Rightarrow> []) ms)"

definition conversation_message_ids :: "json \<Rightarrow> json list" where
  "conversation_message_ids c =
     (case c of
        JObj kvs \<Rightarrow> (case map_of kvs ''messages'' of Some (JArr ms) \<Rightarrow> message_ids ms | _ \<Rightarrow> [])
      | _ \<Rightarrow> [])"

definition stored_message_ids :: "json \<Rightarrow> json list" where
  "stored_message_ids data =
     (case data of
        JObj kvs \<Rightarrow>
          (case map_of kvs ''conversations'' of
             Some (JObj cs) \<Rightarrow> concat (map (\<lambda>kv. conversation_message_ids (snd kv)) cs)
           | _ \<Rightarrow> [])
      | _ \<Rightarrow> [])"

section \<open>Sample data\<close>

text \<open>A small state of the service, used where a property is run on a concrete input.\<close>

definition sample_message :: json where
  "sample_message =
     JObj [(''id'', JStr ''m-0''), (''who'', JStr ''mine''), (''text'', JStr ''hi''),
           (''ts'', JStr ''2024-01-01T10:00:00''), (''status'', JStr ''sent'')]"

definition sample_conversation :: "(string \<times> json) list" where
  "sample_conversation =
     [(''id'', JStr ''conv-1''), (''name'', JStr ''Test''), (''messages'', JArr [sample_message])]"

definition sample_conversations :: "(string \<times> json) list" where
  "sample_conversations =
     [(''conv-default'',
         JObj [(''id'', JStr ''conv-default''),
               (''name'', JStr ''Conversa com Gemini AI''),
               (''messages'', JArr [])]),
      (''conv-1'', JObj sample_conversation)]"

definition sample_items :: "(string \<times> json) list" where
  "sample_items =
     [(''conversations'', JObj sample_conversations),
      (''currentConvId'', JStr ''conv-1''),
      (''simulateBot'', JBool False),
      (''geminiEnabled'', JBool True)]"

definition sample_state :: json where
  "sample_state = JObj sample_items"

definition sample_payload :: "(string \<times> json) list" where
  "sample_payload = [(''who'', JStr ''mine''), (''text'', JStr ''hello'')]"

section \<open>The request text as the specification words it\<close>

text \<open>
  The line the specification gives for one context message, \<^verbatim>\<open><role>: <text>\<close> with
  role \<^verbatim>\<open>user\<close> for a message whose \<^verbatim>\<open>who\<close> is \<^verbatim>\<open>mine\<close> and \<^verbatim>\<open>model\<close> otherwise; and
  what a context message is: an object with \<^verbatim>\<open>who\<close> and \<^verbatim>\<open>text\<close>.
\<close>

definition spec_context_line :: "(json \<Rightarrow> string) \<Rightarrow> json \<Rightarrow> string" where
  "spec_context_line repr m =
     (case m of
        JObj kvs \<Rightarrow>
          (if map_of kvs ''who'' = Some (JStr ''mine'') then ''user'' else ''model'')
            @ '': '' @ (case map_of kvs ''text'' of None \<Rightarrow> [] | Some t \<Rightarrow> py_format repr t)
      | _ \<Rightarrow> [])"

definition is_message :: "json \<Rightarrow> bool" where
  "is_message m =
     (case m of
        JObj kvs \<Rightarrow> map_of kvs ''who'' \<noteq> None \<and> map_of kvs ''text'' \<noteq> None
      | _ \<Rightarrow> False)"

text \<open>
  A remote service that answers with one candidate whose text is the text of the
  request, a stand-in for \<^verbatim>\<open>str\<close>, and a context of seven messages.
\<close>

definition echo_service :: "json \<Rightarrow> http_outcome" where
  "echo_service text =
     Replied (JObj [(''candidates'',
                      JArr [JObj [(''content'',
                                    JObj [(''parts'', JArr [JObj [(''text'', text)]])])]])])"

definition sample_repr :: "json \<Rightarrow> string" where
  "sample_repr v = []"

definition sample_context :: "json list" where
  "sample_context =
     [JObj [(''who'', JStr ''mine''), (''text'', JStr ''a1'')],
      JObj [(''who'', JStr ''their''), (''text'', JStr ''a2'')],
      JObj [(''who'', JStr ''mine''), (''text'', JStr ''a3'')],
      JObj [(''who'', JStr ''their''), (''text'', JStr ''a4'')],
      JObj [(''who'', JStr ''mine''), (''text'', JStr ''a5'')],
      JObj [(''who'', JStr ''bot''), (''text'', JStr ''a6'')],
      JObj [(''who'', JStr ''mine''), (''text'', JStr ''a7'')]]"

definition sample_request_text :: string where
  "sample_request_text =
     ''model: a2'' @ [CHR 0x0A] @ ''user: a3'' @ [CHR 0x0A] @ ''model: a4'' @ [CHR 0x0A]
       @ ''user: a5'' @ [CHR 0x0A] @ ''model: a6'' @ [CHR 0x0A] @ ''user: a7'' @ [CHR 0x0A]
       @ ''user: q''"

section \<open>The context of the notifier as C6 words it\<close>

text \<open>
  The last five messages of the target conversation in the state the notifier would
  find by reloading the file.
\<close>

definition reloaded_context :: "file_content \<Rightarrow> string \<Rightarrow> exn + json" where
  "reloaded_context f cid =
     try_bind (load_data f) (\<lambda>data.
     try_bind (py_getitem data ''conversations'') (\<lambda>convs.
     try_bind (py_getitem convs cid) (\<lambda>conversation.
     try_bind (py_getitem conversation ''messages'') (py_last_n 5))))"

text \<open>
  The sample state with any list of messages in its second conversation, the message a
  request adds to it, the timer that request starts, and the reply the echoing service
  gives to that timer's request.
\<close>

definition sample_new_message :: json where
  "sample_new_message =
     JObj [(''id'', JStr ''m-1''), (''who'', JStr ''mine''), (''text'', JStr ''hello''),
           (''ts'', JStr ''2024-01-01T10:01:00''), (''status'', JStr ''sent'')]"

definition sample_timer :: timer where
  "sample_timer =
     \<lparr>conversation_id = ''conv-1'', user_message = JStr ''hello'',
      context_messages = JArr [sample_message, sample_new_message]\<rparr>"

definition sample_conversation_with :: "json list \<Rightarrow> (string \<times> json) list" where
  "sample_conversation_with msgs =
     [(''id'', JStr ''conv-1''), (''name'', JStr ''Test''), (''messages'', JArr msgs)]"

definition sample_conversations_with :: "json list \<Rightarrow> (string \<times> json) list" where
  "sample_conversations_with msgs =
     [(''conv-default'',
         JObj [(''id'', JStr ''conv-default''),
               (''name'', JStr ''Conversa com Gemini AI''),
               (''messages'', JArr [])]),
      (''conv-1'', JObj (sample_conversation_with msgs))]"

definition sample_items_with :: "json list \<Rightarrow> (string \<times> json) list" where
  "sample_items_with msgs =
     [(''conversations'', JObj (sample_conversations_with msgs)),
      (''currentConvId'', JStr ''conv-1''),
      (''simulateBot'', JBool False),
      (''geminiEnabled'', JBool True)]"

definition sample_state_with :: "json list \<Rightarrow> json" where
  "sample_state_with msgs = JObj (sample_items_with msgs)"

definition sample_reply_text :: json where
  "sample_reply_text =
     JStr (''user: hi'' @ [CHR 0x0A] @ ''user: hello'' @ [CHR 0x0A] @ ''user: hello'')"

section \<open>The two properties of the stored state that runs must keep\<close>

text \<open>
  \<open>has_default\<close>: the state can be loaded, its \<^verbatim>\<open>conversations\<close> entry is a mapping,
  and that mapping has under the key \<^verbatim>\<open>conv-default\<close> a conversation, that is an
  object with that identifier, a name and a list of messages.  \<open>gemini_enabled\<close>: the
  state can be loaded and \<^verbatim>\<open>data.get("geminiEnabled", False)\<close> is truthy, the test
  \<^verbatim>\<open>add_message\<close> makes.  The remaining notions relate the state a handler loaded to
  the state it writes: no top-level key is lost, the default conversation is not lost,
  the flag is not changed; \<open>left_by\<close> lists what a handler can leave in the file.
\<close>

definition is_conversation :: "string \<Rightarrow> json \<Rightarrow> bool" where
  "is_conversation cid c =
     (case c of
        JObj kvs \<Rightarrow>
          map_of kvs ''id'' = Some (JStr cid) \<and> map_of kvs ''name'' \<noteq> None
          \<and> (case map_of kvs ''messages'' of Some (JArr ms) \<Rightarrow> True | _ \<Rightarrow> False)
      | _ \<Rightarrow> False)"

definition holds_default :: "json \<Rightarrow> bool" where
  "holds_default convs =
     (case convs of
        JObj cs \<Rightarrow>
          (case map_of cs ''conv-default'' of
             None \<Rightarrow> False
           | Some c \<Rightarrow> is_conversation ''conv-default'' c)
      | _ \<Rightarrow> False)"

definition default_present :: "json \<Rightarrow> bool" where
  "default_present data =
     (case py_getitem data ''conversations'' of
        Inl e \<Rightarrow> False
      | Inr convs \<Rightarrow> holds_default convs)"

definition has_default :: "file_content \<Rightarrow> bool" where
  "has_default f = (case load_data f of Inl e \<Rightarrow> False | Inr data \<Rightarrow> default_present data)"

definition gemini_enabled :: "file_content \<Rightarrow> bool" where
  "gemini_enabled f =
     (case load_data f of
        Inl e \<Rightarrow> False
      | Inr data \<Rightarrow>
          (case py_get data ''geminiEnabled'' (JBool False) of
             Inl e \<Rightarrow> False
           | Inr g \<Rightarrow> truthy g))"

fun is_toggle_gemini :: "event \<Rightarrow> bool" where
  "is_toggle_gemini (ToggleGemini so) = True"
| "is_toggle_gemini ev = False"

definition keeps_keys :: "(string \<times> json) list \<Rightarrow> json \<Rightarrow> bool" where
  "keeps_keys kvs d' =
     (case d' of JObj kvs' \<Rightarrow> set (map fst kvs) \<subseteq> set (map fst kvs') | _ \<Rightarrow> False)"

definition keeps_default :: "(string \<times> json) list \<Rightarrow> json \<Rightarrow> bool" where
  "keeps_default kvs d' = (if default_present (JObj kvs) then default_present d' else True)"

definition keeps_gemini :: "(string \<times> json) list \<Rightarrow> json \<Rightarrow> bool" where
  "keeps_gemini kvs d' =
     (py_get d' ''geminiEnabled'' (JBool False) = py_get (JObj kvs) ''geminiEnabled'' (JBool False))"

definition evolved :: "bool \<Rightarrow> file_content \<Rightarrow> file_content \<Rightarrow> bool" where
  "evolved g f f' =
     (case load_data f of
        Inr (JObj kvs) \<Rightarrow>
          (case f' of
             Parsed d' \<Rightarrow>
               keeps_keys kvs d' \<and> keeps_default kvs d' \<and> (if g then keeps_gemini kvs d' else True)
           | _ \<Rightarrow> False)
      | _ \<Rightarrow> False)"

definition left_by :: "bool \<Rightarrow> save_outcome \<Rightarrow> file_content \<Rightarrow> file_content \<Rightarrow> bool" where
  "left_by g so f f' =
     (f' = f \<or> (so = WriteFailed \<and> f' = Undecodable)
      \<or> (so = WriteFailedMidCharacter \<and> f' = NotUtf8) \<or> evolved g f f')"

definition initial_state :: "string \<Rightarrow> string \<Rightarrow> json" where
  "initial_state uid now =
     JObj [(''conversations'', JObj [(''conv-default'', welcome_conversation uid now)]),
           (''currentConvId'', JStr ''conv-default''),
           (''simulateBot'', JBool False),
           (''geminiEnabled'', JBool False)]"

definition sample_events :: "event list" where
  "sample_events =
     [CreateConversation (Inr (JObj [(''name'', JStr ''Test'')])) ''u-1'' Written,
      AddMessage ''conv-default'' (Inr (JObj sample_payload)) ''m-1'' ''2024-01-01T10:01:00'' Written,
      ToggleGemini Written,
      DeleteConversation ''conv-default'' Written,
      DeleteConversation ''conv-u-1'' OpenFailed,
      ClearMessages ''conv-default'' Written,
      ToggleBot Written,
      TimerFires 0 echo_service ''m-2'' ''2024-01-01T10:01:02'' Written,
      ReadOnly]"

definition sample_quiet_events :: "event list" where
  "sample_quiet_events =
     [AddMessage ''conv-default'' (Inr (JObj sample_payload)) ''m-1'' ''2024-01-01T10:01:00'' Written,
      TimerFires 0 echo_service ''m-2'' ''2024-01-01T10:01:02'' Written,
      ToggleBot Written,
      AddMessage ''conv-default'' (Inr (JObj sample_payload)) ''m-3'' ''2024-01-01T10:02:00'' OpenFailed,
      ReadOnly]"

section \<open>Basic facts\<close>

lemma try_bind_simps [simp]:
  "try_bind (Inl e) k = Inl e"
  "try_bind (Inr x) k = k x"
  by (simp_all add: try_bind_def)

subsection \<open>Loading\<close>

lemma fill_defaults_obj:
  "\<exists>kvs'. fill_defaults (JObj kvs) items = Inr (JObj kvs')
     \<and> set (map fst kvs') = set (map fst kvs) \<union> set (map fst items)
     \<and> (\<forall>k. map_of kvs' k = (case map_of kvs k of Some v \<Rightarrow> Some v | None \<Rightarrow> map_of items k))"
proof (induction items arbitrary: kvs)
  case Nil
  show ?case by (auto split: option.splits)
next
  case (Cons kv items)
  obtain k v where kv: "kv = (k, v)" by (cases kv)
  show ?case
  proof (cases "k \<in> set (map fst kvs)")
    case True
    from Cons.IH [of kvs] obtain kvs' where
      h: "fill_defaults (JObj kvs) items = Inr (JObj kvs')"
         "set (map fst kvs') = set (map fst kvs) \<union> set (map fst items)"
         "\<forall>k. map_of kvs' k = (case map_of kvs k of Some v \<Rightarrow> Some v | None \<Rightarrow> map_of items k)"
      by blast
    from True have "map_of kvs k \<noteq> None" by (simp add: map_of_eq_None_iff)
    with h True kv show ?thesis by (auto split: option.splits)
  next
    case False
    from Cons.IH [of "AList.update k v kvs"] obtain kvs' where
      h: "fill_defaults (JObj (AList.update k v kvs)) items = Inr (JObj kvs')"
         "set (map fst kvs') = set (map fst (AList.update k v kvs)) \<union> set (map fst items)"
         "\<forall>k'. map_of kvs' k' =
            (case map_of (AList.update k v kvs) k' of Some v \<Rightarrow> Some v | None \<Rightarrow> map_of items k')"
      by blast
    from False have n: "map_of kvs k = None" by (simp add: map_of_eq_None_iff)
    have "set (map fst (AList.update k v kvs)) = insert k (set (map fst kvs))"
      using dom_update [of k v kvs] by simp
    with h False kv n show ?thesis
      by (auto simp: update_conv' split: option.splits)
  qed
qed

lemma fill_defaults_id:
  "set (map fst items) \<subseteq> set (map fst kvs) \<Longrightarrow> fill_defaults (JObj kvs) items = Inr (JObj kvs)"
proof (induction items)
  case Nil
  show ?case by simp
next
  case (Cons kv items)
  obtain k v where kv: "kv = (k, v)" by (cases kv)
  from Cons.prems kv have "k \<in> set (map fst kvs)" by simp
  moreover from Cons have "fill_defaults (JObj kvs) items = Inr (JObj kvs)" by simp
  ultimately show ?case using kv by simp
qed

lemma py_contains_not_KeyError: "py_contains k d \<noteq> Inl KeyError"
  by (cases d) simp_all

lemma py_setitem_not_KeyError: "py_setitem d k v \<noteq> Inl KeyError"
  by (cases d) simp_all

text \<open>The loop never raises \<^verbatim>\<open>KeyError\<close>, so that part of the \<^verbatim>\<open>except\<close> clause is dead.\<close>

lemma fill_defaults_not_KeyError: "fill_defaults d items \<noteq> Inl KeyError"
proof (induction d items rule: fill_defaults.induct)
  case (1 d)
  show ?case by simp
next
  case (2 d k v kvs)
  show ?case
  proof (cases "py_contains k d")
    case (Inl e)
    with py_contains_not_KeyError [of k d] show ?thesis by auto
  next
    case (Inr b)
    show ?thesis
    proof (cases b)
      case True
      with Inr 2 show ?thesis by simp
    next
      case False
      show ?thesis
      proof (cases "py_setitem d k v")
        case (Inl e)
        with py_setitem_not_KeyError [of d k v] Inr False show ?thesis by auto
      next
        case (Inr d')
        with \<open>py_contains k d = Inr b\<close> False 2 show ?thesis by simp
      qed
    qed
  qed
qed

lemma load_data_Parsed: "load_data (Parsed d) = fill_defaults d default_items"
  using fill_defaults_not_KeyError [of d default_items]
  by (auto simp: load_data_def split: sum.splits exn.splits)

text \<open>
  A file whose content is valid JSON but not an object makes \<^verbatim>\<open>load_data\<close> raise: the
  \<^verbatim>\<open>TypeError\<close> of \<^verbatim>\<open>data[key] = value\<close> is not among the exceptions it catches.
\<close>

lemma load_data_array_raises: "load_data (Parsed (JArr [])) = Inl TypeError"
  by (simp add: load_data_Parsed default_items_def)

lemma fill_defaults_non_obj:
  "fill_defaults d items = Inr d' \<Longrightarrow> \<forall>kvs. d \<noteq> JObj kvs \<Longrightarrow> d' = d"
proof (induction d items rule: fill_defaults.induct)
  case (1 d)
  then show ?case by simp
next
  case (2 d k v kvs)
  from 2(4) have s: "\<And>x. py_setitem d k v \<noteq> Inr x" by (cases d) simp_all
  show ?case
  proof (cases "py_contains k d")
    case (Inl e)
    with 2(3) show ?thesis by simp
  next
    case (Inr b)
    show ?thesis
    proof (cases b)
      case True
      with Inr 2 show ?thesis by simp
    next
      case False
      with Inr 2(3) s show ?thesis by (auto split: sum.splits)
    qed
  qed
qed

text \<open>Whatever \<^verbatim>\<open>load_data\<close> returns as an object has the four top-level keys.\<close>

lemma load_data_keys:
  assumes "load_data f = Inr (JObj kvs)"
  shows "set (map fst default_items) \<subseteq> set (map fst kvs)"
proof (cases f)
  case Absent
  with assms show ?thesis by (simp add: load_data_def default_data_def)
next
  case Unopenable
  with assms show ?thesis by (simp add: load_data_def)
next
  case NotUtf8
  with assms show ?thesis by (simp add: load_data_def)
next
  case Undecodable
  with assms show ?thesis by (simp add: load_data_def default_data_def)
next
  case (Parsed d)
  with assms have fd: "fill_defaults d default_items = Inr (JObj kvs)"
    by (simp add: load_data_Parsed)
  show ?thesis
  proof (cases "\<exists>kvs0. d = JObj kvs0")
    case True
    then obtain kvs0 where d: "d = JObj kvs0" by blast
    from fill_defaults_obj [of kvs0 default_items] fd d show ?thesis by auto
  next
    case False
    with fill_defaults_non_obj [OF fd] show ?thesis by blast
  qed
qed

lemma load_data_has:
  assumes "load_data f = Inr (JObj kvs)"
  shows "map_of kvs ''conversations'' \<noteq> None" "map_of kvs ''currentConvId'' \<noteq> None"
    "map_of kvs ''simulateBot'' \<noteq> None" "map_of kvs ''geminiEnabled'' \<noteq> None"
  using load_data_keys [OF assms] by (auto simp: default_items_def map_of_eq_None_iff)

text \<open>An object with the four keys is read back as it was written.\<close>

lemma load_data_saved:
  "set (map fst default_items) \<subseteq> set (map fst kvs) \<Longrightarrow>
     load_data (Parsed (JObj kvs)) = Inr (JObj kvs)"
  by (simp add: load_data_Parsed fill_defaults_id)

lemma keys_update: "set (map fst (AList.update k v al)) = insert k (set (map fst al))"
  using dom_update [of k v al] by simp

lemma delete_filter: "AList.delete k al = filter (\<lambda>kv. fst kv \<noteq> k) al"
  by (induction al) auto

lemma load_sample: "load_data (Parsed sample_state) = Inr sample_state"
  by (simp add: load_data_Parsed sample_state_def sample_items_def default_items_def)

lemmas sample_defs =
  sample_state_def sample_items_def sample_conversations_def sample_conversation_def

subsection \<open>Toggling\<close>

lemma negate_flag_bool:
  "map_of kvs flag = Some (JBool b) \<Longrightarrow>
     negate_flag (JObj kvs) flag = Inr (JObj (AList.update flag (JBool (\<not> b)) kvs))"
  by (simp add: negate_flag_def)

lemma toggle_bot_once:
  assumes "load_data f = Inr (JObj kvs)" and "map_of kvs ''simulateBot'' = Some (JBool b)"
  shows "toggle_bot Written f =
           ((200, Body (JObj [(''simulateBot'', JBool (\<not> b))])),
            Parsed (JObj (AList.update ''simulateBot'' (JBool (\<not> b)) kvs)))"
  using assms by (simp add: toggle_bot_def negate_flag_bool save_data_def update_conv')

lemma toggle_gemini_once:
  assumes "load_data f = Inr (JObj kvs)" and "map_of kvs ''geminiEnabled'' = Some (JBool b)"
  shows "toggle_gemini Written f =
           ((200, Body (JObj [(''geminiEnabled'', JBool (\<not> b)),
                              (''message'', JStr (''Gemini AI '' @
                                 (if \<not> b then ''ativado'' else ''desativado'')))])),
            Parsed (JObj (AList.update ''geminiEnabled'' (JBool (\<not> b)) kvs)))"
  using assms by (simp add: toggle_gemini_def negate_flag_bool save_data_def update_conv')

lemma load_after_update:
  assumes "load_data f = Inr (JObj kvs)"
  shows "load_data (Parsed (JObj (AList.update k v kvs))) = Inr (JObj (AList.update k v kvs))"
  using load_data_keys [OF assms] by (intro load_data_saved) (auto simp: dom_update)

subsection \<open>Creating a conversation\<close>

lemma map_of_Some_key:
  assumes "map_of al k = Some v"
  shows "k \<in> fst ` set al"
proof -
  from assms have "(k, v) \<in> set al" by (rule map_of_SomeD)
  then have "fst (k, v) \<in> fst ` set al" by (rule imageI)
  then show ?thesis by simp
qed

lemma map_of_Some_nonempty: "map_of al k = Some v \<Longrightarrow> al \<noteq> []"
  by auto

lemma update_keys_same: "map_of al k = Some v \<Longrightarrow> map fst (AList.update k v' al) = map fst al"
  by (simp add: update_keys map_of_Some_key)

lemma create_conversation_invalid:
  assumes "\<not> truthy new_conv \<or>
           (\<exists>b. new_conv = JObj b \<and> (case map_of b ''name'' of None \<Rightarrow> True | Some nm \<Rightarrow> \<not> truthy nm))"
  shows "snd (create_conversation (Inr new_conv) uid so f) = f"
    and "load_data f = Inr data \<Longrightarrow>
         create_conversation (Inr new_conv) uid so f = ((400, error_body name_required_text), f)"
  using assms
  by (auto simp: create_conversation_def split: sum.splits option.splits)

lemma create_conversation_saved:
  assumes "load_data f = Inr (JObj kvs)"
    and "map_of kvs ''conversations'' = Some (JObj cs)"
    and "map_of b ''name'' = Some nm" and "truthy nm"
  shows "create_conversation (Inr (JObj b)) uid Written f =
           ((201, Body (JObj [(''id'', JStr (''conv-'' @ uid)), (''name'', nm), (''messages'', JArr [])])),
            Parsed (JObj (AList.update ''conversations''
              (JObj (AList.update (''conv-'' @ uid)
                 (JObj [(''id'', JStr (''conv-'' @ uid)), (''name'', nm), (''messages'', JArr [])]) cs))
              kvs)))"
  using assms map_of_Some_nonempty [OF assms(3)]
  by (simp add: create_conversation_def save_data_def Let_def)

subsection \<open>Adding a message\<close>

lemma py_contains_key: "map_of al k = Some v \<Longrightarrow> py_contains k (JObj al) = Inr True"
  using map_of_Some_key [of al k v] by simp

lemma new_message_obj:
  assumes "map_of p ''who'' = Some w" and "map_of p ''text'' = Some t"
  shows "new_message uid now (JObj p) =
     Inr (JObj [(''id'', JStr uid), (''who'', w), (''text'', t), (''ts'', JStr now),
                (''status'', case map_of p ''status'' of None \<Rightarrow> JStr ''sent'' | Some s \<Rightarrow> s)])"
  using assms by (simp add: new_message_def)

lemma append_message_obj:
  assumes "map_of kvs ''conversations'' = Some (JObj cs)"
    and "map_of cs cid = Some (JObj conv)"
    and "map_of conv ''messages'' = Some (JArr ms)"
  shows "append_message (JObj kvs) cid m =
     Inr (JObj (AList.update ''conversations''
            (JObj (AList.update cid
               (JObj (AList.update ''messages'' (JArr (ms @ [m])) conv)) cs)) kvs))"
  using assms by (simp add: append_message_def)

lemma auto_reply_timer_obj:
  assumes "map_of kvs ''conversations'' = Some (JObj cs)"
    and "map_of cs cid = Some (JObj conv)"
    and "map_of conv ''messages'' = Some (JArr ms)"
    and "map_of p ''who'' = Some w" and "map_of p ''text'' = Some t"
  shows "auto_reply_timer (JObj kvs) cid (JObj p) =
     Inr (if w = JStr ''mine''
            \<and> truthy (case map_of kvs ''geminiEnabled'' of None \<Rightarrow> JBool False | Some g \<Rightarrow> g)
          then Some \<lparr>conversation_id = cid, user_message = t,
                     context_messages = JArr (drop (length ms - 5) ms)\<rparr>
          else None)"
  using assms by (simp add: auto_reply_timer_def)

lemma add_message_saved:
  assumes "load_data f = Inr (JObj kvs)"
    and "map_of kvs ''conversations'' = Some (JObj cs)"
    and "map_of cs cid = Some (JObj conv)"
    and "map_of conv ''messages'' = Some (JArr ms)"
    and "map_of p ''who'' = Some w" and "map_of p ''text'' = Some t"
    and "m = JObj [(''id'', JStr uid), (''who'', w), (''text'', t), (''ts'', JStr now),
                (''status'', case map_of p ''status'' of None \<Rightarrow> JStr ''sent'' | Some s \<Rightarrow> s)]"
  shows "add_message cid (Inr (JObj p)) uid now Written f =
     ((201, Body m),
      Parsed (JObj (AList.update ''conversations''
            (JObj (AList.update cid
               (JObj (AList.update ''messages'' (JArr (ms @ [m])) conv)) cs)) kvs)),
      if w = JStr ''mine''
            \<and> truthy (case map_of kvs ''geminiEnabled'' of None \<Rightarrow> JBool False | Some g \<Rightarrow> g)
      then Some \<lparr>conversation_id = cid, user_message = t,
                 context_messages = JArr (drop (length (ms @ [m]) - 5) (ms @ [m]))\<rparr>
      else None)"
proof -
  let ?conv' = "AList.update ''messages'' (JArr (ms @ [m])) conv"
  let ?cs' = "AList.update cid (JObj ?conv') cs"
  let ?kvs' = "AList.update ''conversations'' (JObj ?cs') kvs"
  have pre: "try_bind (py_getitem (JObj kvs) ''conversations'') (py_contains cid) = Inr True"
    using assms(2) map_of_Some_key [OF assms(3)] by simp
  have tr: "truthy (JObj p)" using map_of_Some_nonempty [OF assms(5)] by simp
  have mf: "missing_field (JObj p) [''who'', ''text''] = Inr None"
    using map_of_Some_key [OF assms(5)] map_of_Some_key [OF assms(6)] by simp
  have nm: "new_message uid now (JObj p) = Inr m"
    using new_message_obj [OF assms(5,6)] assms(7) by simp
  have am: "append_message (JObj kvs) cid m = Inr (JObj ?kvs')"
    by (rule append_message_obj [OF assms(2,3,4)])
  have tm: "auto_reply_timer (JObj ?kvs') cid (JObj p) =
     Inr (if w = JStr ''mine''
            \<and> truthy (case map_of ?kvs' ''geminiEnabled'' of None \<Rightarrow> JBool False | Some g \<Rightarrow> g)
          then Some \<lparr>conversation_id = cid, user_message = t,
                     context_messages = JArr (drop (length (ms @ [m]) - 5) (ms @ [m]))\<rparr>
          else None)"
    using auto_reply_timer_obj [of ?kvs' ?cs' cid ?conv' "ms @ [m]" p w t] assms(5,6)
    by (simp add: update_conv')
  have g: "map_of ?kvs' ''geminiEnabled'' = map_of kvs ''geminiEnabled''"
    by (simp add: update_conv')
  show ?thesis
    unfolding add_message_def
    by (simp only: assms(1) sum.case pre bool.case tr not_True_eq_False if_False mf
          option.case nm am try_bind_simps prod.case save_data_def save_outcome.case
          if_True tm g)
qed

subsection \<open>The text of the request\<close>

lemma context_part_message:
  "is_message m \<Longrightarrow> context_part repr m = Inr (spec_context_line repr m)"
  by (cases m) (auto simp: is_message_def context_part_def spec_context_line_def)

lemma context_parts_messages:
  "list_all is_message ms \<Longrightarrow> context_parts repr ms = Inr (map (spec_context_line repr) ms)"
  by (induction ms) (simp_all add: context_part_message)

lemma full_prompt_messages:
  assumes "list_all is_message ms"
  shows "full_prompt repr prompt (JArr ms) =
     Inr (if ms = [] then prompt
          else JStr (join_lines (map (spec_context_line repr) (drop (length ms - 6) ms)
                                   @ [''user: '' @ py_format repr prompt])))"
proof (cases "ms = []")
  case True
  then show ?thesis by (simp add: full_prompt_def)
next
  case False
  have "list_all is_message (drop (length ms - 6) ms)"
    using assms by (simp add: list_all_iff) (meson in_set_dropD)
  then have cp: "context_parts repr (drop (length ms - 6) ms) =
      Inr (map (spec_context_line repr) (drop (length ms - 6) ms))"
    by (rule context_parts_messages)
  from False have ne: "drop (length ms - 6) ms \<noteq> []" by (cases ms) auto
  show ?thesis using False cp ne by (simp add: full_prompt_def)
qed

subsection \<open>The notifier\<close>

lemmas sample_with_defs =
  sample_state_with_def sample_items_with_def sample_conversations_with_def
  sample_conversation_with_def

lemma sample_state_with: "sample_state = sample_state_with [sample_message]"
  by (simp add: sample_defs sample_with_defs)

lemma load_sample_with: "load_data (Parsed (sample_state_with ms)) = Inr (sample_state_with ms)"
  by (simp add: load_data_Parsed sample_with_defs default_items_def)

lemma sample_post:
  "add_message ''conv-1'' (Inr (JObj sample_payload)) ''m-1'' ''2024-01-01T10:01:00'' Written
       (Parsed sample_state) =
     ((201, Body sample_new_message),
      Parsed (sample_state_with [sample_message, sample_new_message]),
      Some sample_timer)"
  unfolding sample_state_with
  by (simp add: add_message_def load_sample_with)
     (simp add: sample_with_defs sample_payload_def save_data_def new_message_def
        append_message_def auto_reply_timer_def sample_new_message_def sample_timer_def)

lemma sample_clear:
  "clear_messages ''conv-1'' Written (Parsed (sample_state_with ms)) =
     ((200, message_body ''Mensagens limpas com sucesso''), Parsed (sample_state_with []))"
  by (simp add: clear_messages_def load_sample_with)
     (simp add: sample_with_defs empty_messages_def save_data_def)

lemma sample_generate:
  "generate_response (Some ''key'') sample_repr echo_service (JStr ''hello'')
       (JArr [sample_message, sample_new_message]) =
     Inr sample_reply_text"
  by (simp add: generate_response_def full_prompt_def context_part_def py_format_def
        sample_message_def sample_new_message_def echo_service_def first_candidate_text_def
        sample_reply_text_def)

lemma generate_gemini_reply_failure:
  "generate_response api_key repr http (user_message tm) (context_messages tm) = Inl err \<Longrightarrow>
     generate_gemini_reply api_key repr http uid now so tm f = f"
  by (simp add: generate_gemini_reply_def)

lemma generate_gemini_reply_absent:
  assumes "load_data f = Inr (JObj kvs)" and "map_of kvs ''conversations'' = Some (JObj cs)"
    and "map_of cs (conversation_id tm) = None"
  shows "generate_gemini_reply api_key repr http uid now so tm f = f"
proof -
  from assms(3) have "conversation_id tm \<notin> fst ` set cs" by (simp add: map_of_eq_None_iff)
  with assms(1,2) show ?thesis
    by (simp add: generate_gemini_reply_def split: sum.splits)
qed

lemma generate_gemini_reply_saved:
  assumes "generate_response api_key repr http (user_message tm) (context_messages tm) = Inr text"
    and "load_data f = Inr (JObj kvs)" and "map_of kvs ''conversations'' = Some (JObj cs)"
    and "map_of cs (conversation_id tm) = Some (JObj conv)"
    and "map_of conv ''messages'' = Some (JArr ms)"
  shows "generate_gemini_reply api_key repr http uid now Written tm f =
     Parsed (JObj (AList.update ''conversations''
       (JObj (AList.update (conversation_id tm)
          (JObj (AList.update ''messages'' (JArr (ms @ [reply_message uid now text])) conv)) cs))
       kvs))"
  using assms(1,2,3) map_of_Some_key [OF assms(4)]
    append_message_obj [OF assms(3,4,5), of "reply_message uid now text"]
  by (simp add: generate_gemini_reply_def save_data_def)

subsection \<open>What the handlers leave in the file\<close>

lemma set_conversations_keeps:
  assumes "map_of kvs ''conversations'' = Some c"
    and "holds_default c \<Longrightarrow> holds_default c'"
  shows "keeps_keys kvs (JObj (AList.update ''conversations'' c' kvs))"
    and "keeps_default kvs (JObj (AList.update ''conversations'' c' kvs))"
    and "keeps_gemini kvs (JObj (AList.update ''conversations'' c' kvs))"
  using assms
  by (auto simp: keeps_keys_def keeps_default_def keeps_gemini_def default_present_def
        dom_update update_conv')

lemma set_other_keeps:
  assumes "k \<noteq> ''conversations''"
  shows "keeps_keys kvs (JObj (AList.update k v kvs))"
    and "keeps_default kvs (JObj (AList.update k v kvs))"
    and "k \<noteq> ''geminiEnabled'' \<Longrightarrow> keeps_gemini kvs (JObj (AList.update k v kvs))"
  using assms
  by (auto simp: keeps_keys_def keeps_default_def keeps_gemini_def default_present_def
        dom_update update_conv')

lemma getitem_obj: "py_getitem d k = Inr v \<Longrightarrow> \<exists>kvs. d = JObj kvs \<and> map_of kvs k = Some v"
  by (cases d) (auto split: option.splits)

lemma setitem_obj: "py_setitem d k v = Inr d' \<Longrightarrow> \<exists>kvs. d = JObj kvs \<and> d' = JObj (AList.update k v kvs)"
  by (cases d) auto

lemma delitem_obj:
  "py_delitem d k = Inr d' \<Longrightarrow> \<exists>kvs. d = JObj kvs \<and> d' = JObj (AList.delete k kvs)"
  by (cases d) (auto split: if_splits)

lemma append_obj: "py_append a m = Inr a' \<Longrightarrow> \<exists>ms. a = JArr ms \<and> a' = JArr (ms @ [m])"
  by (cases a) auto

lemma is_conversation_messages:
  "is_conversation cid (JObj ckvs) \<Longrightarrow>
     is_conversation cid (JObj (AList.update ''messages'' (JArr ms) ckvs))"
  by (simp add: is_conversation_def update_conv')

lemma holds_default_update:
  assumes "holds_default (JObj cs)"
    and "k = ''conv-default'' \<Longrightarrow> is_conversation ''conv-default'' v"
  shows "holds_default (JObj (AList.update k v cs))"
  using assms by (auto simp: holds_default_def update_conv' split: option.splits)

lemma holds_default_delete:
  "k \<noteq> ''conv-default'' \<Longrightarrow> holds_default (JObj cs) \<Longrightarrow>
     holds_default (JObj (AList.delete k cs))"
  by (simp add: holds_default_def)

lemma holds_default_entry:
  "holds_default (JObj cs) \<Longrightarrow> map_of cs ''conv-default'' = Some c \<Longrightarrow>
     is_conversation ''conv-default'' c"
  by (simp add: holds_default_def)

lemma append_message_keeps:
  assumes "append_message (JObj kvs) cid m = Inr d'"
  shows "keeps_keys kvs d' \<and> keeps_default kvs d' \<and> keeps_gemini kvs d'"
proof -
  from assms obtain convs conv msgs msgs' conv' convs' where
    s: "py_getitem (JObj kvs) ''conversations'' = Inr convs" "py_getitem convs cid = Inr conv"
       "py_setitem convs cid conv' = Inr convs'" "py_setitem (JObj kvs) ''conversations'' convs' = Inr d'"
    and t: "py_append msgs m = Inr msgs'" "py_setitem conv ''messages'' msgs' = Inr conv'"
    by (auto simp: append_message_def try_bind_def split: sum.splits)
  from getitem_obj [OF s(2)] obtain cs where cs: "convs = JObj cs" "map_of cs cid = Some conv"
    by blast
  with s(3) have c': "convs' = JObj (AList.update cid conv' cs)" by auto
  from append_obj [OF t(1)] obtain ms where ms: "msgs' = JArr (ms @ [m])" by blast
  from setitem_obj [OF t(2)] ms obtain ckvs where
    ck: "conv = JObj ckvs" "conv' = JObj (AList.update ''messages'' (JArr (ms @ [m])) ckvs)"
    by blast
  from s(1) have kc: "map_of kvs ''conversations'' = Some convs" by (auto split: option.splits)
  from s(4) have d': "d' = JObj (AList.update ''conversations'' convs' kvs)" by auto
  have "holds_default convs'" if h: "holds_default convs"
    unfolding c'
  proof (rule holds_default_update)
    show "holds_default (JObj cs)" using h cs by simp
    assume "cid = ''conv-default''"
    with holds_default_entry [of cs conv] h cs
    have "is_conversation ''conv-default'' (JObj ckvs)" by (simp add: ck)
    then show "is_conversation ''conv-default'' conv'"
      unfolding ck by (rule is_conversation_messages)
  qed
  with set_conversations_keeps [OF kc, of convs'] show ?thesis unfolding d' by blast
qed

lemma empty_messages_keeps:
  assumes "empty_messages (JObj kvs) cid = Inr d'"
  shows "keeps_keys kvs d' \<and> keeps_default kvs d' \<and> keeps_gemini kvs d'"
proof -
  from assms obtain convs conv conv' convs' where
    s: "py_getitem (JObj kvs) ''conversations'' = Inr convs" "py_getitem convs cid = Inr conv"
       "py_setitem convs cid conv' = Inr convs'" "py_setitem (JObj kvs) ''conversations'' convs' = Inr d'"
    and t: "py_setitem conv ''messages'' (JArr []) = Inr conv'"
    by (auto simp: empty_messages_def try_bind_def split: sum.splits)
  from getitem_obj [OF s(2)] obtain cs where cs: "convs = JObj cs" "map_of cs cid = Some conv"
    by blast
  with s(3) have c': "convs' = JObj (AList.update cid conv' cs)" by auto
  from setitem_obj [OF t] obtain ckvs where
    ck: "conv = JObj ckvs" "conv' = JObj (AList.update ''messages'' (JArr []) ckvs)"
    by blast
  from s(1) have kc: "map_of kvs ''conversations'' = Some convs" by (auto split: option.splits)
  from s(4) have d': "d' = JObj (AList.update ''conversations'' convs' kvs)" by auto
  have "holds_default convs'" if h: "holds_default convs"
    unfolding c'
  proof (rule holds_default_update)
    show "holds_default (JObj cs)" using h cs by simp
    assume "cid = ''conv-default''"
    with holds_default_entry [of cs conv] h cs
    have "is_conversation ''conv-default'' (JObj ckvs)" by (simp add: ck)
    then show "is_conversation ''conv-default'' conv'"
      unfolding ck by (rule is_conversation_messages)
  qed
  with set_conversations_keeps [OF kc, of convs'] show ?thesis unfolding d' by blast
qed

lemma remove_conversation_keeps:
  assumes "remove_conversation (JObj kvs) cid = Inr d'" and "cid \<noteq> ''conv-default''"
  shows "keeps_keys kvs d' \<and> keeps_default kvs d' \<and> keeps_gemini kvs d'"
proof -
  from assms(1) obtain convs convs' data1 cur where
    s: "py_getitem (JObj kvs) ''conversations'' = Inr convs" "py_delitem convs cid = Inr convs'"
       "py_setitem (JObj kvs) ''conversations'' convs' = Inr data1"
       "py_getitem data1 ''currentConvId'' = Inr cur"
       "d' = data1 \<or> py_setitem data1 ''currentConvId'' (JStr ''conv-default'') = Inr d'"
    by (auto simp: remove_conversation_def try_bind_def split: sum.splits if_splits)
  from delitem_obj [OF s(2)] obtain cs where cs: "convs = JObj cs" "convs' = JObj (AList.delete cid cs)"
    by blast
  from s(1) have kc: "map_of kvs ''conversations'' = Some convs" by (auto split: option.splits)
  let ?k1 = "AList.update ''conversations'' convs' kvs"
  from s(3) have d1: "data1 = JObj ?k1" by auto
  have k1: "keeps_keys kvs (JObj ?k1) \<and> keeps_default kvs (JObj ?k1) \<and> keeps_gemini kvs (JObj ?k1)"
    using set_conversations_keeps [OF kc, of convs']
      holds_default_delete [of cid cs] assms(2)
    unfolding cs by blast
  from s(5) show ?thesis
  proof
    assume "d' = data1"
    with k1 d1 show ?thesis by simp
  next
    assume "py_setitem data1 ''currentConvId'' (JStr ''conv-default'') = Inr d'"
    with d1 have d': "d' = JObj (AList.update ''currentConvId'' (JStr ''conv-default'') ?k1)"
      by auto
    show ?thesis
      using k1 unfolding d'
      by (auto simp: keeps_keys_def keeps_default_def keeps_gemini_def default_present_def
            dom_update update_conv')
  qed
qed

lemma negate_flag_keeps:
  assumes "negate_flag (JObj kvs) flag = Inr d'" and "flag \<noteq> ''conversations''"
  shows "keeps_keys kvs d' \<and> keeps_default kvs d'
         \<and> (flag \<noteq> ''geminiEnabled'' \<longrightarrow> keeps_gemini kvs d')"
proof -
  from assms(1) obtain v where "d' = JObj (AList.update flag v kvs)"
    by (auto simp: negate_flag_def)
  with set_other_keeps [OF assms(2), of kvs v] show ?thesis by simp
qed

lemma snd_save_branch:
  "snd (case save_data so d f of (ok, f') \<Rightarrow> if ok then (r1, f') else (r2, f')) =
     snd (save_data so d f)"
  by (simp add: save_data_def split: save_outcome.splits)

lemma save_left_by:
  assumes "load_data f = Inr (JObj kvs)" and "keeps_keys kvs d'" and "keeps_default kvs d'"
    and "g \<Longrightarrow> keeps_gemini kvs d'"
  shows "left_by g so f (snd (save_data so d' f))"
  using assms by (cases so) (auto simp: left_by_def evolved_def save_data_def)

lemma left_by_refl: "left_by g so f f"
  by (simp add: left_by_def)

lemma delete_conversation_left_by: "left_by True so f (snd (delete_conversation cid so f))"
proof (cases "load_data f")
  case (Inl e)
  then show ?thesis by (simp add: delete_conversation_def left_by_refl)
next
  case (Inr data)
  show ?thesis
  proof (cases "remove_conversation data cid")
    case (Inl e)
    with Inr show ?thesis
      by (simp add: delete_conversation_def left_by_refl split: sum.splits bool.splits)
  next
    case r: (Inr d')
    then obtain kvs where kvs: "data = JObj kvs"
      by (cases data) (auto simp: remove_conversation_def)
    show ?thesis
    proof (cases "cid = ''conv-default''")
      case True
      with Inr show ?thesis
        by (simp add: delete_conversation_def left_by_refl split: sum.splits bool.splits)
    next
      case False
      from remove_conversation_keeps [OF r [unfolded kvs] False]
      have "left_by True so f (snd (save_data so d' f))"
        using Inr kvs by (intro save_left_by) auto
      with Inr r False show ?thesis
        by (simp add: delete_conversation_def left_by_refl snd_save_branch
              split: sum.splits bool.splits)
    qed
  qed
qed

lemma clear_messages_left_by: "left_by True so f (snd (clear_messages cid so f))"
proof (cases "load_data f")
  case (Inl e)
  then show ?thesis by (simp add: clear_messages_def left_by_refl)
next
  case (Inr data)
  show ?thesis
  proof (cases "empty_messages data cid")
    case (Inl e)
    with Inr show ?thesis
      by (simp add: clear_messages_def left_by_refl split: sum.splits bool.splits)
  next
    case r: (Inr d')
    then obtain kvs where kvs: "data = JObj kvs"
      by (cases data) (auto simp: empty_messages_def)
    from empty_messages_keeps [OF r [unfolded kvs]]
    have "left_by True so f (snd (save_data so d' f))"
      using Inr kvs by (intro save_left_by) auto
    with Inr r show ?thesis
      by (simp add: clear_messages_def left_by_refl snd_save_branch
            split: sum.splits bool.splits)
  qed
qed

lemma toggle_bot_file:
  "snd (toggle_bot so f) =
     (case try_bind (load_data f) (\<lambda>data. negate_flag data ''simulateBot'') of
        Inl e \<Rightarrow> f
      | Inr d' \<Rightarrow> snd (save_data so d' f))"
  by (simp add: toggle_bot_def save_data_def split: sum.splits save_outcome.splits)

lemma toggle_gemini_file:
  "snd (toggle_gemini so f) =
     (case try_bind (load_data f) (\<lambda>data. negate_flag data ''geminiEnabled'') of
        Inl e \<Rightarrow> f
      | Inr d' \<Rightarrow> snd (save_data so d' f))"
  by (simp add: toggle_gemini_def save_data_def split: sum.splits save_outcome.splits)

lemma negate_flag_obj: "negate_flag data flag = Inr d' \<Longrightarrow> \<exists>kvs. data = JObj kvs"
  by (cases data) (auto simp: negate_flag_def)

lemma toggle_bot_left_by: "left_by True so f (snd (toggle_bot so f))"
proof (cases "try_bind (load_data f) (\<lambda>data. negate_flag data ''simulateBot'')")
  case (Inl e)
  then show ?thesis by (simp add: toggle_bot_file left_by_refl)
next
  case (Inr d')
  then obtain data where ld: "load_data f = Inr data" and nf: "negate_flag data ''simulateBot'' = Inr d'"
    by (auto simp: try_bind_def split: sum.splits)
  from negate_flag_obj [OF nf] obtain kvs where kvs: "data = JObj kvs" by blast
  from negate_flag_keeps [OF nf [unfolded kvs]]
  have "left_by True so f (snd (save_data so d' f))"
    using ld kvs by (intro save_left_by) auto
  with Inr show ?thesis by (simp add: toggle_bot_file)
qed

lemma toggle_gemini_left_by: "left_by False so f (snd (toggle_gemini so f))"
proof (cases "try_bind (load_data f) (\<lambda>data. negate_flag data ''geminiEnabled'')")
  case (Inl e)
  then show ?thesis by (simp add: toggle_gemini_file left_by_refl)
next
  case (Inr d')
  then obtain data where ld: "load_data f = Inr data"
    and nf: "negate_flag data ''geminiEnabled'' = Inr d'"
    by (auto simp: try_bind_def split: sum.splits)
  from negate_flag_obj [OF nf] obtain kvs where kvs: "data = JObj kvs" by blast
  from negate_flag_keeps [OF nf [unfolded kvs]]
  have "left_by False so f (snd (save_data so d' f))"
    using ld kvs by (intro save_left_by) auto
  with Inr show ?thesis by (simp add: toggle_gemini_file)
qed

lemma create_chain_keeps:
  assumes "py_getitem (JObj kvs) ''conversations'' = Inr convs"
    and "py_setitem convs k c = Inr convs'"
    and "py_setitem (JObj kvs) ''conversations'' convs' = Inr d'"
    and "is_conversation k c"
  shows "keeps_keys kvs d' \<and> keeps_default kvs d' \<and> keeps_gemini kvs d'"
proof -
  from setitem_obj [OF assms(2)] obtain cs where
    cs: "convs = JObj cs" "convs' = JObj (AList.update k c cs)"
    by blast
  from assms(1) have kc: "map_of kvs ''conversations'' = Some convs"
    by (auto split: option.splits)
  from assms(3) have d': "d' = JObj (AList.update ''conversations'' convs' kvs)" by auto
  have "holds_default convs'" if "holds_default convs"
    unfolding cs using that assms(4) by (intro holds_default_update) (simp_all add: cs)
  with set_conversations_keeps [OF kc, of convs'] show ?thesis unfolding d' by blast
qed

lemma create_conversation_left_by:
  "left_by True so f (snd (create_conversation request_json uid so f))"
proof (cases "load_data f")
  case (Inl e)
  then show ?thesis by (simp add: create_conversation_def left_by_refl)
next
  case (Inr data)
  have fl0: "snd (create_conversation request_json uid so f) = f \<or>
      (\<exists>convs name convs' d'.
         py_getitem data ''conversations'' = Inr convs
         \<and> py_setitem convs (''conv-'' @ uid)
               (JObj [(''id'', JStr (''conv-'' @ uid)), (''name'', name),
                      (''messages'', JArr [])]) = Inr convs'
         \<and> py_setitem data ''conversations'' convs' = Inr d'
         \<and> snd (create_conversation request_json uid so f) = snd (save_data so d' f))"
    using Inr
    by (auto simp: create_conversation_def Let_def snd_save_branch try_bind_def
          split: sum.splits)
  then show ?thesis
  proof
    assume "snd (create_conversation request_json uid so f) = f"
    then show ?thesis by (simp add: left_by_refl)
  next
    assume "\<exists>convs name convs' d'.
         py_getitem data ''conversations'' = Inr convs
         \<and> py_setitem convs (''conv-'' @ uid)
               (JObj [(''id'', JStr (''conv-'' @ uid)), (''name'', name),
                      (''messages'', JArr [])]) = Inr convs'
         \<and> py_setitem data ''conversations'' convs' = Inr d'
         \<and> snd (create_conversation request_json uid so f) = snd (save_data so d' f)"
    then obtain convs name convs' d' where
      s: "py_getitem data ''conversations'' = Inr convs"
         "py_setitem convs (''conv-'' @ uid)
               (JObj [(''id'', JStr (''conv-'' @ uid)), (''name'', name),
                      (''messages'', JArr [])]) = Inr convs'"
         "py_setitem data ''conversations'' convs' = Inr d'"
      and fl: "snd (create_conversation request_json uid so f) = snd (save_data so d' f)"
      by blast
    from getitem_obj [OF s(1)] obtain kvs where kvs: "data = JObj kvs" by blast
    have "is_conversation (''conv-'' @ uid)
            (JObj [(''id'', JStr (''conv-'' @ uid)), (''name'', name), (''messages'', JArr [])])"
      by (simp add: is_conversation_def)
    from create_chain_keeps [OF s [unfolded kvs] this]
    have "left_by True so f (snd (save_data so d' f))"
      using Inr kvs by (intro save_left_by) auto
    with fl show ?thesis by simp
  qed
qed

lemma add_message_left_by:
  "left_by True so f (fst (snd (add_message cid request_json uid now so f)))"
proof (cases "load_data f")
  case (Inl e)
  then show ?thesis by (simp add: add_message_def left_by_refl)
next
  case (Inr data)
  have fl0: "fst (snd (add_message cid request_json uid now so f)) = f \<or>
      (\<exists>m d'. append_message data cid m = Inr d'
         \<and> fst (snd (add_message cid request_json uid now so f)) = snd (save_data so d' f))"
    using Inr
    by (auto simp: add_message_def try_bind_def save_data_def
          split: sum.splits bool.splits option.splits save_outcome.splits)
  then show ?thesis
  proof
    assume "fst (snd (add_message cid request_json uid now so f)) = f"
    then show ?thesis by (simp add: left_by_refl)
  next
    assume "\<exists>m d'. append_message data cid m = Inr d'
         \<and> fst (snd (add_message cid request_json uid now so f)) = snd (save_data so d' f)"
    then obtain m d' where am: "append_message data cid m = Inr d'"
      and fl: "fst (snd (add_message cid request_json uid now so f)) = snd (save_data so d' f)"
      by blast
    from am obtain kvs where kvs: "data = JObj kvs"
      by (cases data) (auto simp: append_message_def)
    from append_message_keeps [OF am [unfolded kvs]]
    have "left_by True so f (snd (save_data so d' f))"
      using Inr kvs by (intro save_left_by) auto
    with fl show ?thesis by simp
  qed
qed

lemma generate_gemini_reply_left_by:
  "left_by True so f (generate_gemini_reply api_key repr http uid now so tm f)"
proof (cases "load_data f")
  case (Inl e)
  then show ?thesis by (simp add: generate_gemini_reply_def left_by_refl split: sum.splits)
next
  case (Inr data)
  have fl0: "generate_gemini_reply api_key repr http uid now so tm f = f \<or>
      (\<exists>m d'. append_message data (conversation_id tm) m = Inr d'
         \<and> generate_gemini_reply api_key repr http uid now so tm f = snd (save_data so d' f))"
    using Inr
    by (auto simp: generate_gemini_reply_def split: sum.splits bool.splits)
  then show ?thesis
  proof
    assume "generate_gemini_reply api_key repr http uid now so tm f = f"
    then show ?thesis by (simp add: left_by_refl)
  next
    assume "\<exists>m d'. append_message data (conversation_id tm) m = Inr d'
         \<and> generate_gemini_reply api_key repr http uid now so tm f = snd (save_data so d' f)"
    then obtain m d' where am: "append_message data (conversation_id tm) m = Inr d'"
      and fl: "generate_gemini_reply api_key repr http uid now so tm f = snd (save_data so d' f)"
      by blast
    from am obtain kvs where kvs: "data = JObj kvs"
      by (cases data) (auto simp: append_message_def)
    from append_message_keeps [OF am [unfolded kvs]]
    have "left_by True so f (snd (save_data so d' f))"
      using Inr kvs by (intro save_left_by) auto
    with fl show ?thesis by simp
  qed
qed

lemma has_default_left_by:
  assumes "has_default f" and "left_by g so f f'"
    and "so \<noteq> WriteFailed" and "so \<noteq> WriteFailedMidCharacter"
  shows "has_default f'"
proof -
  from assms(2,3,4) have "f' = f \<or> evolved g f f'" by (auto simp: left_by_def)
  then show ?thesis
  proof
    assume "f' = f"
    with assms(1) show ?thesis by simp
  next
    assume ev: "evolved g f f'"
    then obtain kvs d' where ld: "load_data f = Inr (JObj kvs)" and f': "f' = Parsed d'"
      and k: "keeps_keys kvs d'" "keeps_default kvs d'"
      by (auto simp: evolved_def split: sum.splits json.splits file_content.splits)
    from k(1) obtain kvs' where d': "d' = JObj kvs'" and sub: "set (map fst kvs) \<subseteq> set (map fst kvs')"
      by (auto simp: keeps_keys_def split: json.splits)
    from load_data_keys [OF ld] sub have "load_data (Parsed (JObj kvs')) = Inr (JObj kvs')"
      by (intro load_data_saved) blast
    moreover from assms(1) ld have "default_present (JObj kvs)" by (simp add: has_default_def)
    with k(2) have "default_present d'" by (simp add: keeps_default_def)
    ultimately show ?thesis by (simp add: has_default_def f' d')
  qed
qed

lemma gemini_off_left_by:
  assumes "\<not> gemini_enabled f" and "left_by True so f f'"
  shows "\<not> gemini_enabled f'"
proof -
  from assms(2) have "f' = f \<or> f' = Undecodable \<or> f' = NotUtf8 \<or> evolved True f f'"
    by (auto simp: left_by_def)
  then show ?thesis
  proof (elim disjE)
    assume "f' = f"
    with assms(1) show ?thesis by simp
  next
    assume "f' = Undecodable"
    then show ?thesis
      by (simp add: gemini_enabled_def load_data_def default_data_def default_items_def)
  next
    assume "f' = NotUtf8"
    then show ?thesis by (simp add: gemini_enabled_def load_data_def)
  next
    assume ev: "evolved True f f'"
    then obtain kvs d' where ld: "load_data f = Inr (JObj kvs)" and f': "f' = Parsed d'"
      and k: "keeps_keys kvs d'" "keeps_gemini kvs d'"
      by (auto simp: evolved_def split: sum.splits json.splits file_content.splits)
    from k(1) obtain kvs' where d': "d' = JObj kvs'" and sub: "set (map fst kvs) \<subseteq> set (map fst kvs')"
      by (auto simp: keeps_keys_def split: json.splits)
    from load_data_keys [OF ld] sub have "load_data (Parsed (JObj kvs')) = Inr (JObj kvs')"
      by (intro load_data_saved) blast
    with assms(1) ld k(2) show ?thesis
      by (simp add: gemini_enabled_def keeps_gemini_def f' d')
  qed
qed

lemma step_file_left_by:
  "\<exists>so. (write_of ev = Some so \<or> write_of ev = None \<and> so = OpenFailed)
        \<and> left_by (\<not> is_toggle_gemini ev) so (data_file w) (data_file (step api_key repr w ev))"
proof (cases ev)
  case ReadOnly
  then show ?thesis by (auto simp: left_by_refl)
next
  case (CreateConversation new_conv uid so)
  then show ?thesis using create_conversation_left_by [of so "data_file w" new_conv uid] by simp
next
  case (AddMessage cid md uid now so)
  then show ?thesis
    using add_message_left_by [of so "data_file w" cid md uid now]
    by (auto split: prod.splits)
next
  case (DeleteConversation cid so)
  then show ?thesis using delete_conversation_left_by [of so "data_file w" cid] by simp
next
  case (ClearMessages cid so)
  then show ?thesis using clear_messages_left_by [of so "data_file w" cid] by simp
next
  case (ToggleBot so)
  then show ?thesis using toggle_bot_left_by [of so "data_file w"] by simp
next
  case (ToggleGemini so)
  then show ?thesis using toggle_gemini_left_by [of so "data_file w"] by simp
next
  case (TimerFires i http uid now so)
  then show ?thesis
    using generate_gemini_reply_left_by [of so "data_file w" api_key repr http uid now "timers w ! i"]
    by (simp add: left_by_refl)
qed

lemma step_has_default:
  assumes "has_default (data_file w)"
    and "write_of ev \<noteq> Some WriteFailed" and "write_of ev \<noteq> Some WriteFailedMidCharacter"
  shows "has_default (data_file (step api_key repr w ev))"
proof -
  from step_file_left_by [of ev w api_key repr] obtain so where
    so: "write_of ev = Some so \<or> write_of ev = None \<and> so = OpenFailed"
    and lb: "left_by (\<not> is_toggle_gemini ev) so (data_file w) (data_file (step api_key repr w ev))"
    by blast
  from so assms(2,3) have "so \<noteq> WriteFailed" "so \<noteq> WriteFailedMidCharacter" by auto
  with assms(1) lb show ?thesis by (rule has_default_left_by)
qed

lemma run_has_default:
  "has_default (data_file w) \<Longrightarrow>
   \<forall>ev \<in> set evs. write_of ev \<noteq> Some WriteFailed
                   \<and> write_of ev \<noteq> Some WriteFailedMidCharacter \<Longrightarrow>
     has_default (data_file (run api_key repr w evs))"
proof (induction evs arbitrary: w)
  case Nil
  then show ?case by (simp add: run_def)
next
  case (Cons ev evs)
  from Cons.prems have "has_default (data_file (step api_key repr w ev))"
    by (intro step_has_default) simp_all
  with Cons.IH [of "step api_key repr w ev"] Cons.prems(2) show ?case
    by (simp add: run_def)
qed

lemma ensure_default_obj:
  assumes "map_of kvs ''conversations'' = Some (JObj cs)"
  shows "ensure_default uid now (JObj kvs) =
     Inr (if ''conv-default'' \<in> fst ` set cs then JObj kvs
          else JObj (AList.update ''conversations''
                 (JObj (AList.update ''conv-default'' (welcome_conversation uid now) cs)) kvs))"
  using assms by (simp add: ensure_default_def)

lemma welcome_is_conversation: "is_conversation ''conv-default'' (welcome_conversation uid now)"
  by (simp add: is_conversation_def welcome_conversation_def)

lemma ensure_default_result:
  assumes "ensure_default uid now (JObj kvs) = Inr d1"
    and "map_of kvs ''conversations'' = Some (JObj cs)"
    and "map_of cs ''conv-default'' = None
         \<or> (\<exists>c. map_of cs ''conv-default'' = Some c \<and> is_conversation ''conv-default'' c)"
  shows "keeps_keys kvs d1 \<and> default_present d1"
proof (cases "''conv-default'' \<in> fst ` set cs")
  case True
  with assms(1) ensure_default_obj [OF assms(2), of uid now] have d1: "d1 = JObj kvs" by simp
  from True have "map_of cs ''conv-default'' \<noteq> None" by (simp add: map_of_eq_None_iff)
  with assms(3) have "holds_default (JObj cs)" by (auto simp: holds_default_def)
  with assms(2) show ?thesis by (simp add: d1 keeps_keys_def default_present_def)
next
  case False
  with assms(1) ensure_default_obj [OF assms(2), of uid now]
  have d1: "d1 = JObj (AList.update ''conversations''
                 (JObj (AList.update ''conv-default'' (welcome_conversation uid now) cs)) kvs)"
    by simp
  have "holds_default (JObj (AList.update ''conv-default'' (welcome_conversation uid now) cs))"
    using welcome_is_conversation [of uid now] by (simp add: holds_default_def update_conv')
  then show ?thesis
    by (auto simp: d1 keeps_keys_def default_present_def dom_update update_conv')
qed

lemma ensure_flags_obj:
  "\<exists>v1 v2 v3. ensure_flags (JObj kvs) =
     Inr (JObj (AList.update ''geminiEnabled'' v3
           (AList.update ''simulateBot'' v2 (AList.update ''currentConvId'' v1 kvs))))"
  by (simp add: ensure_flags_def) (intro exI, rule refl)

lemma ensure_flags_result:
  assumes "ensure_flags (JObj kvs) = Inr d" and "default_present (JObj kvs)"
  shows "keeps_keys kvs d \<and> default_present d"
proof -
  from assms(1) obtain v1 v2 v3 where
    "d = JObj (AList.update ''geminiEnabled'' v3
           (AList.update ''simulateBot'' v2 (AList.update ''currentConvId'' v1 kvs)))"
    by (auto simp: ensure_flags_def)
  with assms(2) show ?thesis
    by (auto simp: keeps_keys_def default_present_def dom_update update_conv'
          split: option.splits)
qed

lemma init_default_data_has_default:
  assumes "load_data f0 = Inr (JObj kvs0)"
    and "map_of kvs0 ''conversations'' = Some (JObj cs0)"
    and "map_of cs0 ''conv-default'' = None
         \<or> (\<exists>c. map_of cs0 ''conv-default'' = Some c \<and> is_conversation ''conv-default'' c)"
  shows "\<exists>data. init_default_data uid now Written f0 = (Inr data, Parsed data)
           \<and> has_default (Parsed data)"
proof -
  obtain d1 where e1: "ensure_default uid now (JObj kvs0) = Inr d1"
    using ensure_default_obj [OF assms(2)] by blast
  from ensure_default_result [OF e1 assms(2,3)]
  have k1: "keeps_keys kvs0 d1" and p1: "default_present d1" by simp_all
  from k1 obtain kvs1 where d1: "d1 = JObj kvs1" and sub1: "set (map fst kvs0) \<subseteq> set (map fst kvs1)"
    by (auto simp: keeps_keys_def split: json.splits)
  obtain data where e2: "ensure_flags (JObj kvs1) = Inr data"
    using ensure_flags_obj [of kvs1] by blast
  from ensure_flags_result [OF e2 p1 [unfolded d1]]
  have k2: "keeps_keys kvs1 data" and p2: "default_present data" by simp_all
  from k2 obtain kvs2 where d2: "data = JObj kvs2" and sub2: "set (map fst kvs1) \<subseteq> set (map fst kvs2)"
    by (auto simp: keeps_keys_def split: json.splits)
  from load_data_keys [OF assms(1)] sub1 sub2
  have "load_data (Parsed (JObj kvs2)) = Inr (JObj kvs2)"
    by (intro load_data_saved) blast
  with p2 have "has_default (Parsed data)" by (simp add: has_default_def d2)
  moreover have "init_default_data uid now Written f0 = (Inr data, Parsed data)"
    using assms(1) e1 e2 d1 by (simp add: init_default_data_def save_data_def)
  ultimately show ?thesis by blast
qed

lemma init_absent:
  "init_default_data uid now so Absent =
     (Inr (initial_state uid now), snd (save_data so (initial_state uid now) Absent))"
  by (simp add: init_default_data_def load_data_def default_data_def default_items_def
        ensure_default_def ensure_flags_def initial_state_def)

lemma load_initial: "load_data (Parsed (initial_state uid now)) = Inr (initial_state uid now)"
  by (simp add: load_data_Parsed initial_state_def default_items_def)

lemma has_default_initial: "has_default (Parsed (initial_state uid now))"
  by (simp add: has_default_def load_initial)
     (simp add: initial_state_def default_present_def holds_default_def welcome_is_conversation)

lemma no_default_without_file:
  "\<not> has_default Absent" "\<not> has_default Undecodable" "\<not> has_default NotUtf8"
  by (simp_all add: has_default_def load_data_def default_data_def default_items_def
        default_present_def holds_default_def)

lemma auto_reply_timer_Some:
  "auto_reply_timer d cid md = Inr (Some t) \<Longrightarrow>
     \<exists>g. py_get d ''geminiEnabled'' (JBool False) = Inr g \<and> truthy g"
  by (auto simp: auto_reply_timer_def try_bind_def split: sum.splits if_splits)

lemma add_message_no_timer:
  assumes "\<not> gemini_enabled f"
  shows "snd (snd (add_message cid request_json uid now so f)) = None"
proof (rule ccontr)
  assume "snd (snd (add_message cid request_json uid now so f)) \<noteq> None"
  then obtain t where t: "snd (snd (add_message cid request_json uid now so f)) = Some t" by auto
  then obtain data m d' md where ld: "load_data f = Inr data"
    and am: "append_message data cid m = Inr d'"
    and ar: "auto_reply_timer d' cid md = Inr (Some t)"
    by (auto simp: add_message_def try_bind_def
          split: sum.splits bool.splits option.splits prod.splits if_splits)
  from am obtain kvs where kvs: "data = JObj kvs"
    by (cases data) (auto simp: append_message_def)
  from append_message_keeps [OF am [unfolded kvs]] have "keeps_gemini kvs d'" by simp
  with auto_reply_timer_Some [OF ar] obtain g where
    "py_get (JObj kvs) ''geminiEnabled'' (JBool False) = Inr g" "truthy g"
    by (auto simp: keeps_gemini_def)
  with ld kvs have "gemini_enabled f" by (simp add: gemini_enabled_def)
  with assms show False by simp
qed

lemma step_gemini_off:
  assumes "\<not> gemini_enabled (data_file w)" and "timers w = []" and "\<not> is_toggle_gemini ev"
  shows "\<not> gemini_enabled (data_file (step api_key repr w ev))
         \<and> timers (step api_key repr w ev) = []"
proof
  from step_file_left_by [of ev w api_key repr] assms(3) obtain so where
    "left_by True so (data_file w) (data_file (step api_key repr w ev))"
    by auto
  with assms(1) show "\<not> gemini_enabled (data_file (step api_key repr w ev))"
    by (rule gemini_off_left_by)
  show "timers (step api_key repr w ev) = []"
  proof (cases ev)
    case (AddMessage cid md uid now so)
    with add_message_no_timer [OF assms(1), of cid md uid now so] assms(2) show ?thesis
      by (auto split: prod.splits)
  qed (use assms(2) in simp_all)
qed

lemma run_gemini_off:
  "\<not> gemini_enabled (data_file w) \<Longrightarrow> timers w = [] \<Longrightarrow>
   \<forall>ev \<in> set evs. \<not> is_toggle_gemini ev \<Longrightarrow>
     \<not> gemini_enabled (data_file (run api_key repr w evs)) \<and> timers (run api_key repr w evs) = []"
proof (induction evs arbitrary: w)
  case Nil
  then show ?case by (simp add: run_def)
next
  case (Cons ev evs)
  from Cons.prems have s: "\<not> gemini_enabled (data_file (step api_key repr w ev))
         \<and> timers (step api_key repr w ev) = []"
    by (intro step_gemini_off) simp_all
  with Cons.IH [of "step api_key repr w ev"] Cons.prems(3) show ?case
    by (simp add: run_def)
qed

lemma gemini_off_initial: "\<not> gemini_enabled (Parsed (initial_state uid now))"
  by (simp add: gemini_enabled_def load_initial) (simp add: initial_state_def)

lemma post_to_initial:
  "fst (fst (add_message ''conv-default'' (Inr (JObj sample_payload)) ''m-1'' ''2024-01-01T10:01:00''
       Written (Parsed (initial_state ''u-0'' ''2024-01-01T09:00:00'')))) = 201"
  by (simp add: add_message_def load_initial)
     (simp add: initial_state_def welcome_conversation_def sample_payload_def save_data_def
        new_message_def append_message_def auto_reply_timer_def)

subsection \<open>A save that fails\<close>

lemma save_data_failed:
  "save_data OpenFailed d f = (False, f)"
  "save_data WriteFailed d f = (False, Undecodable)"
  "save_data WriteFailedMidCharacter d f = (False, NotUtf8)"
  by (simp_all add: save_data_def)

lemma create_conversation_unsaved:
  assumes "load_data f = Inr (JObj kvs)"
    and "map_of kvs ''conversations'' = Some (JObj cs)"
    and "map_of b ''name'' = Some nm" and "truthy nm"
  shows "create_conversation (Inr (JObj b)) uid OpenFailed f =
           ((500, error_body ''Erro ao salvar conversa''), f)"
    and "create_conversation (Inr (JObj b)) uid WriteFailed f =
           ((500, error_body ''Erro ao salvar conversa''), Undecodable)"
    and "create_conversation (Inr (JObj b)) uid WriteFailedMidCharacter f =
           ((500, error_body ''Erro ao salvar conversa''), NotUtf8)"
  using assms map_of_Some_nonempty [OF assms(3)]
  by (simp_all add: create_conversation_def save_data_failed Let_def)

lemma create_conversation_no_body:
  "snd (create_conversation (Inl e) uid so f) = f"
  "fst (fst (create_conversation (Inl e) uid so f)) = 500"
  by (simp_all add: create_conversation_def caught_def split: sum.splits)

lemma add_message_unsaved:
  assumes "load_data f = Inr (JObj kvs)"
    and "map_of kvs ''conversations'' = Some (JObj cs)"
    and "map_of cs cid = Some (JObj conv)"
    and "map_of conv ''messages'' = Some (JArr ms)"
    and "map_of p ''who'' = Some w" and "map_of p ''text'' = Some t"
  shows "add_message cid (Inr (JObj p)) uid now OpenFailed f =
           ((500, error_body ''Erro ao salvar mensagem''), f, None)"
    and "add_message cid (Inr (JObj p)) uid now WriteFailed f =
           ((500, error_body ''Erro ao salvar mensagem''), Undecodable, None)"
    and "add_message cid (Inr (JObj p)) uid now WriteFailedMidCharacter f =
           ((500, error_body ''Erro ao salvar mensagem''), NotUtf8, None)"
proof -
  have pre: "try_bind (py_getitem (JObj kvs) ''conversations'') (py_contains cid) = Inr True"
    using assms(2) map_of_Some_key [OF assms(3)] by simp
  have tr: "truthy (JObj p)" using map_of_Some_nonempty [OF assms(5)] by simp
  have mf: "missing_field (JObj p) [''who'', ''text''] = Inr None"
    using map_of_Some_key [OF assms(5)] map_of_Some_key [OF assms(6)] by simp
  note nm = new_message_obj [OF assms(5,6), of uid now]
  note am = append_message_obj [OF assms(2,3,4)]
  show "add_message cid (Inr (JObj p)) uid now OpenFailed f =
           ((500, error_body ''Erro ao salvar mensagem''), f, None)"
    unfolding add_message_def
    by (simp only: assms(1) sum.case pre bool.case tr not_True_eq_False if_False mf
          option.case nm am try_bind_simps prod.case save_data_failed)
  show "add_message cid (Inr (JObj p)) uid now WriteFailed f =
           ((500, error_body ''Erro ao salvar mensagem''), Undecodable, None)"
    unfolding add_message_def
    by (simp only: assms(1) sum.case pre bool.case tr not_True_eq_False if_False mf
          option.case nm am try_bind_simps prod.case save_data_failed)
  show "add_message cid (Inr (JObj p)) uid now WriteFailedMidCharacter f =
           ((500, error_body ''Erro ao salvar mensagem''), NotUtf8, None)"
    unfolding add_message_def
    by (simp only: assms(1) sum.case pre bool.case tr not_True_eq_False if_False mf
          option.case nm am try_bind_simps prod.case save_data_failed)
qed

lemma remove_conversation_obj:
  assumes "map_of kvs ''conversations'' = Some (JObj cs)"
    and "cid \<in> set (map fst cs)"
    and "map_of kvs ''currentConvId'' = Some cur"
  shows "remove_conversation (JObj kvs) cid =
     Inr (JObj (if cur = JStr cid
                then AList.update ''currentConvId'' (JStr ''conv-default'')
                       (AList.update ''conversations'' (JObj (AList.delete cid cs)) kvs)
                else AList.update ''conversations'' (JObj (AList.delete cid cs)) kvs))"
  using assms by (simp add: remove_conversation_def update_conv')

lemma delete_conversation_unsaved:
  assumes "load_data f = Inr (JObj kvs)"
    and "map_of kvs ''conversations'' = Some (JObj cs)"
    and "cid \<in> set (map fst cs)"
    and "cid \<noteq> ''conv-default''"
  shows "delete_conversation cid OpenFailed f = ((500, error_body save_changes_failed_text), f)"
    and "delete_conversation cid WriteFailed f =
           ((500, error_body save_changes_failed_text), Undecodable)"
    and "delete_conversation cid WriteFailedMidCharacter f =
           ((500, error_body save_changes_failed_text), NotUtf8)"
proof -
  from load_data_has [OF assms(1)] obtain cur where cur: "map_of kvs ''currentConvId'' = Some cur"
    by auto
  note rc = remove_conversation_obj [OF assms(2,3) cur]
  show "delete_conversation cid OpenFailed f = ((500, error_body save_changes_failed_text), f)"
    using assms rc by (simp add: delete_conversation_def save_data_failed)
  show "delete_conversation cid WriteFailed f =
           ((500, error_body save_changes_failed_text), Undecodable)"
    using assms rc by (simp add: delete_conversation_def save_data_failed)
  show "delete_conversation cid WriteFailedMidCharacter f =
           ((500, error_body save_changes_failed_text), NotUtf8)"
    using assms rc by (simp add: delete_conversation_def save_data_failed)
qed

lemma toggle_unsaved:
  assumes "load_data f = Inr (JObj kvs)"
  shows "toggle_bot OpenFailed f = ((500, error_body save_config_failed_text), f)"
    and "toggle_bot WriteFailed f = ((500, error_body save_config_failed_text), Undecodable)"
    and "toggle_bot WriteFailedMidCharacter f =
           ((500, error_body save_config_failed_text), NotUtf8)"
    and "toggle_gemini OpenFailed f = ((500, error_body save_config_failed_text), f)"
    and "toggle_gemini WriteFailed f = ((500, error_body save_config_failed_text), Undecodable)"
    and "toggle_gemini WriteFailedMidCharacter f =
           ((500, error_body save_config_failed_text), NotUtf8)"
  using assms
  by (simp_all add: toggle_bot_def toggle_gemini_def negate_flag_def save_data_failed)

subsection \<open>The identifiers of the stored messages\<close>

lemma message_ids_append: "message_ids (ms @ ms') = message_ids ms @ message_ids ms'"
  by (simp add: message_ids_def)

lemma count_ids_update:
  assumes "map_of cs cid = Some c"
  shows "count_list (concat (map (\<lambda>kv. F (snd kv)) (AList.update cid c' cs))) x
           + count_list (F c) x =
         count_list (concat (map (\<lambda>kv. F (snd kv)) cs)) x + count_list (F c') x"
  using assms
proof (induction cs)
  case Nil
  then show ?case by simp
next
  case (Cons kv cs)
  then show ?case by (cases kv) (auto split: if_splits)
qed

lemma stored_message_ids_append:
  assumes "map_of kvs ''conversations'' = Some (JObj cs)"
    and "map_of cs cid = Some (JObj conv)"
    and "map_of conv ''messages'' = Some (JArr ms)"
  shows "count_list (stored_message_ids (JObj (AList.update ''conversations''
            (JObj (AList.update cid
               (JObj (AList.update ''messages'' (JArr (ms @ [JObj ((''id'', i) # rest)])) conv))
               cs)) kvs))) x =
         count_list (stored_message_ids (JObj kvs)) x + (if x = i then 1 else 0)"
proof -
  let ?c' = "JObj (AList.update ''messages'' (JArr (ms @ [JObj ((''id'', i) # rest)])) conv)"
  have a: "conversation_message_ids ?c' = conversation_message_ids (JObj conv) @ [i]"
    using assms(3)
    by (simp add: conversation_message_ids_def update_conv' message_ids_append)
       (simp add: message_ids_def)
  from count_ids_update [OF assms(2), of conversation_message_ids ?c' x]
  have "count_list (concat (map (\<lambda>kv. conversation_message_ids (snd kv))
                 (AList.update cid ?c' cs))) x =
        count_list (concat (map (\<lambda>kv. conversation_message_ids (snd kv)) cs)) x
          + (if x = i then 1 else 0)"
    by (simp add: a)
  then show ?thesis
    using assms(1) by (simp add: stored_message_ids_def update_conv')
qed

subsection \<open>What \<^verbatim>\<open>has_default\<close> says\<close>

lemma has_default_iff:
  "has_default f \<longleftrightarrow>
     (\<exists>kvs cs c. load_data f = Inr (JObj kvs) \<and> map_of kvs ''conversations'' = Some (JObj cs)
        \<and> map_of cs ''conv-default'' = Some c \<and> is_conversation ''conv-default'' c)"
proof
  assume "has_default f"
  then obtain data where ld: "load_data f = Inr data" and dp: "default_present data"
    by (auto simp: has_default_def split: sum.splits)
  from dp obtain convs where g: "py_getitem data ''conversations'' = Inr convs"
    and hd: "holds_default convs"
    by (auto simp: default_present_def split: sum.splits)
  from getitem_obj [OF g] obtain kvs where kvs: "data = JObj kvs"
    "map_of kvs ''conversations'' = Some convs" by blast
  from hd obtain cs c where "convs = JObj cs" "map_of cs ''conv-default'' = Some c"
    "is_conversation ''conv-default'' c"
    by (auto simp: holds_default_def split: json.splits option.splits)
  with ld kvs show "\<exists>kvs cs c. load_data f = Inr (JObj kvs)
        \<and> map_of kvs ''conversations'' = Some (JObj cs)
        \<and> map_of cs ''conv-default'' = Some c \<and> is_conversation ''conv-default'' c"
    by blast
next
  assume "\<exists>kvs cs c. load_data f = Inr (JObj kvs) \<and> map_of kvs ''conversations'' = Some (JObj cs)
        \<and> map_of cs ''conv-default'' = Some c \<and> is_conversation ''conv-default'' c"
  then show "has_default f"
    by (auto simp: has_default_def default_present_def holds_default_def)
qed

section \<open>The claims\<close>

subsection \<open>C4: what \<^verbatim>\<open>load_data\<close> returns\<close>

text \<open>
  C4 as stated says that \<^verbatim>\<open>load_data\<close> is total and returns a well-formed state for
  every content of the file, the default state when the structure is invalid.  It
  fails for a file whose \<^verbatim>\<open>conversations\<close> entry is the number 5: the function
  returns that object with the three missing keys added, which is neither the default
  state nor a state of the specification's data model.  And it is not total: for a
  file that holds \<^verbatim>\<open>null\<close> the test \<^verbatim>\<open>key not in data\<close> raises \<^verbatim>\<open>TypeError\<close>, and for a
  file whose bytes are not UTF-8 reading raises \<^verbatim>\<open>UnicodeDecodeError\<close>; the \<^verbatim>\<open>except\<close>
  clause catches neither.
\<close>

theorem load_data_keeps_invalid_structure:
  "load_data (Parsed (JObj [(''conversations'', JNum 5)])) =
     Inr (JObj [(''conversations'', JNum 5),
                (''currentConvId'', JStr ''conv-default''),
                (''simulateBot'', JBool False),
                (''geminiEnabled'', JBool False)])
   \<and> \<not> spec_app_state (JObj [(''conversations'', JNum 5),
                (''currentConvId'', JStr ''conv-default''),
                (''simulateBot'', JBool False),
                (''geminiEnabled'', JBool False)])
   \<and> JObj [(''conversations'', JNum 5),
           (''currentConvId'', JStr ''conv-default''),
           (''simulateBot'', JBool False),
           (''geminiEnabled'', JBool False)] \<noteq> default_data
   \<and> load_data (Parsed JNull) = Inl TypeError
   \<and> load_data NotUtf8 = Inl UnicodeDecodeError"
  by (simp add: load_data_Parsed default_items_def default_data_def spec_app_state_def
        has_field_def)
     (simp add: load_data_def)

text \<open>
  C4, amended: \<^verbatim>\<open>load_data\<close> returns the default state (no conversation, active
  identifier \<^verbatim>\<open>conv-default\<close>, both flags false; a state of the specification's data
  model) when the file is absent and when \<^verbatim>\<open>json.load\<close> rejects its text with
  \<^verbatim>\<open>JSONDecodeError\<close>.  It raises, and returns
  nothing, when the file cannot be opened (\<^verbatim>\<open>OSError\<close>), when its bytes are not UTF-8
  (\<^verbatim>\<open>UnicodeDecodeError\<close>) and when its content decodes to \<^verbatim>\<open>null\<close>, a boolean or a
  number (\<^verbatim>\<open>TypeError\<close>).  When the content decodes to a JSON object it returns an
  object that has all four top-level keys, in which every key of the file keeps the
  value stored for it, whatever that value is, and every key the file lacks has its
  default.
\<close>

theorem load_data_default_or_backfilled:
  "load_data Absent = Inr default_data
   \<and> load_data Undecodable = Inr default_data
   \<and> default_data = JObj [(''conversations'', JObj []),
                         (''currentConvId'', JStr ''conv-default''),
                         (''simulateBot'', JBool False),
                         (''geminiEnabled'', JBool False)]
   \<and> spec_app_state default_data
   \<and> load_data Unopenable = Inl OSError
   \<and> load_data NotUtf8 = Inl UnicodeDecodeError
   \<and> load_data (Parsed JNull) = Inl TypeError
   \<and> load_data (Parsed (JBool b)) = Inl TypeError
   \<and> load_data (Parsed (JNum n)) = Inl TypeError
   \<and> (\<exists>kvs'. load_data (Parsed (JObj kvs)) = Inr (JObj kvs')
         \<and> map_of kvs' ''conversations'' \<noteq> None
         \<and> map_of kvs' ''currentConvId'' \<noteq> None
         \<and> map_of kvs' ''simulateBot'' \<noteq> None
         \<and> map_of kvs' ''geminiEnabled'' \<noteq> None
         \<and> (\<forall>k. map_of kvs' k =
               (case map_of kvs k of Some v \<Rightarrow> Some v | None \<Rightarrow> map_of default_items k)))"
proof -
  obtain kvs' where
    h: "fill_defaults (JObj kvs) default_items = Inr (JObj kvs')"
       "\<forall>k. map_of kvs' k =
          (case map_of kvs k of Some v \<Rightarrow> Some v | None \<Rightarrow> map_of default_items k)"
    using fill_defaults_obj [of kvs default_items] by blast
  have keys: "map_of kvs' ''conversations'' \<noteq> None" "map_of kvs' ''currentConvId'' \<noteq> None"
    "map_of kvs' ''simulateBot'' \<noteq> None" "map_of kvs' ''geminiEnabled'' \<noteq> None"
    using h(2) by (simp_all add: default_items_def split: option.splits)
  have raises: "load_data (Parsed JNull) = Inl TypeError"
    "load_data (Parsed (JBool b)) = Inl TypeError"
    "load_data (Parsed (JNum n)) = Inl TypeError"
    by (simp_all add: load_data_Parsed default_items_def)
  have files: "load_data Absent = Inr default_data" "load_data Undecodable = Inr default_data"
    by (simp_all add: load_data_def)
  have dflt: "default_data = JObj [(''conversations'', JObj []),
                         (''currentConvId'', JStr ''conv-default''),
                         (''simulateBot'', JBool False),
                         (''geminiEnabled'', JBool False)]"
    "spec_app_state default_data"
    by (simp_all add: default_data_def default_items_def spec_app_state_def has_field_def
          is_string_def is_boolean_def)
  have unread: "load_data Unopenable = Inl OSError" "load_data NotUtf8 = Inl UnicodeDecodeError"
    by (simp_all add: load_data_def)
  have obj: "\<exists>kvs'. load_data (Parsed (JObj kvs)) = Inr (JObj kvs')
         \<and> map_of kvs' ''conversations'' \<noteq> None
         \<and> map_of kvs' ''currentConvId'' \<noteq> None
         \<and> map_of kvs' ''simulateBot'' \<noteq> None
         \<and> map_of kvs' ''geminiEnabled'' \<noteq> None
         \<and> (\<forall>k. map_of kvs' k =
               (case map_of kvs k of Some v \<Rightarrow> Some v | None \<Rightarrow> map_of default_items k))"
    using h keys by (simp add: load_data_Parsed)
  from files dflt unread raises obj show ?thesis by (intro conjI)
qed

subsection \<open>C10: the order of the two checks of \<^verbatim>\<open>delete_conversation\<close>\<close>

text \<open>
  C10: a \<^verbatim>\<open>DELETE\<close> of \<^verbatim>\<open>conv-default\<close> never changes the file; it is answered with
  400 exactly when the state could be loaded and \<^verbatim>\<open>"conv-default" in
  data["conversations"]\<close> holds; when that test is false the answer is 404, as it is
  for a missing and for an undecodable file.
\<close>

theorem delete_default_guard_order:
  "snd (delete_conversation ''conv-default'' so f) = f
   \<and> (fst (fst (delete_conversation ''conv-default'' so f)) = 400 \<longleftrightarrow>
        (\<exists>data convs. load_data f = Inr data
           \<and> py_getitem data ''conversations'' = Inr convs
           \<and> py_contains ''conv-default'' convs = Inr True))
   \<and> (\<forall>data convs. load_data f = Inr data
           \<and> py_getitem data ''conversations'' = Inr convs
           \<and> py_contains ''conv-default'' convs = Inr False
         \<longrightarrow> fst (delete_conversation ''conv-default'' so f) = (404, error_body not_found_text))
   \<and> (f = Absent \<or> f = Undecodable
         \<longrightarrow> fst (delete_conversation ''conv-default'' so f) = (404, error_body not_found_text))"
  apply (intro conjI)
     apply (simp add: delete_conversation_def split: sum.splits bool.splits)
    apply (auto simp: delete_conversation_def caught_def try_bind_def
             split: sum.splits bool.splits)[1]
   apply (auto simp: delete_conversation_def caught_def try_bind_def
            split: sum.splits bool.splits)[1]
  apply (auto simp: delete_conversation_def load_data_def default_data_def default_items_def)
  done

theorem delete_default_guard_order_witness:
  "snd (delete_conversation ''conv-default'' Written (Parsed sample_state)) = Parsed sample_state
   \<and> fst (fst (delete_conversation ''conv-default'' Written (Parsed sample_state))) = 400
   \<and> fst (delete_conversation ''conv-default'' Written Absent) = (404, error_body not_found_text)"
  using delete_default_guard_order [of Written "Parsed sample_state"]
    delete_default_guard_order [of Written Absent]
  by (simp add: load_sample) (simp add: sample_defs)

subsection \<open>C9: what \<^verbatim>\<open>delete_conversation\<close> changes\<close>

text \<open>
  C9 as stated promises the removal for every state and every present identifier other
  than \<^verbatim>\<open>conv-default\<close>.  The handler answers 500 and leaves the conversation in the
  file when \<^verbatim>\<open>save_data\<close> reports a failure.
\<close>

theorem delete_save_failure:
  "delete_conversation ''conv-1'' OpenFailed (Parsed sample_state) =
     ((500, error_body save_changes_failed_text), Parsed sample_state)"
  by (simp add: delete_conversation_def load_sample)
     (simp add: sample_defs remove_conversation_def save_data_def)

text \<open>
  C9, amended: for every state whose \<^verbatim>\<open>conversations\<close> entry is an object and every
  identifier other than \<^verbatim>\<open>conv-default\<close> that is a key of it, the delete operation,
  when its save succeeds, answers 200 and stores a state in which exactly the entries
  of that identifier are gone from \<^verbatim>\<open>conversations\<close> (the others unchanged and in
  the same order), both flags are unchanged, and \<^verbatim>\<open>currentConvId\<close> is
  \<^verbatim>\<open>conv-default\<close> if it was the deleted identifier and unchanged otherwise.  When
  the save fails it answers 500 with the error of a failed save and nothing is
  removed: the file is as it was when it could not be opened, and holds a broken-off
  text (one that \<^verbatim>\<open>json.load\<close> rejects, or bytes that are not UTF-8) when the write
  failed after it was opened.
\<close>

theorem delete_removes_exactly:
  assumes "load_data f = Inr (JObj kvs)"
    and "map_of kvs ''conversations'' = Some (JObj cs)"
    and "cid \<in> set (map fst cs)"
    and "cid \<noteq> ''conv-default''"
  shows "(\<exists>kvs'. delete_conversation cid Written f =
            ((200, message_body ''Conversa deletada com sucesso''), Parsed (JObj kvs'))
          \<and> load_data (Parsed (JObj kvs')) = Inr (JObj kvs')
          \<and> map_of kvs' ''conversations'' = Some (JObj (filter (\<lambda>kv. fst kv \<noteq> cid) cs))
          \<and> map_of kvs' ''currentConvId'' =
               (if map_of kvs ''currentConvId'' = Some (JStr cid) then Some (JStr ''conv-default'')
                else map_of kvs ''currentConvId'')
          \<and> map_of kvs' ''simulateBot'' = map_of kvs ''simulateBot''
          \<and> map_of kvs' ''geminiEnabled'' = map_of kvs ''geminiEnabled''
          \<and> map fst kvs' = map fst kvs)
       \<and> delete_conversation cid OpenFailed f =
            ((500, error_body save_changes_failed_text), f)
       \<and> delete_conversation cid WriteFailed f =
            ((500, error_body save_changes_failed_text), Undecodable)
       \<and> delete_conversation cid WriteFailedMidCharacter f =
            ((500, error_body save_changes_failed_text), NotUtf8)"
proof -
  let ?cs' = "AList.delete cid cs"
  let ?k1 = "AList.update ''conversations'' (JObj ?cs') kvs"
  let ?k2 = "if map_of kvs ''currentConvId'' = Some (JStr cid)
             then AList.update ''currentConvId'' (JStr ''conv-default'') ?k1 else ?k1"
  from load_data_has [OF assms(1)] obtain cur where cur: "map_of kvs ''currentConvId'' = Some cur"
    by auto
  have rc: "remove_conversation (JObj kvs) cid = Inr (JObj ?k2)"
    using assms(2,3) cur by (simp add: remove_conversation_def update_conv')
  have keys: "map fst ?k2 = map fst kvs"
    using assms(2) cur by (simp add: update_keys map_of_eq_None_iff [symmetric])
  have del: "delete_conversation cid Written f =
      ((200, message_body ''Conversa deletada com sucesso''), Parsed (JObj ?k2))"
    using assms rc by (simp add: delete_conversation_def save_data_def)
  have ld: "load_data (Parsed (JObj ?k2)) = Inr (JObj ?k2)"
    using load_data_keys [OF assms(1)] keys by (intro load_data_saved) simp
  have "map_of ?k2 ''conversations'' = Some (JObj (filter (\<lambda>kv. fst kv \<noteq> cid) cs))"
    by (simp add: update_conv' delete_filter)
  moreover have "map_of ?k2 ''currentConvId'' =
       (if map_of kvs ''currentConvId'' = Some (JStr cid) then Some (JStr ''conv-default'')
        else map_of kvs ''currentConvId'')"
    by (simp add: update_conv')
  moreover have "map_of ?k2 ''simulateBot'' = map_of kvs ''simulateBot''"
    "map_of ?k2 ''geminiEnabled'' = map_of kvs ''geminiEnabled''"
    by (simp_all add: update_conv')
  ultimately have saved: "\<exists>kvs'. delete_conversation cid Written f =
            ((200, message_body ''Conversa deletada com sucesso''), Parsed (JObj kvs'))
          \<and> load_data (Parsed (JObj kvs')) = Inr (JObj kvs')
          \<and> map_of kvs' ''conversations'' = Some (JObj (filter (\<lambda>kv. fst kv \<noteq> cid) cs))
          \<and> map_of kvs' ''currentConvId'' =
               (if map_of kvs ''currentConvId'' = Some (JStr cid) then Some (JStr ''conv-default'')
                else map_of kvs ''currentConvId'')
          \<and> map_of kvs' ''simulateBot'' = map_of kvs ''simulateBot''
          \<and> map_of kvs' ''geminiEnabled'' = map_of kvs ''geminiEnabled''
          \<and> map fst kvs' = map fst kvs"
    using del ld keys by blast
  from saved delete_conversation_unsaved [OF assms] show ?thesis by (intro conjI)
qed

theorem delete_removes_exactly_witness:
  "load_data (Parsed sample_state) = Inr (JObj sample_items)
   \<and> map_of sample_items ''conversations'' = Some (JObj sample_conversations)
   \<and> ''conv-1'' \<in> set (map fst sample_conversations)
   \<and> ''conv-1'' \<noteq> ''conv-default''
   \<and> (\<exists>kvs'. delete_conversation ''conv-1'' Written (Parsed sample_state) =
            ((200, message_body ''Conversa deletada com sucesso''), Parsed (JObj kvs'))
          \<and> load_data (Parsed (JObj kvs')) = Inr (JObj kvs')
          \<and> map_of kvs' ''conversations'' =
               Some (JObj [(''conv-default'',
                              JObj [(''id'', JStr ''conv-default''),
                                    (''name'', JStr ''Conversa com Gemini AI''),
                                    (''messages'', JArr [])])])
          \<and> map_of kvs' ''currentConvId'' = Some (JStr ''conv-default'')
          \<and> map_of kvs' ''simulateBot'' = Some (JBool False)
          \<and> map_of kvs' ''geminiEnabled'' = Some (JBool True))
   \<and> delete_conversation ''conv-1'' WriteFailed (Parsed sample_state) =
        ((500, error_body save_changes_failed_text), Undecodable)"
proof -
  have h1: "load_data (Parsed sample_state) = Inr (JObj sample_items)"
    using load_sample by (simp add: sample_state_def)
  have h2: "map_of sample_items ''conversations'' = Some (JObj sample_conversations)"
    by (simp add: sample_items_def)
  have h3: "''conv-1'' \<in> set (map fst sample_conversations)"
    by (simp add: sample_conversations_def)
  have h4: "''conv-1'' \<noteq> ''conv-default''" by simp
  note t = delete_removes_exactly [OF h1 h2 h3 h4]
  from t obtain kvs' where
    r: "delete_conversation ''conv-1'' Written (Parsed sample_state) =
            ((200, message_body ''Conversa deletada com sucesso''), Parsed (JObj kvs'))"
       "load_data (Parsed (JObj kvs')) = Inr (JObj kvs')"
       "map_of kvs' ''conversations'' =
          Some (JObj (filter (\<lambda>kv. fst kv \<noteq> ''conv-1'') sample_conversations))"
       "map_of kvs' ''currentConvId'' =
               (if map_of sample_items ''currentConvId'' = Some (JStr ''conv-1'')
                then Some (JStr ''conv-default'')
                else map_of sample_items ''currentConvId'')"
       "map_of kvs' ''simulateBot'' = map_of sample_items ''simulateBot''"
       "map_of kvs' ''geminiEnabled'' = map_of sample_items ''geminiEnabled''"
    by (elim exE conjE) (rule that)
  from t have wf: "delete_conversation ''conv-1'' WriteFailed (Parsed sample_state) =
        ((500, error_body save_changes_failed_text), Undecodable)"
    by (elim conjE)
  have "map_of kvs' ''conversations'' =
               Some (JObj [(''conv-default'',
                              JObj [(''id'', JStr ''conv-default''),
                                    (''name'', JStr ''Conversa com Gemini AI''),
                                    (''messages'', JArr [])])])"
    using r(3) by (simp add: sample_conversations_def)
  moreover have "map_of kvs' ''currentConvId'' = Some (JStr ''conv-default'')"
    using r(4) by (simp add: sample_items_def)
  moreover have "map_of kvs' ''simulateBot'' = Some (JBool False)"
    using r(5) by (simp add: sample_items_def)
  moreover have "map_of kvs' ''geminiEnabled'' = Some (JBool True)"
    using r(6) by (simp add: sample_items_def)
  ultimately have "\<exists>kvs'. delete_conversation ''conv-1'' Written (Parsed sample_state) =
            ((200, message_body ''Conversa deletada com sucesso''), Parsed (JObj kvs'))
          \<and> load_data (Parsed (JObj kvs')) = Inr (JObj kvs')
          \<and> map_of kvs' ''conversations'' =
               Some (JObj [(''conv-default'',
                              JObj [(''id'', JStr ''conv-default''),
                                    (''name'', JStr ''Conversa com Gemini AI''),
                                    (''messages'', JArr [])])])
          \<and> map_of kvs' ''currentConvId'' = Some (JStr ''conv-default'')
          \<and> map_of kvs' ''simulateBot'' = Some (JBool False)
          \<and> map_of kvs' ''geminiEnabled'' = Some (JBool True)"
    using r(1,2) by blast
  with h1 h2 h3 h4 wf show ?thesis by (intro conjI)
qed

subsection \<open>C7: toggling a flag\<close>

text \<open>
  C7 as stated says that every application of a toggle returns the negation of the
  flag and that two applications restore it.  When \<^verbatim>\<open>save_data\<close> cannot open the file
  the handler answers 500 and the flag in the file is not negated; a toggle that is
  saved followed by one that is not leaves the flag negated.
\<close>

theorem toggle_save_failure:
  "toggle_bot OpenFailed (Parsed sample_state) =
     ((500, error_body save_config_failed_text), Parsed sample_state)
   \<and> toggle_gemini OpenFailed (Parsed sample_state) =
     ((500, error_body save_config_failed_text), Parsed sample_state)
   \<and> snd (toggle_bot OpenFailed (snd (toggle_bot Written (Parsed sample_state)))) =
       Parsed (JObj [(''conversations'', JObj sample_conversations),
                     (''currentConvId'', JStr ''conv-1''),
                     (''simulateBot'', JBool True),
                     (''geminiEnabled'', JBool True)])"
  by (simp add: toggle_bot_def toggle_gemini_def load_sample load_data_Parsed default_items_def)
     (simp add: sample_state_def sample_items_def negate_flag_def save_data_def
        load_data_Parsed default_items_def)

text \<open>
  C7, amended: for every state in which the flag is stored as a boolean, a toggle whose
  save succeeds answers 200 with the negation of the flag's prior value and stores
  it, and two such toggles in a row return the flag, and with it the whole stored
  state, to what it was; this holds for \<^verbatim>\<open>simulateBot\<close> with \<^verbatim>\<open>/api/bot\<close> and for
  \<^verbatim>\<open>geminiEnabled\<close> with \<^verbatim>\<open>/api/gemini/toggle\<close>.  A toggle whose save fails answers
  500 with the error of a failed save, on every state that loads as an object: the
  file, and the flag in it, is as it was when the file could not be opened, and the
  file holds a broken-off text (one that \<^verbatim>\<open>json.load\<close> rejects, or bytes that are not
  UTF-8) when the write failed after it was opened.
\<close>

theorem toggle_negates_and_twice_restores:
  assumes "load_data f = Inr (JObj kvs)"
  shows "(map_of kvs ''simulateBot'' = Some (JBool b) \<longrightarrow>
            toggle_bot Written f =
              ((200, Body (JObj [(''simulateBot'', JBool (\<not> b))])),
               Parsed (JObj (AList.update ''simulateBot'' (JBool (\<not> b)) kvs)))
            \<and> toggle_bot Written (snd (toggle_bot Written f)) =
              ((200, Body (JObj [(''simulateBot'', JBool b)])), Parsed (JObj kvs))
            \<and> load_data (Parsed (JObj kvs)) = Inr (JObj kvs))
       \<and> (map_of kvs ''geminiEnabled'' = Some (JBool g) \<longrightarrow>
            toggle_gemini Written f =
              ((200, Body (JObj [(''geminiEnabled'', JBool (\<not> g)),
                                 (''message'', JStr (''Gemini AI '' @
                                    (if \<not> g then ''ativado'' else ''desativado'')))])),
               Parsed (JObj (AList.update ''geminiEnabled'' (JBool (\<not> g)) kvs)))
            \<and> toggle_gemini Written (snd (toggle_gemini Written f)) =
              ((200, Body (JObj [(''geminiEnabled'', JBool g),
                                 (''message'', JStr (''Gemini AI '' @
                                    (if g then ''ativado'' else ''desativado'')))])),
               Parsed (JObj kvs))
            \<and> load_data (Parsed (JObj kvs)) = Inr (JObj kvs))
       \<and> toggle_bot OpenFailed f = ((500, error_body save_config_failed_text), f)
       \<and> toggle_bot WriteFailed f = ((500, error_body save_config_failed_text), Undecodable)
       \<and> toggle_bot WriteFailedMidCharacter f =
            ((500, error_body save_config_failed_text), NotUtf8)
       \<and> toggle_gemini OpenFailed f = ((500, error_body save_config_failed_text), f)
       \<and> toggle_gemini WriteFailed f = ((500, error_body save_config_failed_text), Undecodable)
       \<and> toggle_gemini WriteFailedMidCharacter f =
            ((500, error_body save_config_failed_text), NotUtf8)"
proof -
  have ld: "load_data (Parsed (JObj kvs)) = Inr (JObj kvs)"
    using load_data_keys [OF assms] by (rule load_data_saved)
  have bot: "toggle_bot Written (snd (toggle_bot Written f)) =
              ((200, Body (JObj [(''simulateBot'', JBool b)])), Parsed (JObj kvs))"
    if h: "map_of kvs ''simulateBot'' = Some (JBool b)"
  proof -
    let ?k1 = "AList.update ''simulateBot'' (JBool (\<not> b)) kvs"
    have "toggle_bot Written (Parsed (JObj ?k1)) =
            ((200, Body (JObj [(''simulateBot'', JBool (\<not> \<not> b))])),
             Parsed (JObj (AList.update ''simulateBot'' (JBool (\<not> \<not> b)) ?k1)))"
      by (rule toggle_bot_once [OF load_after_update [OF assms]]) (simp add: update_conv')
    moreover have "AList.update ''simulateBot'' (JBool b) kvs = kvs"
      using h by (rule update_triv)
    ultimately show ?thesis using toggle_bot_once [OF assms h] by simp
  qed
  have gem: "toggle_gemini Written (snd (toggle_gemini Written f)) =
              ((200, Body (JObj [(''geminiEnabled'', JBool g),
                                 (''message'', JStr (''Gemini AI '' @
                                    (if g then ''ativado'' else ''desativado'')))])),
               Parsed (JObj kvs))"
    if h: "map_of kvs ''geminiEnabled'' = Some (JBool g)"
  proof -
    let ?k1 = "AList.update ''geminiEnabled'' (JBool (\<not> g)) kvs"
    have "toggle_gemini Written (Parsed (JObj ?k1)) =
            ((200, Body (JObj [(''geminiEnabled'', JBool (\<not> \<not> g)),
                              (''message'', JStr (''Gemini AI '' @
                                 (if \<not> \<not> g then ''ativado'' else ''desativado'')))])),
             Parsed (JObj (AList.update ''geminiEnabled'' (JBool (\<not> \<not> g)) ?k1)))"
      by (rule toggle_gemini_once [OF load_after_update [OF assms]]) (simp add: update_conv')
    moreover have "AList.update ''geminiEnabled'' (JBool g) kvs = kvs"
      using h by (rule update_triv)
    ultimately show ?thesis using toggle_gemini_once [OF assms h] by simp
  qed
  have saved_bot: "map_of kvs ''simulateBot'' = Some (JBool b) \<longrightarrow>
            toggle_bot Written f =
              ((200, Body (JObj [(''simulateBot'', JBool (\<not> b))])),
               Parsed (JObj (AList.update ''simulateBot'' (JBool (\<not> b)) kvs)))
            \<and> toggle_bot Written (snd (toggle_bot Written f)) =
              ((200, Body (JObj [(''simulateBot'', JBool b)])), Parsed (JObj kvs))
            \<and> load_data (Parsed (JObj kvs)) = Inr (JObj kvs)"
    using toggle_bot_once [OF assms] bot ld by blast
  have saved_gemini: "map_of kvs ''geminiEnabled'' = Some (JBool g) \<longrightarrow>
            toggle_gemini Written f =
              ((200, Body (JObj [(''geminiEnabled'', JBool (\<not> g)),
                                 (''message'', JStr (''Gemini AI '' @
                                    (if \<not> g then ''ativado'' else ''desativado'')))])),
               Parsed (JObj (AList.update ''geminiEnabled'' (JBool (\<not> g)) kvs)))
            \<and> toggle_gemini Written (snd (toggle_gemini Written f)) =
              ((200, Body (JObj [(''geminiEnabled'', JBool g),
                                 (''message'', JStr (''Gemini AI '' @
                                    (if g then ''ativado'' else ''desativado'')))])),
               Parsed (JObj kvs))
            \<and> load_data (Parsed (JObj kvs)) = Inr (JObj kvs)"
    using toggle_gemini_once [OF assms] gem ld by blast
  from saved_bot saved_gemini toggle_unsaved [OF assms] show ?thesis by (intro conjI)
qed

theorem toggle_negates_and_twice_restores_witness:
  "load_data (Parsed (JObj sample_items)) = Inr (JObj sample_items)
   \<and> map_of sample_items ''simulateBot'' = Some (JBool False)
   \<and> map_of sample_items ''geminiEnabled'' = Some (JBool True)
   \<and> fst (toggle_bot Written (Parsed (JObj sample_items))) =
        (200, Body (JObj [(''simulateBot'', JBool True)]))
   \<and> toggle_bot Written (snd (toggle_bot Written (Parsed (JObj sample_items)))) =
        ((200, Body (JObj [(''simulateBot'', JBool False)])), Parsed (JObj sample_items))
   \<and> fst (toggle_gemini Written (Parsed (JObj sample_items))) =
        (200, Body (JObj [(''geminiEnabled'', JBool False),
                          (''message'', JStr ''Gemini AI desativado'')]))
   \<and> toggle_gemini Written (snd (toggle_gemini Written (Parsed (JObj sample_items)))) =
        ((200, Body (JObj [(''geminiEnabled'', JBool True),
                           (''message'', JStr ''Gemini AI ativado'')])),
         Parsed (JObj sample_items))
   \<and> toggle_gemini WriteFailed (Parsed (JObj sample_items)) =
        ((500, error_body save_config_failed_text), Undecodable)"
proof -
  have h1: "load_data (Parsed (JObj sample_items)) = Inr (JObj sample_items)"
    using load_sample by (simp add: sample_state_def)
  have h2: "map_of sample_items ''simulateBot'' = Some (JBool False)"
    and h3: "map_of sample_items ''geminiEnabled'' = Some (JBool True)"
    by (simp_all add: sample_items_def)
  from toggle_negates_and_twice_restores [OF h1, of False True] h2 h3
  have "toggle_bot Written (Parsed (JObj sample_items)) =
          ((200, Body (JObj [(''simulateBot'', JBool (\<not> False))])),
           Parsed (JObj (AList.update ''simulateBot'' (JBool (\<not> False)) sample_items)))"
    and "toggle_bot Written (snd (toggle_bot Written (Parsed (JObj sample_items)))) =
          ((200, Body (JObj [(''simulateBot'', JBool False)])), Parsed (JObj sample_items))"
    and "toggle_gemini Written (Parsed (JObj sample_items)) =
          ((200, Body (JObj [(''geminiEnabled'', JBool (\<not> True)),
                             (''message'', JStr (''Gemini AI '' @
                                (if \<not> True then ''ativado'' else ''desativado'')))])),
           Parsed (JObj (AList.update ''geminiEnabled'' (JBool (\<not> True)) sample_items)))"
    and "toggle_gemini Written (snd (toggle_gemini Written (Parsed (JObj sample_items)))) =
          ((200, Body (JObj [(''geminiEnabled'', JBool True),
                             (''message'', JStr (''Gemini AI '' @
                                (if True then ''ativado'' else ''desativado'')))])),
           Parsed (JObj sample_items))"
    and "toggle_gemini WriteFailed (Parsed (JObj sample_items)) =
          ((500, error_body save_config_failed_text), Undecodable)"
    by blast+
  then show ?thesis using h1 h2 h3 by (simp del: snd_conv)
qed

subsection \<open>C3: \<^verbatim>\<open>create_conversation\<close>\<close>

text \<open>
  C3 as stated promises 400 for a request without a body and 201 for every body with a
  non-empty name.  The access \<^verbatim>\<open>request.json\<close> stands inside the handler's \<^verbatim>\<open>try\<close> and
  raises for a request without a JSON body, so that request is answered with 500.
  And when \<^verbatim>\<open>save_data\<close> reports a failure the handler answers 500 to a body with a
  name, and nothing is stored.
\<close>

theorem create_conversation_save_failure:
  "create_conversation (Inl UnsupportedMediaType) ''u-1'' Written (Parsed sample_state) =
     ((500, Error_of UnsupportedMediaType), Parsed sample_state)
   \<and> create_conversation (Inr (JObj [(''name'', JStr ''Test'')])) ''u-1'' OpenFailed
         (Parsed sample_state) =
     ((500, error_body ''Erro ao salvar conversa''), Parsed sample_state)"
  by (simp add: create_conversation_def load_sample caught_def)
     (simp add: sample_defs save_data_def Let_def)

text \<open>
  C3, amended: a request for which \<^verbatim>\<open>request.json\<close> raises (no JSON body) is answered
  with 500 and never changes the file.  A request whose body is falsy (\<^verbatim>\<open>null\<close>, an
  empty object), or is an object whose \<^verbatim>\<open>name\<close> is missing or falsy, never changes the
  file, and is answered with 400 whenever the stored state can be loaded.  A request
  whose body is an object with a truthy name, on a state whose \<^verbatim>\<open>conversations\<close> entry
  is an object, is answered, when its save succeeds, with 201 and the conversation
  with identifier \<^verbatim>\<open>conv-\<close> followed by the drawn identifier, the given name and no
  message, and that conversation is stored under its identifier; when its save fails
  it is answered with 500 and the error of a failed save, and the conversation is not
  stored: the file is as it was when it could not be opened, and holds a broken-off
  text (one that \<^verbatim>\<open>json.load\<close> rejects, or bytes that are not UTF-8) when the write
  failed after it was opened.
\<close>

theorem create_conversation_checks_name:
  "snd (create_conversation (Inl e) uid so f) = f
   \<and> fst (fst (create_conversation (Inl e) uid so f)) = 500
   \<and> (\<not> truthy new_conv \<or>
        (\<exists>b. new_conv = JObj b
           \<and> (case map_of b ''name'' of None \<Rightarrow> True | Some nm \<Rightarrow> \<not> truthy nm))
      \<longrightarrow> snd (create_conversation (Inr new_conv) uid so f) = f
          \<and> (\<forall>data. load_data f = Inr data \<longrightarrow>
                fst (create_conversation (Inr new_conv) uid so f) =
                  (400, error_body name_required_text)))
   \<and> (\<forall>kvs cs b nm.
          load_data f = Inr (JObj kvs) \<and> map_of kvs ''conversations'' = Some (JObj cs)
          \<and> new_conv = JObj b \<and> map_of b ''name'' = Some nm \<and> truthy nm
        \<longrightarrow> create_conversation (Inr new_conv) uid Written f =
              ((201, Body (JObj [(''id'', JStr (''conv-'' @ uid)), (''name'', nm),
                                 (''messages'', JArr [])])),
               Parsed (JObj (AList.update ''conversations''
                 (JObj (AList.update (''conv-'' @ uid)
                    (JObj [(''id'', JStr (''conv-'' @ uid)), (''name'', nm),
                           (''messages'', JArr [])]) cs))
                 kvs)))
            \<and> create_conversation (Inr new_conv) uid OpenFailed f =
                ((500, error_body ''Erro ao salvar conversa''), f)
            \<and> create_conversation (Inr new_conv) uid WriteFailed f =
                ((500, error_body ''Erro ao salvar conversa''), Undecodable)
            \<and> create_conversation (Inr new_conv) uid WriteFailedMidCharacter f =
                ((500, error_body ''Erro ao salvar conversa''), NotUtf8))"
proof (intro conjI impI allI)
  show "snd (create_conversation (Inl e) uid so f) = f"
    by (rule create_conversation_no_body(1))
  show "fst (fst (create_conversation (Inl e) uid so f)) = 500"
    by (rule create_conversation_no_body(2))
next
  assume a: "\<not> truthy new_conv \<or>
      (\<exists>b. new_conv = JObj b
         \<and> (case map_of b ''name'' of None \<Rightarrow> True | Some nm \<Rightarrow> \<not> truthy nm))"
  show "snd (create_conversation (Inr new_conv) uid so f) = f"
    using a by (rule create_conversation_invalid(1))
  fix data
  assume "load_data f = Inr data"
  with create_conversation_invalid(2) [OF a]
  show "fst (create_conversation (Inr new_conv) uid so f) = (400, error_body name_required_text)"
    by simp
next
  fix kvs cs b nm
  assume a: "load_data f = Inr (JObj kvs) \<and> map_of kvs ''conversations'' = Some (JObj cs)
          \<and> new_conv = JObj b \<and> map_of b ''name'' = Some nm \<and> truthy nm"
  then show "create_conversation (Inr new_conv) uid Written f =
              ((201, Body (JObj [(''id'', JStr (''conv-'' @ uid)), (''name'', nm),
                                 (''messages'', JArr [])])),
               Parsed (JObj (AList.update ''conversations''
                 (JObj (AList.update (''conv-'' @ uid)
                    (JObj [(''id'', JStr (''conv-'' @ uid)), (''name'', nm),
                           (''messages'', JArr [])]) cs))
                 kvs)))"
    using create_conversation_saved by blast
  from a show "create_conversation (Inr new_conv) uid OpenFailed f =
                ((500, error_body ''Erro ao salvar conversa''), f)"
    using create_conversation_unsaved(1) by blast
  from a show "create_conversation (Inr new_conv) uid WriteFailed f =
                ((500, error_body ''Erro ao salvar conversa''), Undecodable)"
    using create_conversation_unsaved(2) by blast
  from a show "create_conversation (Inr new_conv) uid WriteFailedMidCharacter f =
                ((500, error_body ''Erro ao salvar conversa''), NotUtf8)"
    using create_conversation_unsaved(3) by blast
qed

theorem create_conversation_checks_name_witness:
  "create_conversation (Inr JNull) ''u-1'' Written (Parsed sample_state) =
     ((400, error_body name_required_text), Parsed sample_state)
   \<and> create_conversation (Inr (JObj [(''title'', JStr ''Test'')])) ''u-1'' Written
         (Parsed sample_state) =
     ((400, error_body name_required_text), Parsed sample_state)
   \<and> create_conversation (Inr (JObj [(''name'', JStr [])])) ''u-1'' Written (Parsed sample_state) =
     ((400, error_body name_required_text), Parsed sample_state)
   \<and> create_conversation (Inr (JObj [(''name'', JStr ''Test'')])) ''u-1'' Written
         (Parsed sample_state) =
     ((201, Body (JObj [(''id'', JStr ''conv-u-1''), (''name'', JStr ''Test''),
                        (''messages'', JArr [])])),
      Parsed (JObj [(''conversations'',
                       JObj (sample_conversations @
                         [(''conv-u-1'',
                           JObj [(''id'', JStr ''conv-u-1''), (''name'', JStr ''Test''),
                                 (''messages'', JArr [])])])),
                    (''currentConvId'', JStr ''conv-1''),
                    (''simulateBot'', JBool False),
                    (''geminiEnabled'', JBool True)]))
   \<and> create_conversation (Inr (JObj [(''name'', JStr ''Test'')])) ''u-1'' WriteFailed
         (Parsed sample_state) =
     ((500, error_body ''Erro ao salvar conversa''), Undecodable)"
proof -
  have h1: "load_data (Parsed sample_state) = Inr (JObj sample_items)"
    using load_sample by (simp add: sample_state_def)
  have h2: "map_of sample_items ''conversations'' = Some (JObj sample_conversations)"
    by (simp add: sample_items_def)
  have a: "create_conversation (Inr JNull) ''u-1'' Written (Parsed sample_state) =
     ((400, error_body name_required_text), Parsed sample_state)"
    using create_conversation_checks_name
      [of UnsupportedMediaType "''u-1''" Written "Parsed sample_state" JNull] h1
    by (simp add: prod_eq_iff)
  have b: "create_conversation (Inr (JObj [(''title'', JStr ''Test'')])) ''u-1'' Written
         (Parsed sample_state) =
     ((400, error_body name_required_text), Parsed sample_state)"
    using create_conversation_checks_name
      [of UnsupportedMediaType "''u-1''" Written "Parsed sample_state"
          "JObj [(''title'', JStr ''Test'')]"] h1
    by (simp add: prod_eq_iff)
  have c: "create_conversation (Inr (JObj [(''name'', JStr [])])) ''u-1'' Written
         (Parsed sample_state) =
     ((400, error_body name_required_text), Parsed sample_state)"
    using create_conversation_checks_name
      [of UnsupportedMediaType "''u-1''" Written "Parsed sample_state"
          "JObj [(''name'', JStr [])]"] h1
    by (simp add: prod_eq_iff)
  note t = create_conversation_checks_name
      [of UnsupportedMediaType "''u-1''" Written "Parsed sample_state"
          "JObj [(''name'', JStr ''Test'')]"]
  have d: "create_conversation (Inr (JObj [(''name'', JStr ''Test'')])) ''u-1'' Written
         (Parsed sample_state) =
     ((201, Body (JObj [(''id'', JStr (''conv-'' @ ''u-1'')), (''name'', JStr ''Test''),
                        (''messages'', JArr [])])),
      Parsed (JObj (AList.update ''conversations''
                 (JObj (AList.update (''conv-'' @ ''u-1'')
                    (JObj [(''id'', JStr (''conv-'' @ ''u-1'')), (''name'', JStr ''Test''),
                           (''messages'', JArr [])]) sample_conversations))
                 sample_items)))"
    using t h1 h2 by simp
  have e: "create_conversation (Inr (JObj [(''name'', JStr ''Test'')])) ''u-1'' WriteFailed
         (Parsed sample_state) =
     ((500, error_body ''Erro ao salvar conversa''), Undecodable)"
    using t h1 h2 by simp
  show ?thesis
    using a b c d e by (simp add: sample_items_def sample_conversations_def)
qed

subsection \<open>C2: \<^verbatim>\<open>add_message\<close>\<close>

text \<open>
  C2 as stated promises the append for every state in which the conversation exists
  and every payload with \<^verbatim>\<open>who\<close> and \<^verbatim>\<open>text\<close>.  When \<^verbatim>\<open>save_data\<close> reports a failure
  the handler answers 500 and the message is not in the file.
\<close>

theorem add_message_save_failure:
  "add_message ''conv-1'' (Inr (JObj sample_payload)) ''m-1'' ''2024-01-01T10:01:00'' OpenFailed
       (Parsed sample_state) =
     ((500, error_body ''Erro ao salvar mensagem''), Parsed sample_state, None)"
  by (simp add: add_message_def load_sample)
     (simp add: sample_defs sample_payload_def save_data_def new_message_def append_message_def)

text \<open>
  C2, amended: for every state in which the target conversation is an object with a
  list of messages and every payload that is an object with \<^verbatim>\<open>who\<close> and \<^verbatim>\<open>text\<close>,
  the add-message operation, when its save succeeds, answers 201 with the new message
  and stores a state that differs from the loaded one only in the message list of the
  target conversation, which is the old list followed by the new message.  The new
  message carries the identifier \<^verbatim>\<open>uuid4\<close> gave and the timestamp \<^verbatim>\<open>datetime.now\<close> gave
  for the request, the payload's \<^verbatim>\<open>who\<close> and \<^verbatim>\<open>text\<close>, and the payload's \<^verbatim>\<open>status\<close>
  if it has one and \<^verbatim>\<open>sent\<close> otherwise.  The identifiers of the stored messages are
  those stored before and this one once more; so the identifier is unique in the
  stored state whenever it is fresh, that is, not the identifier of a message stored
  before.  When the save fails the operation answers 500 with the error of a failed
  save, starts no timer, and the message is not stored: the file is as it was when it
  could not be opened, and holds a broken-off text (one that \<^verbatim>\<open>json.load\<close> rejects, or
  bytes that are not UTF-8) when the write failed after it was opened.
\<close>

theorem add_message_appends_one:
  assumes "load_data f = Inr (JObj kvs)"
    and "map_of kvs ''conversations'' = Some (JObj cs)"
    and "map_of cs cid = Some (JObj conv)"
    and "map_of conv ''messages'' = Some (JArr ms)"
    and "map_of p ''who'' = Some w" and "map_of p ''text'' = Some t"
  shows "(\<exists>m kvs' cs' conv' tm.
      add_message cid (Inr (JObj p)) uid now Written f = ((201, Body m), Parsed (JObj kvs'), tm)
    \<and> m = JObj [(''id'', JStr uid), (''who'', w), (''text'', t), (''ts'', JStr now),
                (''status'', case map_of p ''status'' of None \<Rightarrow> JStr ''sent'' | Some s \<Rightarrow> s)]
    \<and> load_data (Parsed (JObj kvs')) = Inr (JObj kvs')
    \<and> map_of kvs' ''conversations'' = Some (JObj cs')
    \<and> (\<forall>k. k \<noteq> ''conversations'' \<longrightarrow> map_of kvs' k = map_of kvs k)
    \<and> map fst kvs' = map fst kvs
    \<and> map_of cs' cid = Some (JObj conv')
    \<and> (\<forall>c. c \<noteq> cid \<longrightarrow> map_of cs' c = map_of cs c)
    \<and> map fst cs' = map fst cs
    \<and> map_of conv' ''messages'' = Some (JArr (ms @ [m]))
    \<and> (\<forall>k. k \<noteq> ''messages'' \<longrightarrow> map_of conv' k = map_of conv k)
    \<and> map fst conv' = map fst conv
    \<and> (\<forall>i. count_list (stored_message_ids (JObj kvs')) i =
             count_list (stored_message_ids (JObj kvs)) i + (if i = JStr uid then 1 else 0))
    \<and> (JStr uid \<notin> set (stored_message_ids (JObj kvs)) \<longrightarrow>
          count_list (stored_message_ids (JObj kvs')) (JStr uid) = 1))
   \<and> add_message cid (Inr (JObj p)) uid now OpenFailed f =
        ((500, error_body ''Erro ao salvar mensagem''), f, None)
   \<and> add_message cid (Inr (JObj p)) uid now WriteFailed f =
        ((500, error_body ''Erro ao salvar mensagem''), Undecodable, None)
   \<and> add_message cid (Inr (JObj p)) uid now WriteFailedMidCharacter f =
        ((500, error_body ''Erro ao salvar mensagem''), NotUtf8, None)"
proof -
  define st where "st = (case map_of p ''status'' of None \<Rightarrow> JStr ''sent'' | Some s \<Rightarrow> s)"
  define m where "m = JObj [(''id'', JStr uid), (''who'', w), (''text'', t), (''ts'', JStr now),
                (''status'', st)]"
  define conv' where "conv' = AList.update ''messages'' (JArr (ms @ [m])) conv"
  define cs' where "cs' = AList.update cid (JObj conv') cs"
  define kvs' where "kvs' = AList.update ''conversations'' (JObj cs') kvs"
  have m_eq: "m = JObj [(''id'', JStr uid), (''who'', w), (''text'', t), (''ts'', JStr now),
                (''status'', case map_of p ''status'' of None \<Rightarrow> JStr ''sent'' | Some s \<Rightarrow> s)]"
    by (simp add: m_def st_def)
  have r: "\<exists>tm. add_message cid (Inr (JObj p)) uid now Written f =
             ((201, Body m), Parsed (JObj kvs'), tm)"
    using add_message_saved [OF assms m_eq] by (simp add: kvs'_def cs'_def conv'_def)
  have ld: "load_data (Parsed (JObj kvs')) = Inr (JObj kvs')"
    unfolding kvs'_def by (rule load_after_update [OF assms(1)])
  have k1: "map_of kvs' ''conversations'' = Some (JObj cs')"
    and k2: "\<forall>k. k \<noteq> ''conversations'' \<longrightarrow> map_of kvs' k = map_of kvs k"
    by (simp_all add: kvs'_def update_conv')
  have k3: "map fst kvs' = map fst kvs"
    unfolding kvs'_def by (rule update_keys_same [OF assms(2)])
  have c1: "map_of cs' cid = Some (JObj conv')"
    and c2: "\<forall>c. c \<noteq> cid \<longrightarrow> map_of cs' c = map_of cs c"
    by (simp_all add: cs'_def update_conv')
  have c3: "map fst cs' = map fst cs"
    unfolding cs'_def by (rule update_keys_same [OF assms(3)])
  have v1: "map_of conv' ''messages'' = Some (JArr (ms @ [m]))"
    and v2: "\<forall>k. k \<noteq> ''messages'' \<longrightarrow> map_of conv' k = map_of conv k"
    by (simp_all add: conv'_def update_conv')
  have v3: "map fst conv' = map fst conv"
    unfolding conv'_def by (rule update_keys_same [OF assms(4)])
  have ids: "\<forall>i. count_list (stored_message_ids (JObj kvs')) i =
             count_list (stored_message_ids (JObj kvs)) i + (if i = JStr uid then 1 else 0)"
    unfolding kvs'_def cs'_def conv'_def m_def
    by (rule allI) (rule stored_message_ids_append [OF assms(2,3,4)])
  have fresh: "JStr uid \<notin> set (stored_message_ids (JObj kvs)) \<longrightarrow>
          count_list (stored_message_ids (JObj kvs')) (JStr uid) = 1"
    using ids by simp
  from r obtain tm where r': "add_message cid (Inr (JObj p)) uid now Written f =
             ((201, Body m), Parsed (JObj kvs'), tm)" ..
  have saved: "\<exists>m kvs' cs' conv' tm.
      add_message cid (Inr (JObj p)) uid now Written f = ((201, Body m), Parsed (JObj kvs'), tm)
    \<and> m = JObj [(''id'', JStr uid), (''who'', w), (''text'', t), (''ts'', JStr now),
                (''status'', case map_of p ''status'' of None \<Rightarrow> JStr ''sent'' | Some s \<Rightarrow> s)]
    \<and> load_data (Parsed (JObj kvs')) = Inr (JObj kvs')
    \<and> map_of kvs' ''conversations'' = Some (JObj cs')
    \<and> (\<forall>k. k \<noteq> ''conversations'' \<longrightarrow> map_of kvs' k = map_of kvs k)
    \<and> map fst kvs' = map fst kvs
    \<and> map_of cs' cid = Some (JObj conv')
    \<and> (\<forall>c. c \<noteq> cid \<longrightarrow> map_of cs' c = map_of cs c)
    \<and> map fst cs' = map fst cs
    \<and> map_of conv' ''messages'' = Some (JArr (ms @ [m]))
    \<and> (\<forall>k. k \<noteq> ''messages'' \<longrightarrow> map_of conv' k = map_of conv k)
    \<and> map fst conv' = map fst conv
    \<and> (\<forall>i. count_list (stored_message_ids (JObj kvs')) i =
             count_list (stored_message_ids (JObj kvs)) i + (if i = JStr uid then 1 else 0))
    \<and> (JStr uid \<notin> set (stored_message_ids (JObj kvs)) \<longrightarrow>
          count_list (stored_message_ids (JObj kvs')) (JStr uid) = 1)"
    apply (rule exI [of _ m])
    apply (rule exI [of _ kvs'])
    apply (rule exI [of _ cs'])
    apply (rule exI [of _ conv'])
    apply (rule exI [of _ tm])
    apply (intro conjI)
    apply (rule r')
    apply (rule m_eq)
    apply (rule ld)
    apply (rule k1)
    apply (rule k2)
    apply (rule k3)
    apply (rule c1)
    apply (rule c2)
    apply (rule c3)
    apply (rule v1)
    apply (rule v2)
    apply (rule v3)
    apply (rule ids)
    apply (rule fresh)
    done
  from saved add_message_unsaved [OF assms] show ?thesis by (intro conjI)
qed

theorem add_message_appends_one_witness:
  "load_data (Parsed sample_state) = Inr (JObj sample_items)
   \<and> map_of sample_items ''conversations'' = Some (JObj sample_conversations)
   \<and> map_of sample_conversations ''conv-1'' = Some (JObj sample_conversation)
   \<and> map_of sample_conversation ''messages'' = Some (JArr [sample_message])
   \<and> map_of sample_payload ''who'' = Some (JStr ''mine'')
   \<and> map_of sample_payload ''text'' = Some (JStr ''hello'')
   \<and> stored_message_ids (JObj sample_items) = [JStr ''m-0'']
   \<and> (\<exists>kvs' cs' conv' tm.
         add_message ''conv-1'' (Inr (JObj sample_payload)) ''m-1'' ''2024-01-01T10:01:00'' Written
             (Parsed sample_state) =
           ((201, Body (JObj [(''id'', JStr ''m-1''), (''who'', JStr ''mine''),
                              (''text'', JStr ''hello''), (''ts'', JStr ''2024-01-01T10:01:00''),
                              (''status'', JStr ''sent'')])),
            Parsed (JObj kvs'), tm)
         \<and> map_of kvs' ''conversations'' = Some (JObj cs')
         \<and> map_of cs' ''conv-1'' = Some (JObj conv')
         \<and> map_of cs' ''conv-default'' = map_of sample_conversations ''conv-default''
         \<and> map_of conv' ''messages'' =
             Some (JArr [sample_message,
                         JObj [(''id'', JStr ''m-1''), (''who'', JStr ''mine''),
                               (''text'', JStr ''hello''), (''ts'', JStr ''2024-01-01T10:01:00''),
                               (''status'', JStr ''sent'')]])
         \<and> count_list (stored_message_ids (JObj kvs')) (JStr ''m-1'') = 1
         \<and> count_list (stored_message_ids (JObj kvs')) (JStr ''m-0'') = 1)
   \<and> add_message ''conv-1'' (Inr (JObj sample_payload)) ''m-1'' ''2024-01-01T10:01:00'' WriteFailed
         (Parsed sample_state) =
       ((500, error_body ''Erro ao salvar mensagem''), Undecodable, None)"
proof -
  have h1: "load_data (Parsed sample_state) = Inr (JObj sample_items)"
    using load_sample by (simp add: sample_state_def)
  have h2: "map_of sample_items ''conversations'' = Some (JObj sample_conversations)"
    by (simp add: sample_items_def)
  have h3: "map_of sample_conversations ''conv-1'' = Some (JObj sample_conversation)"
    by (simp add: sample_conversations_def)
  have h4: "map_of sample_conversation ''messages'' = Some (JArr [sample_message])"
    by (simp add: sample_conversation_def)
  have h5: "map_of sample_payload ''who'' = Some (JStr ''mine'')"
    and h6: "map_of sample_payload ''text'' = Some (JStr ''hello'')"
    by (simp_all add: sample_payload_def)
  have h7: "stored_message_ids (JObj sample_items) = [JStr ''m-0'']"
    by (simp add: stored_message_ids_def conversation_message_ids_def message_ids_def
          sample_items_def sample_conversations_def sample_conversation_def sample_message_def)
  note th = add_message_appends_one [OF h1 h2 h3 h4 h5 h6, of "''m-1''" "''2024-01-01T10:01:00''"]
  from th obtain m kvs' cs' conv' tm where
    r: "add_message ''conv-1'' (Inr (JObj sample_payload)) ''m-1'' ''2024-01-01T10:01:00'' Written
             (Parsed sample_state) = ((201, Body m), Parsed (JObj kvs'), tm)"
       "m = JObj [(''id'', JStr ''m-1''), (''who'', JStr ''mine''), (''text'', JStr ''hello''),
                  (''ts'', JStr ''2024-01-01T10:01:00''),
                  (''status'', case map_of sample_payload ''status'' of
                                 None \<Rightarrow> JStr ''sent'' | Some s \<Rightarrow> s)]"
       "map_of kvs' ''conversations'' = Some (JObj cs')"
       "map_of cs' ''conv-1'' = Some (JObj conv')"
       "\<forall>c. c \<noteq> ''conv-1'' \<longrightarrow> map_of cs' c = map_of sample_conversations c"
       "map_of conv' ''messages'' = Some (JArr ([sample_message] @ [m]))"
       "\<forall>i. count_list (stored_message_ids (JObj kvs')) i =
             count_list (stored_message_ids (JObj sample_items)) i
               + (if i = JStr ''m-1'' then 1 else 0)"
    by (elim exE conjE) (rule that)
  from th have wf: "add_message ''conv-1'' (Inr (JObj sample_payload)) ''m-1''
         ''2024-01-01T10:01:00'' WriteFailed (Parsed sample_state) =
       ((500, error_body ''Erro ao salvar mensagem''), Undecodable, None)"
    by (elim conjE)
  have m: "m = JObj [(''id'', JStr ''m-1''), (''who'', JStr ''mine''), (''text'', JStr ''hello''),
                  (''ts'', JStr ''2024-01-01T10:01:00''), (''status'', JStr ''sent'')]"
    using r(2) by (simp add: sample_payload_def)
  have d: "map_of cs' ''conv-default'' = map_of sample_conversations ''conv-default''"
    using r(5) by simp
  have n1: "count_list (stored_message_ids (JObj kvs')) (JStr ''m-1'') = 1"
    and n0: "count_list (stored_message_ids (JObj kvs')) (JStr ''m-0'') = 1"
    using r(7) by (simp_all add: h7)
  have ex: "\<exists>kvs' cs' conv' tm.
         add_message ''conv-1'' (Inr (JObj sample_payload)) ''m-1'' ''2024-01-01T10:01:00'' Written
             (Parsed sample_state) =
           ((201, Body (JObj [(''id'', JStr ''m-1''), (''who'', JStr ''mine''),
                              (''text'', JStr ''hello''), (''ts'', JStr ''2024-01-01T10:01:00''),
                              (''status'', JStr ''sent'')])),
            Parsed (JObj kvs'), tm)
         \<and> map_of kvs' ''conversations'' = Some (JObj cs')
         \<and> map_of cs' ''conv-1'' = Some (JObj conv')
         \<and> map_of cs' ''conv-default'' = map_of sample_conversations ''conv-default''
         \<and> map_of conv' ''messages'' =
             Some (JArr [sample_message,
                         JObj [(''id'', JStr ''m-1''), (''who'', JStr ''mine''),
                               (''text'', JStr ''hello''), (''ts'', JStr ''2024-01-01T10:01:00''),
                               (''status'', JStr ''sent'')]])
         \<and> count_list (stored_message_ids (JObj kvs')) (JStr ''m-1'') = 1
         \<and> count_list (stored_message_ids (JObj kvs')) (JStr ''m-0'') = 1"
    apply (rule exI [of _ kvs'])
    apply (rule exI [of _ cs'])
    apply (rule exI [of _ conv'])
    apply (rule exI [of _ tm])
    using r(1,3,4,6) d n1 n0 unfolding m apply simp
    done
  from h1 h2 h3 h4 h5 h6 h7 ex wf show ?thesis by (intro conjI)
qed

subsection \<open>C5: the request \<^verbatim>\<open>generate_response\<close> builds\<close>

text \<open>
  C5: without an API key (none, or the empty string) the result is the configuration
  error.  Without a context the text of the request is the raw prompt.  For a context
  that is a list of messages (objects with \<^verbatim>\<open>who\<close> and \<^verbatim>\<open>text\<close>) the text is the raw
  prompt when the list is empty, and otherwise the lines of its last six messages at
  most, each \<^verbatim>\<open><role>: <text>\<close>, followed by the line \<^verbatim>\<open>user: <prompt>\<close>.  With a key,
  that text is what is sent, and the result is decided by the reply to it.
\<close>

theorem generate_response_request_text:
  "(api_key = None \<or> api_key = Some [] \<longrightarrow>
      generate_response api_key repr http prompt ctx = Inl NotConfigured)
   \<and> full_prompt repr prompt JNull = Inr prompt
   \<and> (\<forall>ms. ctx = JArr ms \<and> list_all is_message ms \<longrightarrow>
         full_prompt repr prompt ctx =
           Inr (if ms = [] then prompt
                else JStr (join_lines (map (spec_context_line repr) (drop (length ms - 6) ms)
                                         @ [''user: '' @ py_format repr prompt]))))
   \<and> (\<forall>text. api_key \<noteq> None \<and> api_key \<noteq> Some [] \<and> full_prompt repr prompt ctx = Inr text \<longrightarrow>
         generate_response api_key repr http prompt ctx =
           (case http text of
              RequestException \<Rightarrow> Inl ConnectionError
            | Replied result \<Rightarrow>
                (case first_candidate_text result of
                   Inl e \<Rightarrow> Inl (ApiError e)
                 | Inr None \<Rightarrow> Inl NoCandidates
                 | Inr (Some t) \<Rightarrow> Inr t)))"
  apply (intro conjI allI impI)
     apply (auto simp: generate_response_def)[1]
    apply (simp add: full_prompt_def)
   apply (simp add: full_prompt_messages)
  apply (auto simp: generate_response_def)
  done

theorem generate_response_request_text_witness:
  "generate_response None sample_repr echo_service (JStr ''q'') (JArr sample_context) =
     Inl NotConfigured
   \<and> generate_response (Some []) sample_repr echo_service (JStr ''q'') (JArr sample_context) =
     Inl NotConfigured
   \<and> list_all is_message sample_context
   \<and> full_prompt sample_repr (JStr ''q'') (JArr sample_context) = Inr (JStr sample_request_text)
   \<and> full_prompt sample_repr (JStr ''q'') (JArr []) = Inr (JStr ''q'')
   \<and> generate_response (Some ''key'') sample_repr echo_service (JStr ''q'') (JArr sample_context) =
     Inr (JStr sample_request_text)"
proof -
  have wf: "list_all is_message sample_context"
    by (simp add: sample_context_def is_message_def)
  have a: "generate_response None sample_repr echo_service (JStr ''q'') (JArr sample_context) =
     Inl NotConfigured"
    and b: "generate_response (Some []) sample_repr echo_service (JStr ''q'') (JArr sample_context) =
     Inl NotConfigured"
    using generate_response_request_text
            [of None sample_repr echo_service "JStr ''q''" "JArr sample_context"]
          generate_response_request_text
            [of "Some []" sample_repr echo_service "JStr ''q''" "JArr sample_context"]
    by simp_all
  have c: "full_prompt sample_repr (JStr ''q'') (JArr sample_context) =
       Inr (JStr sample_request_text)"
    using generate_response_request_text
            [of "Some ''key''" sample_repr echo_service "JStr ''q''" "JArr sample_context"] wf
    by (simp add: sample_context_def sample_request_text_def spec_context_line_def py_format_def)
  have d: "full_prompt sample_repr (JStr ''q'') (JArr []) = Inr (JStr ''q'')"
    using generate_response_request_text
            [of "Some ''key''" sample_repr echo_service "JStr ''q''" "JArr []"]
    by simp
  have e: "generate_response (Some ''key'') sample_repr echo_service (JStr ''q'')
             (JArr sample_context) = Inr (JStr sample_request_text)"
    using generate_response_request_text
            [of "Some ''key''" sample_repr echo_service "JStr ''q''" "JArr sample_context"] c
    by (simp add: echo_service_def first_candidate_text_def)
  from a b wf c d e show ?thesis by (intro conjI)
qed

subsection \<open>C6: what the delayed notifier does\<close>

text \<open>
  C6 as stated has the notifier reload the state and call the generator with the last
  five messages of the conversation as it then is.  The code cuts the context when the
  timer is started and reloads only after the generator has answered.  Here a request
  adds a message and starts the timer, the conversation is cleared before the timer
  fires, and the reply that is stored shows the request that was sent: it was built
  from the two messages the timer carried, while the reloaded conversation had none.
  The last conjunct is the other departure: the result of \<^verbatim>\<open>save_data\<close> is not looked
  at, and when the write fails the reply is not stored.
\<close>

theorem notifier_context_is_scheduled_one:
  "snd (snd (add_message ''conv-1'' (Inr (JObj sample_payload)) ''m-1'' ''2024-01-01T10:01:00'' Written
       (Parsed sample_state))) = Some sample_timer
   \<and> snd (clear_messages ''conv-1'' Written
         (fst (snd (add_message ''conv-1'' (Inr (JObj sample_payload)) ''m-1''
                      ''2024-01-01T10:01:00'' Written (Parsed sample_state))))) =
       Parsed (sample_state_with [])
   \<and> reloaded_context (Parsed (sample_state_with [])) ''conv-1'' = Inr (JArr [])
   \<and> context_messages sample_timer = JArr [sample_message, sample_new_message]
   \<and> generate_gemini_reply (Some ''key'') sample_repr echo_service ''m-2''
         ''2024-01-01T10:01:02'' Written sample_timer (Parsed (sample_state_with [])) =
       Parsed (sample_state_with
         [reply_message ''m-2'' ''2024-01-01T10:01:02''
            sample_reply_text])
   \<and> generate_gemini_reply (Some ''key'') sample_repr echo_service ''m-2''
         ''2024-01-01T10:01:02'' OpenFailed sample_timer
         (Parsed (sample_state_with [sample_message, sample_new_message])) =
       Parsed (sample_state_with [sample_message, sample_new_message])"
proof (intro conjI)
  show "snd (snd (add_message ''conv-1'' (Inr (JObj sample_payload)) ''m-1'' ''2024-01-01T10:01:00'' Written
       (Parsed sample_state))) = Some sample_timer"
    by (simp add: sample_post)
  show "snd (clear_messages ''conv-1'' Written
         (fst (snd (add_message ''conv-1'' (Inr (JObj sample_payload)) ''m-1''
                      ''2024-01-01T10:01:00'' Written (Parsed sample_state))))) =
       Parsed (sample_state_with [])"
    by (simp add: sample_post sample_clear)
  show "reloaded_context (Parsed (sample_state_with [])) ''conv-1'' = Inr (JArr [])"
    by (simp add: reloaded_context_def load_sample_with) (simp add: sample_with_defs)
  show "context_messages sample_timer = JArr [sample_message, sample_new_message]"
    by (simp add: sample_timer_def)
  show "generate_gemini_reply (Some ''key'') sample_repr echo_service ''m-2''
         ''2024-01-01T10:01:02'' Written sample_timer (Parsed (sample_state_with [])) =
       Parsed (sample_state_with
         [reply_message ''m-2'' ''2024-01-01T10:01:02''
            sample_reply_text])"
    using sample_generate
    by (simp add: generate_gemini_reply_def sample_timer_def load_sample_with)
       (simp add: sample_with_defs append_message_def save_data_def)
  show "generate_gemini_reply (Some ''key'') sample_repr echo_service ''m-2''
         ''2024-01-01T10:01:02'' OpenFailed sample_timer
         (Parsed (sample_state_with [sample_message, sample_new_message])) =
       Parsed (sample_state_with [sample_message, sample_new_message])"
    using sample_generate
    by (simp add: generate_gemini_reply_def sample_timer_def load_sample_with)
       (simp add: sample_with_defs append_message_def save_data_def)
qed

text \<open>
  C6, amended: the timer a request starts carries the last five messages of the target
  conversation as it is right after the request's message was appended, and the
  request's text.  When the timer fires the generator is called with that text as
  prompt and that context.  If the generator fails, or the reloaded state has no
  conversation with the timer's identifier, the file is left as it is.  If the
  generator succeeds and the reloaded state has the conversation, with a list of
  messages, then, when the write succeeds, the stored state is the reloaded one with
  one message appended to that list: \<^verbatim>\<open>who\<close> \<^verbatim>\<open>their\<close>, status \<^verbatim>\<open>delivered\<close>, the
  generator's text, and the identifier and timestamp drawn for it.
\<close>

theorem notifier_uses_scheduled_context:
  "(\<forall>kvs cs conv ms p t g m.
       load_data f0 = Inr (JObj kvs) \<and> map_of kvs ''conversations'' = Some (JObj cs)
       \<and> map_of cs cid = Some (JObj conv) \<and> map_of conv ''messages'' = Some (JArr ms)
       \<and> map_of p ''who'' = Some (JStr ''mine'') \<and> map_of p ''text'' = Some t
       \<and> map_of kvs ''geminiEnabled'' = Some g \<and> truthy g
       \<and> m = JObj [(''id'', JStr uid0), (''who'', JStr ''mine''), (''text'', t),
                   (''ts'', JStr now0),
                   (''status'', case map_of p ''status'' of None \<Rightarrow> JStr ''sent'' | Some s \<Rightarrow> s)]
     \<longrightarrow> snd (snd (add_message cid (Inr (JObj p)) uid0 now0 Written f0)) =
           Some \<lparr>conversation_id = cid, user_message = t,
                  context_messages = JArr (drop (length (ms @ [m]) - 5) (ms @ [m]))\<rparr>)
   \<and> (\<forall>err. generate_response api_key repr http (user_message tm) (context_messages tm) = Inl err
         \<longrightarrow> generate_gemini_reply api_key repr http uid now so tm f = f)
   \<and> (\<forall>kvs cs. load_data f = Inr (JObj kvs) \<and> map_of kvs ''conversations'' = Some (JObj cs)
         \<and> map_of cs (conversation_id tm) = None
         \<longrightarrow> generate_gemini_reply api_key repr http uid now so tm f = f)
   \<and> (\<forall>text kvs cs conv ms.
         generate_response api_key repr http (user_message tm) (context_messages tm) = Inr text
         \<and> load_data f = Inr (JObj kvs) \<and> map_of kvs ''conversations'' = Some (JObj cs)
         \<and> map_of cs (conversation_id tm) = Some (JObj conv)
         \<and> map_of conv ''messages'' = Some (JArr ms)
         \<longrightarrow> generate_gemini_reply api_key repr http uid now Written tm f =
               Parsed (JObj (AList.update ''conversations''
                 (JObj (AList.update (conversation_id tm)
                    (JObj (AList.update ''messages''
                       (JArr (ms @ [reply_message uid now text])) conv)) cs))
                 kvs)))"
proof (intro conjI allI impI)
  fix kvs cs conv ms p t g m
  assume a: "load_data f0 = Inr (JObj kvs) \<and> map_of kvs ''conversations'' = Some (JObj cs)
       \<and> map_of cs cid = Some (JObj conv) \<and> map_of conv ''messages'' = Some (JArr ms)
       \<and> map_of p ''who'' = Some (JStr ''mine'') \<and> map_of p ''text'' = Some t
       \<and> map_of kvs ''geminiEnabled'' = Some g \<and> truthy g
       \<and> m = JObj [(''id'', JStr uid0), (''who'', JStr ''mine''), (''text'', t),
                   (''ts'', JStr now0),
                   (''status'', case map_of p ''status'' of None \<Rightarrow> JStr ''sent'' | Some s \<Rightarrow> s)]"
  then have "add_message cid (Inr (JObj p)) uid0 now0 Written f0 =
     ((201, Body m),
      Parsed (JObj (AList.update ''conversations''
            (JObj (AList.update cid
               (JObj (AList.update ''messages'' (JArr (ms @ [m])) conv)) cs)) kvs)),
      if JStr ''mine'' = JStr ''mine''
            \<and> truthy (case map_of kvs ''geminiEnabled'' of None \<Rightarrow> JBool False | Some g \<Rightarrow> g)
      then Some \<lparr>conversation_id = cid, user_message = t,
                 context_messages = JArr (drop (length (ms @ [m]) - 5) (ms @ [m]))\<rparr>
      else None)"
    by (intro add_message_saved) simp_all
  with a show "snd (snd (add_message cid (Inr (JObj p)) uid0 now0 Written f0)) =
           Some \<lparr>conversation_id = cid, user_message = t,
                  context_messages = JArr (drop (length (ms @ [m]) - 5) (ms @ [m]))\<rparr>"
    by simp
next
  fix err
  assume "generate_response api_key repr http (user_message tm) (context_messages tm) = Inl err"
  then show "generate_gemini_reply api_key repr http uid now so tm f = f"
    by (rule generate_gemini_reply_failure)
next
  fix kvs cs
  assume "load_data f = Inr (JObj kvs) \<and> map_of kvs ''conversations'' = Some (JObj cs)
         \<and> map_of cs (conversation_id tm) = None"
  then show "generate_gemini_reply api_key repr http uid now so tm f = f"
    using generate_gemini_reply_absent by blast
next
  fix reply kvs cs conv ms
  assume "generate_response api_key repr http (user_message tm) (context_messages tm) = Inr reply
         \<and> load_data f = Inr (JObj kvs) \<and> map_of kvs ''conversations'' = Some (JObj cs)
         \<and> map_of cs (conversation_id tm) = Some (JObj conv)
         \<and> map_of conv ''messages'' = Some (JArr ms)"
  then show "generate_gemini_reply api_key repr http uid now Written tm f =
               Parsed (JObj (AList.update ''conversations''
                 (JObj (AList.update (conversation_id tm)
                    (JObj (AList.update ''messages''
                       (JArr (ms @ [reply_message uid now reply])) conv)) cs))
                 kvs))"
    using generate_gemini_reply_saved by blast
qed

theorem notifier_uses_scheduled_context_witness:
  "snd (snd (add_message ''conv-1'' (Inr (JObj sample_payload)) ''m-1'' ''2024-01-01T10:01:00'' Written
       (Parsed (sample_state_with [sample_message])))) = Some sample_timer
   \<and> generate_response None sample_repr echo_service (user_message sample_timer)
         (context_messages sample_timer) = Inl NotConfigured
   \<and> generate_gemini_reply None sample_repr echo_service ''m-2'' ''2024-01-01T10:01:02'' Written
         sample_timer (Parsed (sample_state_with [sample_message, sample_new_message])) =
       Parsed (sample_state_with [sample_message, sample_new_message])
   \<and> map_of (sample_conversations_with []) ''conv-9'' = None
   \<and> generate_gemini_reply (Some ''key'') sample_repr echo_service ''m-2''
         ''2024-01-01T10:01:02'' Written (sample_timer\<lparr>conversation_id := ''conv-9''\<rparr>)
         (Parsed (sample_state_with [])) =
       Parsed (sample_state_with [])
   \<and> generate_response (Some ''key'') sample_repr echo_service (user_message sample_timer)
         (context_messages sample_timer) = Inr sample_reply_text
   \<and> generate_gemini_reply (Some ''key'') sample_repr echo_service ''m-2''
         ''2024-01-01T10:01:02'' Written sample_timer
         (Parsed (sample_state_with [sample_message, sample_new_message])) =
       Parsed (sample_state_with
         [sample_message, sample_new_message,
          reply_message ''m-2'' ''2024-01-01T10:01:02'' sample_reply_text])"
proof -
  note c1 = notifier_uses_scheduled_context [THEN conjunct1, rule_format]
  note c2 = notifier_uses_scheduled_context [THEN conjunct2, THEN conjunct1, rule_format]
  note c3 = notifier_uses_scheduled_context
              [THEN conjunct2, THEN conjunct2, THEN conjunct1, rule_format]
  note c4 = notifier_uses_scheduled_context
              [THEN conjunct2, THEN conjunct2, THEN conjunct2, rule_format]
  have ld: "\<And>ms. load_data (Parsed (sample_state_with ms)) = Inr (JObj (sample_items_with ms))"
    using load_sample_with by (simp add: sample_state_with_def)
  have a: "snd (snd (add_message ''conv-1'' (Inr (JObj sample_payload)) ''m-1'' ''2024-01-01T10:01:00''
       Written (Parsed (sample_state_with [sample_message])))) =
     Some \<lparr>conversation_id = ''conv-1'', user_message = JStr ''hello'',
           context_messages =
             JArr (drop (length ([sample_message] @ [sample_new_message]) - 5)
                     ([sample_message] @ [sample_new_message]))\<rparr>"
    by (rule c1 [where kvs = "sample_items_with [sample_message]"
                   and cs = "sample_conversations_with [sample_message]"
                   and conv = "sample_conversation_with [sample_message]"
                   and g = "JBool True"])
       (simp add: ld sample_items_with_def sample_conversations_with_def
          sample_conversation_with_def sample_payload_def sample_new_message_def)
  have g0: "generate_response None sample_repr echo_service (user_message sample_timer)
         (context_messages sample_timer) = Inl NotConfigured"
    by (simp add: generate_response_def)
  have b: "generate_gemini_reply None sample_repr echo_service ''m-2'' ''2024-01-01T10:01:02''
         Written sample_timer (Parsed (sample_state_with [sample_message, sample_new_message])) =
       Parsed (sample_state_with [sample_message, sample_new_message])"
    by (rule c2 [OF g0])
  have n: "map_of (sample_conversations_with []) ''conv-9'' = None"
    by (simp add: sample_conversations_with_def)
  have c: "generate_gemini_reply (Some ''key'') sample_repr echo_service ''m-2''
         ''2024-01-01T10:01:02'' Written (sample_timer\<lparr>conversation_id := ''conv-9''\<rparr>)
         (Parsed (sample_state_with [])) = Parsed (sample_state_with [])"
    by (rule c3 [where kvs = "sample_items_with []" and cs = "sample_conversations_with []"])
       (simp add: ld n, simp add: sample_items_with_def)
  have g1: "generate_response (Some ''key'') sample_repr echo_service (user_message sample_timer)
         (context_messages sample_timer) = Inr sample_reply_text"
    using sample_generate by (simp add: sample_timer_def)
  have d: "generate_gemini_reply (Some ''key'') sample_repr echo_service ''m-2''
         ''2024-01-01T10:01:02'' Written sample_timer
         (Parsed (sample_state_with [sample_message, sample_new_message])) =
       Parsed (JObj (AList.update ''conversations''
                 (JObj (AList.update (conversation_id sample_timer)
                    (JObj (AList.update ''messages''
                       (JArr ([sample_message, sample_new_message]
                          @ [reply_message ''m-2'' ''2024-01-01T10:01:02'' sample_reply_text]))
                       (sample_conversation_with [sample_message, sample_new_message])))
                    (sample_conversations_with [sample_message, sample_new_message])))
                 (sample_items_with [sample_message, sample_new_message])))"
    by (rule c4) (simp add: g1 ld, simp add: sample_items_with_def sample_conversations_with_def
          sample_conversation_with_def sample_timer_def)
  have a': "snd (snd (add_message ''conv-1'' (Inr (JObj sample_payload)) ''m-1'' ''2024-01-01T10:01:00''
       Written (Parsed (sample_state_with [sample_message])))) = Some sample_timer"
    using a by (simp add: sample_timer_def)
  have d': "generate_gemini_reply (Some ''key'') sample_repr echo_service ''m-2''
         ''2024-01-01T10:01:02'' Written sample_timer
         (Parsed (sample_state_with [sample_message, sample_new_message])) =
       Parsed (sample_state_with
         [sample_message, sample_new_message,
          reply_message ''m-2'' ''2024-01-01T10:01:02'' sample_reply_text])"
    unfolding d by (simp add: sample_with_defs sample_timer_def)
  from a' g0 b n c g1 d' show ?thesis by (intro conjI)
qed

subsection \<open>C1: the default conversation\<close>

text \<open>
  C1 as stated says that every state reachable after initialization has the default
  conversation in its conversations mapping.  Failed writes refute it, and so does a
  file that is not of the expected shape.  \<^verbatim>\<open>init_default_data\<close> does not look at the
  result of \<^verbatim>\<open>save_data\<close>: started on a missing file with a write that fails, it leaves
  the file missing, and the state every handler then loads has no conversation.
  After a successful initialization, a request whose write fails once the file has
  been opened leaves a content that \<^verbatim>\<open>load_data\<close> replaces by the empty default state.
  And \<^verbatim>\<open>init_default_data\<close> accepts a file whose \<^verbatim>\<open>conversations\<close> entry is the list
  \<^verbatim>\<open>["conv-default"]\<close>, for which \<^verbatim>\<open>"conv-default" not in data["conversations"]\<close> is
  false, and a file in which \<^verbatim>\<open>conv-default\<close> is bound to \<^verbatim>\<open>null\<close>: it stores them as
  they are, with no mapping in the first and no conversation in the second.
\<close>

theorem default_conversation_lost_by_failed_write:
  "init_default_data ''u-0'' ''2024-01-01T09:00:00'' OpenFailed Absent =
     (Inr (initial_state ''u-0'' ''2024-01-01T09:00:00''), Absent)
   \<and> \<not> has_default Absent
   \<and> init_default_data ''u-0'' ''2024-01-01T09:00:00'' Written Absent =
       (Inr (initial_state ''u-0'' ''2024-01-01T09:00:00''),
        Parsed (initial_state ''u-0'' ''2024-01-01T09:00:00''))
   \<and> has_default (Parsed (initial_state ''u-0'' ''2024-01-01T09:00:00''))
   \<and> data_file (step (Some ''key'') sample_repr
         \<lparr>data_file = Parsed (initial_state ''u-0'' ''2024-01-01T09:00:00''), timers = []\<rparr>
         (CreateConversation (Inr (JObj [(''name'', JStr ''Test'')])) ''u-1'' WriteFailed)) =
       Undecodable
   \<and> \<not> has_default Undecodable
   \<and> snd (init_default_data ''u-0'' ''2024-01-01T09:00:00'' Written
            (Parsed (JObj [(''conversations'', JArr [JStr ''conv-default''])]))) =
       Parsed (JObj [(''conversations'', JArr [JStr ''conv-default'']),
                     (''currentConvId'', JStr ''conv-default''),
                     (''simulateBot'', JBool False),
                     (''geminiEnabled'', JBool False)])
   \<and> \<not> has_default
         (Parsed (JObj [(''conversations'', JArr [JStr ''conv-default'']),
                        (''currentConvId'', JStr ''conv-default''),
                        (''simulateBot'', JBool False),
                        (''geminiEnabled'', JBool False)]))
   \<and> snd (init_default_data ''u-0'' ''2024-01-01T09:00:00'' Written
            (Parsed (JObj [(''conversations'', JObj [(''conv-default'', JNull)])]))) =
       Parsed (JObj [(''conversations'', JObj [(''conv-default'', JNull)]),
                     (''currentConvId'', JStr ''conv-default''),
                     (''simulateBot'', JBool False),
                     (''geminiEnabled'', JBool False)])
   \<and> \<not> has_default
         (Parsed (JObj [(''conversations'', JObj [(''conv-default'', JNull)]),
                        (''currentConvId'', JStr ''conv-default''),
                        (''simulateBot'', JBool False),
                        (''geminiEnabled'', JBool False)]))"
proof -
  have a: "snd (create_conversation (Inr (JObj [(''name'', JStr ''Test'')])) ''u-1'' WriteFailed
          (Parsed (initial_state ''u-0'' ''2024-01-01T09:00:00''))) = Undecodable"
    by (simp add: create_conversation_def load_initial)
       (simp add: initial_state_def save_data_def Let_def)
  have b: "snd (init_default_data ''u-0'' ''2024-01-01T09:00:00'' Written
            (Parsed (JObj [(''conversations'', JArr [JStr ''conv-default''])]))) =
       Parsed (JObj [(''conversations'', JArr [JStr ''conv-default'']),
                     (''currentConvId'', JStr ''conv-default''),
                     (''simulateBot'', JBool False),
                     (''geminiEnabled'', JBool False)])"
    by (simp add: init_default_data_def load_data_Parsed default_items_def ensure_default_def
          ensure_flags_def save_data_def)
  have c: "\<not> has_default
         (Parsed (JObj [(''conversations'', JArr [JStr ''conv-default'']),
                        (''currentConvId'', JStr ''conv-default''),
                        (''simulateBot'', JBool False),
                        (''geminiEnabled'', JBool False)]))"
    by (simp add: has_default_def load_data_Parsed default_items_def default_present_def
          holds_default_def)
  have d: "snd (init_default_data ''u-0'' ''2024-01-01T09:00:00'' Written
            (Parsed (JObj [(''conversations'', JObj [(''conv-default'', JNull)])]))) =
       Parsed (JObj [(''conversations'', JObj [(''conv-default'', JNull)]),
                     (''currentConvId'', JStr ''conv-default''),
                     (''simulateBot'', JBool False),
                     (''geminiEnabled'', JBool False)])"
    by (simp add: init_default_data_def load_data_Parsed default_items_def ensure_default_def
          ensure_flags_def save_data_def)
  have e: "\<not> has_default
         (Parsed (JObj [(''conversations'', JObj [(''conv-default'', JNull)]),
                        (''currentConvId'', JStr ''conv-default''),
                        (''simulateBot'', JBool False),
                        (''geminiEnabled'', JBool False)]))"
    by (simp add: has_default_def load_data_Parsed default_items_def default_present_def
          holds_default_def is_conversation_def)
  from a b c d e show ?thesis
    by (simp add: init_absent save_data_def has_default_initial no_default_without_file)
qed

text \<open>
  C1, amended: let the file \<^verbatim>\<open>init_default_data\<close> finds load as an object whose
  \<^verbatim>\<open>conversations\<close> entry is a mapping in which \<^verbatim>\<open>conv-default\<close> is either absent or
  bound to a conversation (an object with the identifier \<^verbatim>\<open>conv-default\<close>, a name and
  a list of messages), as a missing file does, and let its write succeed.  Then after
  every sequence of requests and timer firings in which no write fails after the file
  was opened, the stored state loads as an object whose \<^verbatim>\<open>conversations\<close> entry is a
  mapping that binds \<^verbatim>\<open>conv-default\<close> to a conversation with the identifier
  \<^verbatim>\<open>conv-default\<close>; no operation removes it, the delete endpoint in particular.
\<close>

theorem default_conversation_invariant:
  assumes "load_data f0 = Inr (JObj kvs0)"
    and "map_of kvs0 ''conversations'' = Some (JObj cs0)"
    and "map_of cs0 ''conv-default'' = None
         \<or> (\<exists>c0. map_of cs0 ''conv-default'' = Some c0 \<and> is_conversation ''conv-default'' c0)"
    and "\<forall>ev \<in> set evs. write_of ev \<noteq> Some WriteFailed
                          \<and> write_of ev \<noteq> Some WriteFailedMidCharacter"
  shows "\<exists>data kvs cs c.
           init_default_data uid0 now0 Written f0 = (Inr data, Parsed data)
         \<and> load_data (data_file (run api_key repr \<lparr>data_file = Parsed data, timers = []\<rparr> evs)) =
             Inr (JObj kvs)
         \<and> map_of kvs ''conversations'' = Some (JObj cs)
         \<and> map_of cs ''conv-default'' = Some c
         \<and> is_conversation ''conv-default'' c"
proof -
  from init_default_data_has_default [OF assms(1,2,3), of uid0 now0]
  obtain data where i: "init_default_data uid0 now0 Written f0 = (Inr data, Parsed data)"
    and h: "has_default (Parsed data)"
    by blast
  have "has_default (data_file (run api_key repr \<lparr>data_file = Parsed data, timers = []\<rparr> evs))"
    using h assms(4) by (intro run_has_default) simp_all
  then obtain kvs cs c where
    "load_data (data_file (run api_key repr \<lparr>data_file = Parsed data, timers = []\<rparr> evs)) =
       Inr (JObj kvs)"
    "map_of kvs ''conversations'' = Some (JObj cs)"
    "map_of cs ''conv-default'' = Some c"
    "is_conversation ''conv-default'' c"
    unfolding has_default_iff by blast
  with i show ?thesis by blast
qed

theorem default_conversation_invariant_witness:
  "load_data Absent = Inr (JObj default_items)
   \<and> map_of default_items ''conversations'' = Some (JObj [])
   \<and> list_all (\<lambda>ev. write_of ev \<noteq> Some WriteFailed
                    \<and> write_of ev \<noteq> Some WriteFailedMidCharacter) sample_events
   \<and> (\<exists>kvs cs c.
         init_default_data ''u-0'' ''2024-01-01T09:00:00'' Written Absent =
           (Inr (initial_state ''u-0'' ''2024-01-01T09:00:00''),
            Parsed (initial_state ''u-0'' ''2024-01-01T09:00:00''))
       \<and> load_data (data_file (run (Some ''key'') sample_repr
           \<lparr>data_file = Parsed (initial_state ''u-0'' ''2024-01-01T09:00:00''), timers = []\<rparr>
           sample_events)) = Inr (JObj kvs)
       \<and> map_of kvs ''conversations'' = Some (JObj cs)
       \<and> map_of cs ''conv-default'' = Some c
       \<and> is_conversation ''conv-default'' c)"
proof -
  have h1: "load_data Absent = Inr (JObj default_items)"
    by (simp add: load_data_def default_data_def)
  have h2: "map_of default_items ''conversations'' = Some (JObj [])"
    by (simp add: default_items_def)
  have h3: "map_of [] ''conv-default'' = None
         \<or> (\<exists>c0. map_of [] ''conv-default'' = Some c0 \<and> is_conversation ''conv-default'' c0)"
    by simp
  have w: "\<forall>ev \<in> set sample_events. write_of ev \<noteq> Some WriteFailed
                          \<and> write_of ev \<noteq> Some WriteFailedMidCharacter"
    by (simp add: sample_events_def)
  have i: "init_default_data ''u-0'' ''2024-01-01T09:00:00'' Written Absent =
       (Inr (initial_state ''u-0'' ''2024-01-01T09:00:00''),
        Parsed (initial_state ''u-0'' ''2024-01-01T09:00:00''))"
    by (simp add: init_absent save_data_def)
  from default_conversation_invariant
         [OF h1 h2 h3 w, of "''u-0''" "''2024-01-01T09:00:00''" "Some ''key''" sample_repr]
  obtain data kvs cs c where
    r: "init_default_data ''u-0'' ''2024-01-01T09:00:00'' Written Absent = (Inr data, Parsed data)"
       "load_data (data_file (run (Some ''key'') sample_repr
           \<lparr>data_file = Parsed data, timers = []\<rparr> sample_events)) = Inr (JObj kvs)"
       "map_of kvs ''conversations'' = Some (JObj cs)"
       "map_of cs ''conv-default'' = Some c"
       "is_conversation ''conv-default'' c"
    by (elim exE conjE) (rule that)
  from r(1) i have "data = initial_state ''u-0'' ''2024-01-01T09:00:00''" by simp
  with r i have "\<exists>kvs cs c.
         init_default_data ''u-0'' ''2024-01-01T09:00:00'' Written Absent =
           (Inr (initial_state ''u-0'' ''2024-01-01T09:00:00''),
            Parsed (initial_state ''u-0'' ''2024-01-01T09:00:00''))
       \<and> load_data (data_file (run (Some ''key'') sample_repr
           \<lparr>data_file = Parsed (initial_state ''u-0'' ''2024-01-01T09:00:00''), timers = []\<rparr>
           sample_events)) = Inr (JObj kvs)
       \<and> map_of kvs ''conversations'' = Some (JObj cs)
       \<and> map_of cs ''conv-default'' = Some c
       \<and> is_conversation ''conv-default'' c"
    by blast
  with h1 h2 w show ?thesis by (simp add: list_all_iff)
qed

subsection \<open>C8: no reply while \<^verbatim>\<open>geminiEnabled\<close> is false\<close>

text \<open>
  C8: in a state in which \<^verbatim>\<open>geminiEnabled\<close> is not truthy, \<^verbatim>\<open>add_message\<close> starts no
  timer, for every payload and every outcome of the write.  Hence, from a state with
  the flag off and no timer pending, along every sequence of events without a toggle
  of the flag, no timer is ever pending and the flag stays off, so the notifier, the
  one piece of code that adds a message on the system's behalf, never runs: a firing
  changes nothing.
\<close>

theorem gemini_disabled_never_replies:
  "(\<not> gemini_enabled f \<longrightarrow> snd (snd (add_message cid md uid now so f)) = None)
   \<and> (\<not> gemini_enabled (data_file w) \<and> timers w = []
        \<and> (\<forall>ev \<in> set evs. \<not> is_toggle_gemini ev)
      \<longrightarrow> timers (run api_key repr w evs) = []
          \<and> \<not> gemini_enabled (data_file (run api_key repr w evs))
          \<and> (\<forall>i http uid' now' so'.
                step api_key repr (run api_key repr w evs) (TimerFires i http uid' now' so') =
                  run api_key repr w evs))"
proof (rule conjI)
  show "\<not> gemini_enabled f \<longrightarrow> snd (snd (add_message cid md uid now so f)) = None"
    using add_message_no_timer by blast
next
  show "\<not> gemini_enabled (data_file w) \<and> timers w = []
        \<and> (\<forall>ev \<in> set evs. \<not> is_toggle_gemini ev)
      \<longrightarrow> timers (run api_key repr w evs) = []
          \<and> \<not> gemini_enabled (data_file (run api_key repr w evs))
          \<and> (\<forall>i http uid' now' so'.
                step api_key repr (run api_key repr w evs) (TimerFires i http uid' now' so') =
                  run api_key repr w evs)"
  proof (rule impI)
    assume a: "\<not> gemini_enabled (data_file w) \<and> timers w = []
        \<and> (\<forall>ev \<in> set evs. \<not> is_toggle_gemini ev)"
    then have r: "\<not> gemini_enabled (data_file (run api_key repr w evs))
       \<and> timers (run api_key repr w evs) = []"
      by (intro run_gemini_off) simp_all
    then show "timers (run api_key repr w evs) = []
          \<and> \<not> gemini_enabled (data_file (run api_key repr w evs))
          \<and> (\<forall>i http uid' now' so'.
                step api_key repr (run api_key repr w evs) (TimerFires i http uid' now' so') =
                  run api_key repr w evs)"
      by simp
  qed
qed

theorem gemini_disabled_never_replies_witness:
  "\<not> gemini_enabled (Parsed (initial_state ''u-0'' ''2024-01-01T09:00:00''))
   \<and> fst (fst (add_message ''conv-default'' (Inr (JObj sample_payload)) ''m-1'' ''2024-01-01T10:01:00''
         Written (Parsed (initial_state ''u-0'' ''2024-01-01T09:00:00'')))) = 201
   \<and> snd (snd (add_message ''conv-default'' (Inr (JObj sample_payload)) ''m-1'' ''2024-01-01T10:01:00''
         Written (Parsed (initial_state ''u-0'' ''2024-01-01T09:00:00'')))) = None
   \<and> list_all (\<lambda>ev. \<not> is_toggle_gemini ev) sample_quiet_events
   \<and> timers (run (Some ''key'') sample_repr
         \<lparr>data_file = Parsed (initial_state ''u-0'' ''2024-01-01T09:00:00''), timers = []\<rparr>
         sample_quiet_events) = []
   \<and> \<not> gemini_enabled (data_file (run (Some ''key'') sample_repr
         \<lparr>data_file = Parsed (initial_state ''u-0'' ''2024-01-01T09:00:00''), timers = []\<rparr>
         sample_quiet_events))"
proof -
  let ?f = "Parsed (initial_state ''u-0'' ''2024-01-01T09:00:00'')"
  let ?w = "\<lparr>data_file = ?f, timers = []\<rparr>"
  have off: "\<not> gemini_enabled ?f" by (rule gemini_off_initial)
  have q: "\<forall>ev \<in> set sample_quiet_events. \<not> is_toggle_gemini ev"
    by (simp add: sample_quiet_events_def)
  note t = gemini_disabled_never_replies
    [of ?f "''conv-default''" "Inr (JObj sample_payload)" "''m-1''" "''2024-01-01T10:01:00''" Written
        ?w sample_quiet_events "Some ''key''" sample_repr]
  from t off have a: "snd (snd (add_message ''conv-default'' (Inr (JObj sample_payload)) ''m-1''
         ''2024-01-01T10:01:00'' Written ?f)) = None"
    by blast
  from t off q have b: "timers (run (Some ''key'') sample_repr ?w sample_quiet_events) = []"
    and c: "\<not> gemini_enabled (data_file (run (Some ''key'') sample_repr ?w sample_quiet_events))"
    by simp_all
  from off post_to_initial a q b c show ?thesis by (simp add: list_all_iff)
qed

end
